theory Spec2Isabelle
  imports Complex_Main
begin

section \<open>Numbers\<close>

text \<open>
  The simulator computes with JavaScript numbers.  Finite numbers are modelled as
  exact reals.  Where the source can leave the finite numbers on the inputs the
  properties below are about (a division by zero, \<open>Math.max()\<close> of no arguments,
  arithmetic on \<open>undefined\<close>), the result is a \<open>jsnum\<close>, which adds the two
  infinities and NaN.

  \<open>Math.pow(x, y)\<close> with a literal natural exponent is written \<open>x ^ n\<close>; with a
  fractional exponent it is written \<open>x powr y\<close>, which agrees with the source for
  \<open>x > 0\<close> and for \<open>x = 0\<close>, \<open>y > 0\<close>.  \<open>Math.log\<close> is \<open>ln\<close>, \<open>Math.log10\<close> is
  \<open>log 10\<close>, both on positive arguments.
\<close>

datatype jsnum = Num real | PosInfinity | NegInfinity | NaN

text \<open>\<open>a < r\<close> and \<open>a >= r\<close> for a finite right-hand side; every comparison with NaN is false.\<close>

fun js_less :: "jsnum \<Rightarrow> real \<Rightarrow> bool" where
  "js_less (Num x) r = (x < r)"
| "js_less PosInfinity r = False"
| "js_less NegInfinity r = True"
| "js_less NaN r = False"

fun js_ge :: "jsnum \<Rightarrow> real \<Rightarrow> bool" where
  "js_ge (Num x) r = (x \<ge> r)"
| "js_ge PosInfinity r = True"
| "js_ge NegInfinity r = False"
| "js_ge NaN r = False"

fun js_greater :: "jsnum \<Rightarrow> real \<Rightarrow> bool" where
  "js_greater (Num x) r = (x > r)"
| "js_greater PosInfinity r = True"
| "js_greater NegInfinity r = False"
| "js_greater NaN r = False"

text \<open>\<open>a * c\<close> for a finite factor \<open>c\<close>.\<close>

fun js_times :: "jsnum \<Rightarrow> real \<Rightarrow> jsnum" where
  "js_times (Num x) c = Num (x * c)"
| "js_times PosInfinity c = (if c > 0 then PosInfinity else if c < 0 then NegInfinity else NaN)"
| "js_times NegInfinity c = (if c > 0 then NegInfinity else if c < 0 then PosInfinity else NaN)"
| "js_times NaN c = NaN"

fun js_sqrt :: "jsnum \<Rightarrow> jsnum" where
  "js_sqrt (Num x) = (if x < 0 then NaN else Num (sqrt x))"
| "js_sqrt PosInfinity = PosInfinity"
| "js_sqrt NegInfinity = NaN"
| "js_sqrt NaN = NaN"

text \<open>\<open>Math.max(...xs)\<close> of a list of finite numbers: \<open>-Infinity\<close> when the list is empty.\<close>

fun Math_max_spread :: "real list \<Rightarrow> jsnum" where
  "Math_max_spread [] = NegInfinity"
| "Math_max_spread (x # xs) = Num (fold max xs x)"

section \<open>Constants (utils/constants.js)\<close>

definition EARTH_RADIUS :: real where "EARTH_RADIUS = 6371000"
definition EARTH_GRAVITY :: real where "EARTH_GRAVITY = 9.81"
definition EARTH_CRUST_DENSITY :: real where "EARTH_CRUST_DENSITY = 2700"
definition WATER_DENSITY :: real where "WATER_DENSITY = 1000"
definition ATMOSPHERE_SCALE_HEIGHT :: real where "ATMOSPHERE_SCALE_HEIGHT = 8400"
definition AIR_DENSITY_SEA_LEVEL :: real where "AIR_DENSITY_SEA_LEVEL = 1.225"
definition SEISMIC_VELOCITY :: real where "SEISMIC_VELOCITY = 6000"

text \<open>\<open>DAMAGE_THRESHOLDS.OVERPRESSURE\<close> (Pa) and \<open>DAMAGE_THRESHOLDS.THERMAL\<close> (joules per square centimetre).\<close>

definition LIGHT_DAMAGE :: real where "LIGHT_DAMAGE = 6895"
definition MODERATE_DAMAGE :: real where "MODERATE_DAMAGE = 34475"
definition HEAVY_DAMAGE :: real where "HEAVY_DAMAGE = 68950"
definition FIRST_DEGREE_BURN :: real where "FIRST_DEGREE_BURN = 25"
definition SECOND_DEGREE_BURN :: real where "SECOND_DEGREE_BURN = 37.5"
definition THIRD_DEGREE_BURN :: real where "THIRD_DEGREE_BURN = 62.5"

section \<open>Atmospheric entry (physics/atmosphere.js)\<close>

record AtmosphereResults =
  atm_survivesAtmosphere :: bool
  atm_airburstAltitude :: real
  atm_airburstEnergy :: real
  atm_finalVelocity :: real
  atm_finalMass :: real
  atm_finalDiameter :: real

definition calculateSurvivalDiameter :: "real \<Rightarrow> real \<Rightarrow> real" where
  "calculateSurvivalDiameter velocity density =
     (let strengthFactor = sqrt (density / 3000);
          velocityFactor = (velocity / 20) powr 0.5
      in 50 * strengthFactor / velocityFactor)"

definition getMaterialStrength :: "real \<Rightarrow> real" where
  "getMaterialStrength density =
     (if density < 1000 then 1000000
      else if density < 5000 then 100000000
      else 1000000000)"

definition calculateAirburstAltitude :: "real \<Rightarrow> real \<Rightarrow> real \<Rightarrow> real" where
  "calculateAirburstAltitude diameter velocity density =
     (let dynamicPressure = 0.5 * AIR_DENSITY_SEA_LEVEL * (velocity * 1000) ^ 2;
          strength = getMaterialStrength density;
          altitudeFactor = ln (dynamicPressure / strength);
          altitude = ATMOSPHERE_SCALE_HEIGHT * altitudeFactor
      in max altitude 10000)"

definition calculateMassLossRatio :: "real \<Rightarrow> real \<Rightarrow> real \<Rightarrow> real" where
  "calculateMassLossRatio diameter velocity density =
     (let surfaceAreaToVolume = 6 / diameter;
          velocityFactor = (velocity / 20) ^ 2;
          strengthFactor = 3000 / density;
          massLoss = 0.1 * surfaceAreaToVolume * velocityFactor * strengthFactor
      in min massLoss 0.9)"

definition calculateFinalVelocity :: "real \<Rightarrow> real \<Rightarrow> real \<Rightarrow> real" where
  "calculateFinalVelocity velocity diameter density =
     (let massLossRatio = calculateMassLossRatio diameter velocity density;
          velocityRetention = 1 - massLossRatio * 0.3
      in velocity * max velocityRetention 0.5)"

definition calculateFinalMass :: "real \<Rightarrow> real \<Rightarrow> real \<Rightarrow> real \<Rightarrow> real" where
  "calculateFinalMass mass diameter velocity density =
     (let massLossRatio = calculateMassLossRatio diameter velocity density
      in mass * (1 - massLossRatio))"

definition calculateAtmosphericEntry ::
  "real \<Rightarrow> real \<Rightarrow> real \<Rightarrow> real \<Rightarrow> real \<Rightarrow> AtmosphereResults" where
  "calculateAtmosphericEntry diameter velocity angle density mass =
     (let survivalDiameter = calculateSurvivalDiameter velocity density;
          survivesAtmosphere = (diameter \<ge> survivalDiameter)
      in if \<not> survivesAtmosphere then
           \<lparr> atm_survivesAtmosphere = False,
             atm_airburstAltitude = calculateAirburstAltitude diameter velocity density,
             atm_airburstEnergy = mass * (velocity * 1000) ^ 2 * 0.5,
             atm_finalVelocity = 0,
             atm_finalMass = 0,
             atm_finalDiameter = 0 \<rparr>
         else
           (let finalVelocity = calculateFinalVelocity velocity diameter density;
                finalMass = calculateFinalMass mass diameter velocity density;
                finalDiameter = (finalMass / density * 6 / pi) powr (1/3)
            in \<lparr> atm_survivesAtmosphere = True,
                 atm_airburstAltitude = 0,
                 atm_airburstEnergy = 0,
                 atm_finalVelocity = finalVelocity,
                 atm_finalMass = finalMass,
                 atm_finalDiameter = finalDiameter \<rparr>))"

section \<open>Crater formation (physics/crater.js)\<close>

record CraterResult =
  crater_diameter :: real
  crater_depth :: real
  crater_volume :: real
  crater_rimHeight :: real
  crater_ejectaRange :: real
  crater_efficiency :: real
  crater_shape :: string

definition calculateCraterDiameter :: "real \<Rightarrow> real \<Rightarrow> real \<Rightarrow> real" where
  "calculateCraterDiameter energy velocity mass =
     (let K = 1.161;
          L = (mass / EARTH_CRUST_DENSITY) powr (1/3);
          scalingFactor = (energy / (EARTH_CRUST_DENSITY * EARTH_GRAVITY)) powr 0.25;
          sizeFactor = L powr (- 0.25)
      in K * scalingFactor * sizeFactor)"

definition calculateCraterDepth :: "real \<Rightarrow> real" where
  "calculateCraterDepth diameter =
     (let transitionDiameter = 2000
      in if diameter < transitionDiameter then diameter * 0.2 else diameter * 0.1)"

definition calculateCraterVolume :: "real \<Rightarrow> real \<Rightarrow> real" where
  "calculateCraterVolume diameter depth =
     (let radius = diameter / 2; height = depth
      in (pi * height ^ 2 * (3 * radius - height)) / 3)"

definition calculateRimHeight :: "real \<Rightarrow> real" where
  "calculateRimHeight diameter =
     (let heightRatio = (if diameter < 2000 then 0.07 else 0.03) in diameter * heightRatio)"

definition calculateEjectaRange :: "real \<Rightarrow> real \<Rightarrow> real" where
  "calculateEjectaRange diameter velocity =
     (let baseRange = 2.5 * diameter; velocityFactor = min (velocity / 20) 2
      in baseRange * velocityFactor)"

definition determineCraterShape :: "real \<Rightarrow> string" where
  "determineCraterShape angle =
     (if angle \<ge> 60 then ''circular'' else if angle \<ge> 30 then ''elliptical'' else ''elongated'')"

definition calculateCrater :: "real \<Rightarrow> real \<Rightarrow> real \<Rightarrow> real \<Rightarrow> real \<Rightarrow> CraterResult" where
  "calculateCrater diameter velocity angle density energy =
     (let angleRad = (angle * pi) / 180;
          efficiency = sin angleRad;
          effectiveEnergy = energy * efficiency;
          projectileRadius = diameter / 2;
          projectileMass = (4/3) * pi * projectileRadius ^ 3 * density;
          craterDiameter = calculateCraterDiameter effectiveEnergy velocity projectileMass;
          craterDepth = calculateCraterDepth craterDiameter;
          craterVolume = calculateCraterVolume craterDiameter craterDepth;
          rimHeight = calculateRimHeight craterDiameter;
          ejectaRange = calculateEjectaRange craterDiameter velocity
      in \<lparr> crater_diameter = craterDiameter,
           crater_depth = craterDepth,
           crater_volume = craterVolume,
           crater_rimHeight = rimHeight,
           crater_ejectaRange = ejectaRange,
           crater_efficiency = efficiency,
           crater_shape = determineCraterShape angle \<rparr>)"

section \<open>Blast wave (physics/waves.js)\<close>

record BlastResult =
  radius1psi :: real
  radius5psi :: real
  radius10psi :: real
  overpressureRadii :: "(real \<times> real) list"

definition calculateEffectiveEnergy :: "real \<Rightarrow> real \<Rightarrow> real" where
  "calculateEffectiveEnergy energy angle =
     (let angleRad = (angle * pi) / 180; efficiency = sin angleRad in energy * efficiency)"

definition calculateOverpressureRadius :: "real \<Rightarrow> real \<Rightarrow> real" where
  "calculateOverpressureRadius energy targetPressure =
     (let radius = (energy / (4 * pi * targetPressure)) powr (1/3) in max radius 0)"

text \<open>Each entry of \<open>overpressureRadii\<close> is the pair (pressure, radius).\<close>

definition calculateMultipleRadii :: "real \<Rightarrow> (real \<times> real) list" where
  "calculateMultipleRadii energy =
     map (\<lambda>pressure. (pressure, calculateOverpressureRadius energy pressure))
       [1000, 5000, 10000, 20000, 50000]"

definition calculateBlastWave :: "real \<Rightarrow> real \<Rightarrow> BlastResult" where
  "calculateBlastWave energy angle =
     (let effectiveEnergy = calculateEffectiveEnergy energy angle
      in \<lparr> radius1psi = calculateOverpressureRadius effectiveEnergy LIGHT_DAMAGE,
           radius5psi = calculateOverpressureRadius effectiveEnergy MODERATE_DAMAGE,
           radius10psi = calculateOverpressureRadius effectiveEnergy HEAVY_DAMAGE,
           overpressureRadii = calculateMultipleRadii effectiveEnergy \<rparr>)"

section \<open>Thermal radiation (physics/thermal.js)\<close>

record Fireball =
  fb_radius :: real
  fb_duration :: real
  fb_temperature :: real
  totalRadiantEnergy :: real

record ThermalResult =
  radius1deg :: real
  radius2deg :: real
  radius3deg :: real
  th_duration :: real
  th_fireball :: Fireball

definition calculateFireball :: "real \<Rightarrow> Fireball" where
  "calculateFireball energy =
     \<lparr> fb_radius = (energy / 4184000000) powr 0.4 * 180,
       fb_duration = (energy / 4184000000) powr 0.25 * 0.4,
       fb_temperature = 6000,
       totalRadiantEnergy = energy * 0.35 \<rparr>"

definition calculateBurnRadius :: "Fireball \<Rightarrow> real \<Rightarrow> real" where
  "calculateBurnRadius fireball threshold =
     (let fireballRadius = fb_radius fireball;
          fireballSurfaceArea = 4 * pi * fireballRadius ^ 2;
          fireballFluence = totalRadiantEnergy fireball / fireballSurfaceArea;
          thresholdJm2 = threshold * 10000;
          burnRadius = fireballRadius * sqrt (fireballFluence / thresholdJm2)
      in max burnRadius fireballRadius)"

definition calculateThermalRadiation :: "real \<Rightarrow> real \<Rightarrow> ThermalResult" where
  "calculateThermalRadiation energy diameter =
     (let fireball = calculateFireball energy;
          r1 = calculateBurnRadius fireball FIRST_DEGREE_BURN;
          r2 = calculateBurnRadius fireball SECOND_DEGREE_BURN;
          r3 = calculateBurnRadius fireball THIRD_DEGREE_BURN
      in \<lparr> radius1deg = r1, radius2deg = r2, radius3deg = r3,
           th_duration = fb_duration fireball, th_fireball = fireball \<rparr>)"


section \<open>Seismic effects (physics/seismic.js)\<close>

record Location =
  latitude :: real
  longitude :: real

record IntensityLevel =
  lvl_intensity :: int
  lvl_description :: string
  lvl_damageLevel :: real
  lvl_baseRadius :: real

record IntensityZone =
  zone_intensity :: int
  zone_description :: string
  zone_radius :: real
  zone_damageLevel :: real
  zone_peakAcceleration :: real
  zone_center :: Location
  zone_color :: string
  zone_opacity :: real

record GroundMotion =
  peakGroundAcceleration :: real
  maxIntensity :: int

record Fragility =
  frag_light :: real
  frag_moderate :: real
  frag_extensive :: real
  frag_complete :: real

record BuildingAssessment =
  bld_name :: string
  damageStates :: Fragility
  expectedLoss :: real

record ZoneAssessment =
  za_intensity :: int
  za_radius :: real
  buildings :: "(string \<times> BuildingAssessment) list"

record WaveArrival =
  wa_name :: string
  wa_arrivalTime :: real
  wa_velocity :: real

record ZoneArrival =
  arr_distance :: real
  arr_intensity :: int
  waveArrivals :: "(string \<times> WaveArrival) list"

text \<open>
  A field that the returned object does not have is \<open>None\<close>: the two early returns
  carry \<open>peakAcceleration\<close> and no ground motion, damage assessment, arrival times,
  duration or frequency; the full result is the other way round.  Fields that hold
  the same constant in every result are left out: the attenuation model name and
  the crustal properties of the ground motion, the all-zero \<open>totalDamage\<close> of the
  damage assessment, and the epicenter and wave table repeated in the arrival times.
\<close>

record SeismicResult =
  seis_magnitude :: real
  significant :: bool
  effectRadius :: jsnum
  zones :: "IntensityZone list"
  seis_peakAcceleration :: "real option"
  seis_groundMotion :: "GroundMotion option"
  damageAssessment :: "ZoneAssessment list option"
  seis_arrivalTimes :: "ZoneArrival list option"
  seis_duration :: "real option"
  seis_frequency :: "jsnum option"

definition calculateMagnitude :: "real \<Rightarrow> real" where
  "calculateMagnitude energy =
     (let seismicEnergy = energy * 0.01;
          logEnergy = log 10 seismicEnergy;
          magnitude = (logEnergy - 9.1) / 1.5
      in max 0 (min magnitude 10))"

definition getIntensityDescription :: "int \<Rightarrow> string" where
  "getIntensityDescription intensity =
     (if intensity = 12 then ''Extreme Destruction''
      else if intensity = 11 then ''Catastrophic''
      else if intensity = 10 then ''Disastrous''
      else if intensity = 9 then ''Violent''
      else if intensity = 8 then ''Severe''
      else if intensity = 7 then ''Very Strong''
      else if intensity = 6 then ''Strong''
      else if intensity = 5 then ''Moderate''
      else if intensity = 4 then ''Light''
      else if intensity = 3 then ''Weak''
      else if intensity = 2 then ''Very Weak''
      else if intensity = 1 then ''Not Felt''
      else ''Unknown'')"

definition getIntensityColor :: "int \<Rightarrow> string" where
  "getIntensityColor intensity =
     (if intensity = 12 then ''#FF0000''
      else if intensity = 11 then ''#FF2200''
      else if intensity = 10 then ''#FF4400''
      else if intensity = 9 then ''#FF6600''
      else if intensity = 8 then ''#FF8800''
      else if intensity = 7 then ''#FFAA00''
      else if intensity = 6 then ''#FFCC00''
      else if intensity = 5 then ''#FFDD00''
      else if intensity = 4 then ''#FFFF00''
      else if intensity = 3 then ''#CCFF33''
      else if intensity = 2 then ''#99FF66''
      else if intensity = 1 then ''#66FF99''
      else ''#CCCCCC'')"

definition intensityToPGA :: "int \<Rightarrow> real" where
  "intensityToPGA intensity = (let logPGA = real_of_int intensity / 3.0 - 1.5 in 10 powr logPGA)"

definition getSiteAmplification :: "Location \<Rightarrow> real" where
  "getSiteAmplification location = 0.0"

definition calculateIntensityRadius :: "real \<Rightarrow> int \<Rightarrow> Location \<Rightarrow> real" where
  "calculateIntensityRadius magnitude intensity location =
     (let A = 2.0; B = 1.5; C = 3.5;
          siteAmp = getSiteAmplification location;
          logR = (A + B * magnitude + siteAmp - real_of_int intensity) / C;
          radiusKm = 10 powr logR
      in max (radiusKm * 1000) 0)"

text \<open>The loop \<open>for (let i = baseIntensity; i >= 3; i -= 2)\<close> that fills \<open>intensityLevels\<close>.\<close>

function intensityLevelsFrom :: "int \<Rightarrow> int \<Rightarrow> real \<Rightarrow> IntensityLevel list" where
  "intensityLevelsFrom baseIntensity i craterDiameter =
     (if i \<ge> 3 then
        (let radiusMultiplier = 2 powr (real_of_int (baseIntensity - i) / 2)
         in \<lparr> lvl_intensity = i,
              lvl_description = getIntensityDescription i,
              lvl_damageLevel = real_of_int i / 12,
              lvl_baseRadius = craterDiameter * radiusMultiplier \<rparr>
            # intensityLevelsFrom baseIntensity (i - 2) craterDiameter)
      else [])"
  by pat_completeness auto
termination
  by (relation "measure (\<lambda>(b, i, c). nat i)") auto

declare intensityLevelsFrom.simps [simp del]

text \<open>
  \<open>intensityLevels.forEach((level, index) => ...)\<close>: a zone is pushed only when
  its radius exceeds the floor \<open>Math.max(level.baseRadius, 500)\<close>.
\<close>

fun collectZones :: "real \<Rightarrow> Location \<Rightarrow> IntensityLevel list \<Rightarrow> nat \<Rightarrow> IntensityZone list" where
  "collectZones magnitude location [] index = []"
| "collectZones magnitude location (level # rest) index =
     (let radius = calculateIntensityRadius magnitude (lvl_intensity level) location;
          minRadius = max (lvl_baseRadius level) 500
      in (if radius > minRadius then
            [\<lparr> zone_intensity = lvl_intensity level,
               zone_description = lvl_description level,
               zone_radius = radius,
               zone_damageLevel = lvl_damageLevel level,
               zone_peakAcceleration = intensityToPGA (lvl_intensity level),
               zone_center = \<lparr> latitude = latitude location, longitude = longitude location \<rparr>,
               zone_color = getIntensityColor (lvl_intensity level),
               zone_opacity = 0.7 - (real index * 0.1) \<rparr>]
          else [])
         @ collectZones magnitude location rest (Suc index))"

text \<open>
  \<open>zones.sort((a, b) => b.radius - a.radius)\<close>: the sort is stable and the
  comparator orders by descending radius, which is the stable insertion sort on
  the key \<open>- radius\<close>.
\<close>

definition calculateIntensityZones :: "real \<Rightarrow> Location \<Rightarrow> real \<Rightarrow> IntensityZone list" where
  "calculateIntensityZones magnitude location craterDiameter =
     (let baseIntensity = min 12 (max 3 (\<lfloor>magnitude * 1.5 + 2\<rfloor>));
          intensityLevels = intensityLevelsFrom baseIntensity baseIntensity craterDiameter;
          zones = collectZones magnitude location intensityLevels 0
      in sort_key (\<lambda>z. - zone_radius z) zones)"

text \<open>\<open>zones.length > 0 ? Math.max(...) : 0\<close>, for both maxima.\<close>

definition calculateGroundMotionParameters :: "real \<Rightarrow> IntensityZone list \<Rightarrow> GroundMotion" where
  "calculateGroundMotionParameters magnitude zs =
     \<lparr> peakGroundAcceleration =
         (case map zone_peakAcceleration zs of [] \<Rightarrow> 0 | x # xs \<Rightarrow> fold max xs x),
       maxIntensity =
         (case map zone_intensity zs of [] \<Rightarrow> 0 | x # xs \<Rightarrow> fold max xs x) \<rparr>"

definition calculateFragilityCurve :: "int \<Rightarrow> real \<Rightarrow> Fragility" where
  "calculateFragilityCurve intensity vulnerability =
     (let adjustedIntensity = real_of_int intensity * vulnerability
      in \<lparr> frag_light = min (adjustedIntensity / 12 * 0.8) 0.8,
           frag_moderate = min (max (adjustedIntensity - 4) 0 / 8 * 0.6) 0.6,
           frag_extensive = min (max (adjustedIntensity - 6) 0 / 6 * 0.4) 0.4,
           frag_complete = min (max (adjustedIntensity - 8) 0 / 4 * 0.2) 0.2 \<rparr>)"

definition damageCategories :: "(string \<times> string \<times> real) list" where
  "damageCategories =
     [(''residential'', ''Residential Buildings'', 1.0),
      (''commercial'', ''Commercial Buildings'', 0.8),
      (''industrial'', ''Industrial Facilities'', 0.6),
      (''critical'', ''Critical Infrastructure'', 0.4)]"

definition assessBuildingDamage :: "IntensityZone list \<Rightarrow> ZoneAssessment list" where
  "assessBuildingDamage zs =
     map (\<lambda>zone.
        \<lparr> za_intensity = zone_intensity zone,
          za_radius = zone_radius zone,
          buildings =
            map (\<lambda>(type, name, vulnerability).
                   (let fragility = calculateFragilityCurve (zone_intensity zone) vulnerability
                    in (type,
                        \<lparr> bld_name = name,
                          damageStates = fragility,
                          expectedLoss = frag_complete fragility * 0.6
                            + frag_extensive fragility * 0.3 + frag_moderate fragility * 0.1 \<rparr>)))
              damageCategories \<rparr>) zs"

definition waveTypes :: "(string \<times> real \<times> string) list" where
  "waveTypes =
     [(''pWave'', 6000, ''P-Wave (Primary)''),
      (''sWave'', 3500, ''S-Wave (Secondary)''),
      (''surface'', 2800, ''Surface Waves'')]"

definition calculateArrivalTimes :: "Location \<Rightarrow> IntensityZone list \<Rightarrow> ZoneArrival list" where
  "calculateArrivalTimes epicenter zs =
     map (\<lambda>zone.
        (let distance = zone_radius zone
         in \<lparr> arr_distance = distance,
              arr_intensity = zone_intensity zone,
              waveArrivals =
                map (\<lambda>(type, velocity, name).
                       (type, \<lparr> wa_name = name, wa_arrivalTime = distance / velocity,
                                wa_velocity = velocity \<rparr>))
                  waveTypes \<rparr>)) zs"

definition calculateShakingDuration :: "real \<Rightarrow> real" where
  "calculateShakingDuration magnitude =
     (let tectonicDuration = 10 powr (0.5 * magnitude - 1.5) in max (tectonicDuration * 0.3) 5)"

text \<open>
  \<open>1.0 / Math.sqrt(craterDiameter / 1000)\<close> is \<open>Infinity\<close> for a crater of diameter
  0, which the clamp turns into 50, and NaN for a negative diameter.
\<close>

definition calculateDominantFrequency :: "real \<Rightarrow> real \<Rightarrow> jsnum" where
  "calculateDominantFrequency magnitude craterDiameter =
     (let magnitudeEffect = 10 powr ((5 - magnitude) / 3)
      in if craterDiameter > 0 then
           (let baseFreq = 1.0 / sqrt (craterDiameter / 1000)
            in Num (max (min (baseFreq * magnitudeEffect) 50) 0.1))
         else if craterDiameter = 0 then Num 50
         else NaN)"

text \<open>
  The location is \<open>None\<close> when the source's guard rejects it (no object, or a
  latitude or longitude that is not a number).
\<close>

definition calculateSeismicEffects :: "real \<Rightarrow> Location option \<Rightarrow> real \<Rightarrow> SeismicResult" where
  "calculateSeismicEffects energy location craterDiameter =
     (case location of
        None \<Rightarrow>
          \<lparr> seis_magnitude = 0, significant = False, effectRadius = Num 0, zones = [],
            seis_peakAcceleration = Some 0, seis_groundMotion = None, damageAssessment = None,
            seis_arrivalTimes = None, seis_duration = None, seis_frequency = None \<rparr>
      | Some loc \<Rightarrow>
          (let magnitude = calculateMagnitude energy
           in if magnitude < 3.0 then
                \<lparr> seis_magnitude = magnitude, significant = False, effectRadius = Num 0,
                  zones = [], seis_peakAcceleration = Some 0, seis_groundMotion = None,
                  damageAssessment = None, seis_arrivalTimes = None, seis_duration = None,
                  seis_frequency = None \<rparr>
              else
                (let intensityZones = calculateIntensityZones magnitude loc craterDiameter;
                     groundMotion = calculateGroundMotionParameters magnitude intensityZones;
                     damage = assessBuildingDamage intensityZones;
                     arrivalTimes = calculateArrivalTimes loc intensityZones
                 in \<lparr> seis_magnitude = magnitude, significant = True,
                      effectRadius = Math_max_spread (map zone_radius intensityZones),
                      zones = intensityZones, seis_peakAcceleration = None,
                      seis_groundMotion = Some groundMotion, damageAssessment = Some damage,
                      seis_arrivalTimes = Some arrivalTimes,
                      seis_duration = Some (calculateShakingDuration magnitude),
                      seis_frequency = Some (calculateDominantFrequency magnitude craterDiameter) \<rparr>)))"

section \<open>Tsunami (physics/tsunami.js)\<close>

record OceanImpact =
  inOcean :: bool
  waterDepth :: real
  oceanBasin :: "string option"
  nearestCoast :: "string option"

record InitialWave =
  iw_height :: jsnum
  wavelength :: real
  period :: real
  iw_speed :: real
  iw_energy :: real
  displacementVolume :: real
  transferEfficiency :: real
  waveType :: string

record WaveFront =
  wf_time :: real
  wf_radius :: real
  wf_height :: jsnum
  wf_speed :: real
  wf_energy :: real

record Propagation =
  prop_epicenter :: Location
  prop_initialWave :: InitialWave
  waveFronts :: "WaveFront list"

text \<open>
  The ocean impact leaves out the copy of the location, and the propagation data
  its two containers \<open>travelTimes\<close> and \<open>energyDecay\<close>, which stay empty.
  A coastline's \<open>coordinates\<close> object is kept as its list of keys and values,
  because the keys the table uses (\<open>lat\<close>, \<open>lng\<close>) are not the keys the distance
  function reads (\<open>latitude\<close>, \<open>longitude\<close>).
\<close>

record Coastline =
  cl_name :: string
  cl_coordinates :: "(string \<times> real) list"
  cl_population :: real
  cl_topography :: string

record CoastalEffect =
  ce_location :: string
  ce_latitude :: "real option"
  ce_longitude :: "real option"
  ce_distance :: real
  ce_arrivalTime :: real
  ce_waveHeight :: jsnum
  ce_runUpHeight :: jsnum
  ce_inundationDistance :: jsnum
  ce_velocity :: jsnum
  ce_hazardLevel :: string
  ce_populationAtRisk :: real

definition isOceanCoordinate :: "real \<Rightarrow> real \<Rightarrow> bool" where
  "isOceanCoordinate lat lng =
     (if lng \<ge> -80 \<and> lng \<le> 20 \<and> \<bar>lat\<bar> < 70 then True
      else if (lng \<ge> -180 \<and> lng \<le> -80) \<or> (lng \<ge> 120 \<and> lng \<le> 180) then True
      else if lng \<ge> 20 \<and> lng \<le> 120 \<and> lat \<ge> -60 \<and> lat \<le> 30 then True
      else False)"

definition estimateWaterDepth :: "real \<Rightarrow> real \<Rightarrow> real" where
  "estimateWaterDepth lat lng =
     (let absLat = \<bar>lat\<bar>
      in if absLat > 60 then 2000 else if absLat < 30 then 4000 else 3000)"

definition identifyOceanBasin :: "real \<Rightarrow> real \<Rightarrow> string" where
  "identifyOceanBasin lat lng =
     (if lng \<ge> -80 \<and> lng \<le> 20 then ''Atlantic''
      else if (lng \<ge> -180 \<and> lng \<le> -80) \<or> (lng \<ge> 120 \<and> lng \<le> 180) then ''Pacific''
      else if lng \<ge> 20 \<and> lng \<le> 120 then ''Indian''
      else ''Unknown'')"

text \<open>The \<open>reduce\<close> starts from the distance \<open>Infinity\<close>, here \<open>None\<close>.\<close>

definition findNearestCoastline :: "real \<Rightarrow> real \<Rightarrow> string" where
  "findNearestCoastline lat lng =
     (let distances =
            [(''North America West'', \<bar>lng + 120\<bar>),
             (''North America East'', \<bar>lng + 75\<bar>),
             (''Europe'', \<bar>lng - 0\<bar>),
             (''Asia'', \<bar>lng - 140\<bar>),
             (''Australia'', \<bar>lng - 140\<bar> + \<bar>lat + 25\<bar>)]
      in fst (fold (\<lambda>(name, dist) (mname, mdist).
                      if (case mdist of None \<Rightarrow> True | Some m \<Rightarrow> dist < m)
                      then (name, Some dist) else (mname, mdist))
                distances ([], None)))"

definition determineOceanImpact :: "Location \<Rightarrow> OceanImpact" where
  "determineOceanImpact location =
     (let lat = latitude location; lng = longitude location;
          isOcean = isOceanCoordinate lat lng
      in if \<not> isOcean then
           \<lparr> inOcean = False, waterDepth = 0, oceanBasin = None, nearestCoast = None \<rparr>
         else
           \<lparr> inOcean = True,
             waterDepth = estimateWaterDepth lat lng,
             oceanBasin = Some (identifyOceanBasin lat lng),
             nearestCoast = Some (findNearestCoastline lat lng) \<rparr>)"

definition calculateEnergyTransferEfficiency :: "real \<Rightarrow> real \<Rightarrow> real" where
  "calculateEnergyTransferEfficiency depth craterDiameter =
     (let depthFactor = min (depth / 1000) 1;
          sizeFactor = min (craterDiameter / 1000) 1
      in 0.001 * (1 + depthFactor) * (1 + sizeFactor))"

definition calculateWaterDisplacement :: "real \<Rightarrow> real \<Rightarrow> real" where
  "calculateWaterDisplacement craterDiameter depth =
     (let radius = craterDiameter / 2;
          displacementDepth = min (radius * 0.2) depth
      in (2/3) * pi * radius ^ 2 * displacementDepth)"

text \<open>
  \<open>heightSquared = (2 * energy) / (density * gravity * waveArea)\<close> divides by zero
  when nothing is displaced (a crater of diameter 0): the quotient is \<open>Infinity\<close>,
  NaN or \<open>-Infinity\<close> by the sign of the energy, and \<open>Math.sqrt(Math.max(_, 0))\<close>
  of these is \<open>Infinity\<close>, NaN and 0.  A negative volume makes \<open>waveArea\<close> NaN.
\<close>

definition calculateInitialWaveHeight :: "real \<Rightarrow> real \<Rightarrow> real \<Rightarrow> jsnum" where
  "calculateInitialWaveHeight energy volume depth =
     (if volume < 0 then NaN
      else
        (let waveArea = pi * (sqrt (volume / pi)) ^ 2
         in if waveArea = 0 then
              (if energy > 0 then PosInfinity else if energy < 0 then Num 0 else NaN)
            else
              (let heightSquared = (2 * energy) / (WATER_DENSITY * EARTH_GRAVITY * waveArea)
               in Num (sqrt (max heightSquared 0)))))"

definition calculateWavePeriod :: "real \<Rightarrow> real \<Rightarrow> real" where
  "calculateWavePeriod wl depth =
     (if depth < wl / 20 then wl / sqrt (EARTH_GRAVITY * depth)
      else sqrt (wl / (2 * pi * EARTH_GRAVITY)))"

definition calculateWaveSpeed :: "real \<Rightarrow> real \<Rightarrow> real" where
  "calculateWaveSpeed wl depth =
     (if depth < wl / 20 then sqrt (EARTH_GRAVITY * depth)
      else sqrt (EARTH_GRAVITY * wl / (2 * pi)))"

definition calculateInitialWave :: "real \<Rightarrow> real \<Rightarrow> real \<Rightarrow> InitialWave" where
  "calculateInitialWave energy depth craterDiameter =
     (let efficiency = calculateEnergyTransferEfficiency depth craterDiameter;
          tsunamiEnergy = energy * efficiency;
          volume = calculateWaterDisplacement craterDiameter depth;
          initialHeight = calculateInitialWaveHeight tsunamiEnergy volume depth;
          wl = max (craterDiameter * 50) (depth * 20)
      in \<lparr> iw_height = initialHeight,
           wavelength = wl,
           period = calculateWavePeriod wl depth,
           iw_speed = calculateWaveSpeed wl depth,
           iw_energy = tsunamiEnergy,
           displacementVolume = volume,
           transferEfficiency = efficiency,
           waveType = (if depth > wl / 20 then ''deep-water'' else ''shallow-water'') \<rparr>)"

definition calculateWaveHeightDecay :: "jsnum \<Rightarrow> real \<Rightarrow> real \<Rightarrow> jsnum" where
  "calculateWaveHeightDecay initialHeight distance wl =
     (let geometricDecay = 1 / sqrt (max (distance / 1000) 1);
          dissipationFactor = exp (- distance / (wl * 1000))
      in js_times (js_times initialHeight geometricDecay) dissipationFactor)"

definition calculateWaveSpeedAtDistance :: "InitialWave \<Rightarrow> real \<Rightarrow> real" where
  "calculateWaveSpeedAtDistance iw distance = iw_speed iw"

definition calculateEnergyAtDistance :: "real \<Rightarrow> real \<Rightarrow> real" where
  "calculateEnergyAtDistance initialEnergy distance = initialEnergy / max (distance / 1000) 1"

text \<open>
  The loop \<open>for (let step = 0; step < timeSteps; step++)\<close> of \<open>modelWavePropagation\<close>,
  with its two \<open>break\<close>s, from the step it is at.
\<close>

function propagateFrom :: "InitialWave \<Rightarrow> nat \<Rightarrow> WaveFront list" where
  "propagateFrom iw step =
     (let maxPropagationDistance = 20000; timeSteps = 24; timeInterval = 3600
      in if step < timeSteps then
           (let currentTime = real step * timeInterval;
                waveRadius = iw_speed iw * currentTime
            in if waveRadius > maxPropagationDistance * 1000 then []
               else
                 (let heightAtDistance =
                        calculateWaveHeightDecay (iw_height iw) waveRadius (wavelength iw)
                  in if js_less heightAtDistance 0.01 then []
                     else
                       \<lparr> wf_time = currentTime,
                         wf_radius = waveRadius,
                         wf_height = heightAtDistance,
                         wf_speed = calculateWaveSpeedAtDistance iw waveRadius,
                         wf_energy = calculateEnergyAtDistance (iw_energy iw) waveRadius \<rparr>
                       # propagateFrom iw (Suc step)))
         else [])"
  by pat_completeness auto
termination
  by (relation "measure (\<lambda>(iw, step). 24 - step)") auto

declare propagateFrom.simps [simp del]

definition modelWavePropagation :: "InitialWave \<Rightarrow> Location \<Rightarrow> Propagation" where
  "modelWavePropagation iw epicenter =
     \<lparr> prop_epicenter = epicenter, prop_initialWave = iw, waveFronts = propagateFrom iw 0 \<rparr>"

definition Math_atan2 :: "real \<Rightarrow> real \<Rightarrow> real" where
  "Math_atan2 y x =
     (if x > 0 then arctan (y / x)
      else if x < 0 \<and> y \<ge> 0 then arctan (y / x) + pi
      else if x < 0 then arctan (y / x) - pi
      else if y > 0 then pi / 2
      else if y < 0 then - pi / 2
      else 0)"

text \<open>
  The haversine distance.  Reading a key that the second point does not have
  gives \<open>undefined\<close>, and every product and sum with it is NaN, so the distance is
  NaN: \<open>None\<close> here.
\<close>

definition calculateDistance :: "Location \<Rightarrow> (string \<times> real) list \<Rightarrow> real option" where
  "calculateDistance point1 point2 =
     (case (map_of point2 ''latitude'', map_of point2 ''longitude'') of
        (Some lat2, Some lng2) \<Rightarrow>
          (let R = EARTH_RADIUS;
               phi1 = latitude point1 * pi / 180;
               phi2 = lat2 * pi / 180;
               dphi = (lat2 - latitude point1) * pi / 180;
               dlambda = (lng2 - longitude point1) * pi / 180;
               a = sin (dphi / 2) * sin (dphi / 2)
                   + cos phi1 * cos phi2 * sin (dlambda / 2) * sin (dlambda / 2);
               c = 2 * Math_atan2 (sqrt a) (sqrt (1 - a))
           in Some (R * c))
      | _ \<Rightarrow> None)"

definition getMajorCoastlines :: "Location \<Rightarrow> Coastline list" where
  "getMajorCoastlines epicenter =
     [\<lparr> cl_name = ''California Coast'', cl_coordinates = [(''lat'', 36), (''lng'', -122)],
        cl_population = 25000000, cl_topography = ''steep'' \<rparr>,
      \<lparr> cl_name = ''Japan Coast'', cl_coordinates = [(''lat'', 36), (''lng'', 140)],
        cl_population = 50000000, cl_topography = ''moderate'' \<rparr>,
      \<lparr> cl_name = ''Chile Coast'', cl_coordinates = [(''lat'', -30), (''lng'', -71)],
        cl_population = 5000000, cl_topography = ''steep'' \<rparr>,
      \<lparr> cl_name = ''Indonesia Coast'', cl_coordinates = [(''lat'', -6), (''lng'', 106)],
        cl_population = 30000000, cl_topography = ''flat'' \<rparr>,
      \<lparr> cl_name = ''Hawaii Islands'', cl_coordinates = [(''lat'', 21), (''lng'', -158)],
        cl_population = 1500000, cl_topography = ''steep'' \<rparr>]"

text \<open>\<open>waveFronts.find(...)\<close>; with a NaN target the test is false for every front.\<close>

definition findWaveAtDistance :: "WaveFront list \<Rightarrow> real option \<Rightarrow> WaveFront option" where
  "findWaveAtDistance fronts targetDistance =
     (case targetDistance of
        None \<Rightarrow> None
      | Some d \<Rightarrow> find (\<lambda>front. \<bar>wf_radius front - d\<bar> < wf_radius front * 0.1) fronts)"

definition amplificationFactor :: "string \<Rightarrow> real" where
  "amplificationFactor topography =
     (if topography = ''steep'' then 1.5
      else if topography = ''moderate'' then 2.0
      else if topography = ''flat'' then 3.0
      else 2.0)"

text \<open>\<open>calculateWaveRunUp\<close> returns the pair (maxHeight, velocity).\<close>

definition calculateWaveRunUp :: "WaveFront \<Rightarrow> Coastline \<Rightarrow> jsnum \<times> jsnum" where
  "calculateWaveRunUp wave coastline =
     (let amplification = amplificationFactor (cl_topography coastline)
      in (js_times (wf_height wave) amplification,
          js_sqrt (js_times (js_times (wf_height wave) (2 * EARTH_GRAVITY)) amplification)))"

definition slopeFactor :: "string \<Rightarrow> real" where
  "slopeFactor topography =
     (if topography = ''steep'' then 20
      else if topography = ''moderate'' then 100
      else if topography = ''flat'' then 1000
      else 100)"

definition calculateInundationDistance :: "jsnum \<Rightarrow> string \<Rightarrow> jsnum" where
  "calculateInundationDistance runUpMaxHeight topography =
     js_times runUpMaxHeight (slopeFactor topography)"

definition assessHazardLevel :: "jsnum \<Rightarrow> jsnum \<Rightarrow> string" where
  "assessHazardLevel waveHeight runUpHeight =
     (if js_greater runUpHeight 10 then ''extreme''
      else if js_greater runUpHeight 5 then ''high''
      else if js_greater runUpHeight 2 then ''moderate''
      else if js_greater runUpHeight 0.5 then ''low''
      else ''minimal'')"

text \<open>
  The body of \<open>for (const coastline of majorCoastlines)\<close>, with its \<open>continue\<close>,
  over the coastlines that are left.
\<close>

fun coastalEffectsOf :: "WaveFront list \<Rightarrow> Location \<Rightarrow> Coastline list \<Rightarrow> CoastalEffect list" where
  "coastalEffectsOf fronts epicenter [] = []"
| "coastalEffectsOf fronts epicenter (coastline # rest) =
     (let distance = calculateDistance epicenter (cl_coordinates coastline);
          arrivalWave = findWaveAtDistance fronts distance
      in (case (distance, arrivalWave) of
            (Some d, Some wave) \<Rightarrow>
              if js_less (wf_height wave) 0.1 then []
              else
                (let runUp = calculateWaveRunUp wave coastline;
                     inundation = calculateInundationDistance (fst runUp) (cl_topography coastline)
                 in [\<lparr> ce_location = cl_name coastline,
                       ce_latitude = map_of (cl_coordinates coastline) ''latitude'',
                       ce_longitude = map_of (cl_coordinates coastline) ''longitude'',
                       ce_distance = d,
                       ce_arrivalTime = wf_time wave,
                       ce_waveHeight = wf_height wave,
                       ce_runUpHeight = fst runUp,
                       ce_inundationDistance = inundation,
                       ce_velocity = snd runUp,
                       ce_hazardLevel = assessHazardLevel (wf_height wave) (fst runUp),
                       ce_populationAtRisk = cl_population coastline \<rparr>])
          | _ \<Rightarrow> [])
         @ coastalEffectsOf fronts epicenter rest)"

text \<open>
  What \<open>calculateCoastalEffects\<close> does with the table \<open>majorCoastlines\<close> once it has
  it: the loop, and \<open>coastalEffects.sort((a, b) => a.arrivalTime - b.arrivalTime)\<close>,
  the stable insertion sort on the key \<open>arrivalTime\<close>.
\<close>

definition coastalEffectsFor :: "Coastline list \<Rightarrow> WaveFront list \<Rightarrow> Location \<Rightarrow> CoastalEffect list" where
  "coastalEffectsFor majorCoastlines fronts epicenter =
     sort_key ce_arrivalTime (coastalEffectsOf fronts epicenter majorCoastlines)"

definition calculateCoastalEffects :: "Propagation \<Rightarrow> Location \<Rightarrow> CoastalEffect list" where
  "calculateCoastalEffects propagationData epicenter =
     (let majorCoastlines = getMajorCoastlines epicenter
      in coastalEffectsFor majorCoastlines (waveFronts propagationData) epicenter)"

definition estimateEventDuration :: "InitialWave \<Rightarrow> real" where
  "estimateEventDuration iw = max (period iw * 10) (6 * 3600)"

record TsunamiResult =
  generated :: bool
  reason :: "string option"
  oceanImpact :: "OceanImpact option"
  tsu_maxHeight :: jsnum
  initialWave :: "InitialWave option"
  propagation :: "Propagation option"
  coastalEffects :: "CoastalEffect list"
  tsu_duration :: "real option"

text \<open>
  \<open>calculateTsunami\<close>.  In the generated result \<open>maxHeight\<close> is
  \<open>Math.max(...coastalEffects.map(c => c.maxHeight))\<close>; a coastal effect has no
  key \<open>maxHeight\<close>, so this is \<open>-Infinity\<close> for no effects and NaN otherwise.
  The fields \<open>visualization\<close>, \<open>arrivalTimes\<close> and \<open>energyDistribution\<close>, which
  reformat the propagation and the coastal effects for display, are left out.
\<close>

definition calculateTsunami :: "real \<Rightarrow> Location option \<Rightarrow> real \<Rightarrow> TsunamiResult" where
  "calculateTsunami energy location craterDiameter =
     (case location of
        None \<Rightarrow>
          \<lparr> generated = False, reason = Some ''Invalid coordinates provided'',
            oceanImpact = None, tsu_maxHeight = Num 0, initialWave = None,
            propagation = None, coastalEffects = [], tsu_duration = None \<rparr>
      | Some loc \<Rightarrow>
          (let ocean = determineOceanImpact loc
           in if \<not> inOcean ocean then
                \<lparr> generated = False, reason = Some ''Land impact - no tsunami generation'',
                  oceanImpact = Some ocean, tsu_maxHeight = Num 0, initialWave = None,
                  propagation = None, coastalEffects = [], tsu_duration = None \<rparr>
              else
                (let iw = calculateInitialWave energy (waterDepth ocean) craterDiameter
                 in if js_less (iw_height iw) 0.1 then
                      \<lparr> generated = False,
                        reason = Some ''Wave height too small for significant tsunami'',
                        oceanImpact = Some ocean, tsu_maxHeight = iw_height iw,
                        initialWave = Some iw, propagation = None, coastalEffects = [],
                        tsu_duration = None \<rparr>
                    else
                      (let propagationData = modelWavePropagation iw loc;
                           effects = calculateCoastalEffects propagationData loc
                       in \<lparr> generated = True, reason = None, oceanImpact = Some ocean,
                            tsu_maxHeight = (if effects = [] then NegInfinity else NaN),
                            initialWave = Some iw, propagation = Some propagationData,
                            coastalEffects = effects,
                            tsu_duration = Some (estimateEventDuration iw) \<rparr>))))"

section \<open>The pipeline (ImpactCalculator)\<close>

datatype composition = Rock | Iron | Ice | Custom

record ImpactParameters =
  p_diameter :: real
  p_velocity :: real
  p_angle :: real
  p_composition :: composition
  p_density :: "real option"
  p_latitude :: real
  p_longitude :: real

text \<open>
  The result object is built in steps: the basic fields, then either the two
  airburst keys (the early return) or the block of crater, blast and thermal
  keys that \<open>Object.assign\<close> adds, and after it the block of seismic and tsunami
  keys.  Each block is a record; a block whose keys the result does not have is
  \<open>None\<close>.  Inside the seismic and tsunami block a key whose value is \<open>undefined\<close>
  is \<open>None\<close>.
\<close>

record AirburstBlock =
  airburstAltitude :: real
  airburstEnergy :: real

record Phase1Block =
  craterDiameter :: real
  craterDepth :: real
  craterVolume :: real
  rimHeight :: real
  ejectaRange :: real
  blastRadius1psi :: real
  blastRadius5psi :: real
  blastRadius10psi :: real
  blastOverpressureRadii :: "(real \<times> real) list"
  thermalRadius1deg :: real
  thermalRadius2deg :: real
  thermalRadius3deg :: real
  thermalDuration :: real
  fireball :: Fireball

record Phase2Block =
  seismicMagnitude :: real
  seismicSignificant :: bool
  seismicRadius :: jsnum
  seismicZones :: "IntensityZone list"
  groundMotion :: "GroundMotion option"
  buildingDamage :: "ZoneAssessment list option"
  seismicDuration :: "real option"
  tsunamiGenerated :: bool
  tsunamiMaxHeight :: jsnum
  tsunamiOceanImpact :: "OceanImpact option"
  tsunamiPropagation :: "Propagation option"
  tsunamiCoastalEffects :: "CoastalEffect list"

record ImpactResult =
  res_diameter :: real
  res_velocity :: real
  res_angle :: real
  res_density :: real
  res_mass :: real
  kineticEnergy :: real
  momentum :: real
  impactLocation :: Location
  survivesAtmosphere :: bool
  finalVelocity :: real
  finalMass :: real
  finalDiameter :: real
  airburst :: "AirburstBlock option"
  phase1 :: "Phase1Block option"
  phase2 :: "Phase2Block option"

definition calculateMass :: "real \<Rightarrow> real \<Rightarrow> real" where
  "calculateMass diameter density =
     (let radius = diameter / 2; volume = (4/3) * pi * radius ^ 3 in volume * density)"

definition calculateKineticEnergy :: "real \<Rightarrow> real \<Rightarrow> real" where
  "calculateKineticEnergy mass velocity =
     (let velocityMs = velocity * 1000 in 0.5 * mass * velocityMs ^ 2)"

definition calculateMomentum :: "real \<Rightarrow> real \<Rightarrow> real" where
  "calculateMomentum mass velocity = (let velocityMs = velocity * 1000 in mass * velocityMs)"

text \<open>
  \<open>densities[composition] || densities['rock']\<close>, with \<open>customDensity || 2700\<close>
  for the custom entry: a missing or zero custom density falls back to 2700.
\<close>

definition getAsteroidDensity :: "composition \<Rightarrow> real option \<Rightarrow> real" where
  "getAsteroidDensity c customDensity =
     (case c of
        Rock \<Rightarrow> 2700
      | Iron \<Rightarrow> 7800
      | Ice \<Rightarrow> 917
      | Custom \<Rightarrow> (case customDensity of None \<Rightarrow> 2700 | Some d \<Rightarrow> if d = 0 then 2700 else d))"

definition isPhase2Enabled :: bool where
  "isPhase2Enabled = True"

definition calculateImpact :: "ImpactParameters \<Rightarrow> ImpactResult" where
  "calculateImpact parameters =
     (let diameter = p_diameter parameters;
          velocity = p_velocity parameters;
          angle = p_angle parameters;
          location = \<lparr> latitude = p_latitude parameters, longitude = p_longitude parameters \<rparr>;
          asteroidDensity = getAsteroidDensity (p_composition parameters) (p_density parameters);
          mass = calculateMass diameter asteroidDensity;
          atmosphereResults = calculateAtmosphericEntry diameter velocity angle asteroidDensity mass;
          results =
            \<lparr> res_diameter = diameter,
              res_velocity = velocity,
              res_angle = angle,
              res_density = asteroidDensity,
              res_mass = mass,
              kineticEnergy = calculateKineticEnergy mass velocity,
              momentum = calculateMomentum mass velocity,
              impactLocation = location,
              survivesAtmosphere = atm_survivesAtmosphere atmosphereResults,
              finalVelocity = atm_finalVelocity atmosphereResults,
              finalMass = atm_finalMass atmosphereResults,
              finalDiameter = atm_finalDiameter atmosphereResults,
              airburst = None,
              phase1 = None,
              phase2 = None \<rparr>
      in if \<not> atm_survivesAtmosphere atmosphereResults then
           results\<lparr> airburst :=
             Some \<lparr> airburstAltitude = atm_airburstAltitude atmosphereResults,
                    airburstEnergy = atm_airburstEnergy atmosphereResults \<rparr> \<rparr>
         else
           (let finalEnergy = calculateKineticEnergy (atm_finalMass atmosphereResults)
                                (atm_finalVelocity atmosphereResults);
                craterResults = calculateCrater (atm_finalDiameter atmosphereResults)
                                  (atm_finalVelocity atmosphereResults) angle asteroidDensity
                                  finalEnergy;
                blastResults = calculateBlastWave finalEnergy angle;
                thermalResults = calculateThermalRadiation finalEnergy
                                   (atm_finalDiameter atmosphereResults);
                results1 = results\<lparr> phase1 :=
                  Some \<lparr> craterDiameter = crater_diameter craterResults,
                         craterDepth = crater_depth craterResults,
                         craterVolume = crater_volume craterResults,
                         rimHeight = crater_rimHeight craterResults,
                         ejectaRange = crater_ejectaRange craterResults,
                         blastRadius1psi = radius1psi blastResults,
                         blastRadius5psi = radius5psi blastResults,
                         blastRadius10psi = radius10psi blastResults,
                         blastOverpressureRadii = overpressureRadii blastResults,
                         thermalRadius1deg = radius1deg thermalResults,
                         thermalRadius2deg = radius2deg thermalResults,
                         thermalRadius3deg = radius3deg thermalResults,
                         thermalDuration = th_duration thermalResults,
                         fireball = th_fireball thermalResults \<rparr> \<rparr>
            in if isPhase2Enabled then
                 (let seismicResults = calculateSeismicEffects finalEnergy (Some location)
                                         (crater_diameter craterResults);
                      tsunamiResults = calculateTsunami finalEnergy (Some location)
                                         (crater_diameter craterResults)
                  in results1\<lparr> phase2 :=
                       Some \<lparr> seismicMagnitude = seis_magnitude seismicResults,
                              seismicSignificant = significant seismicResults,
                              seismicRadius = effectRadius seismicResults,
                              seismicZones = zones seismicResults,
                              groundMotion = seis_groundMotion seismicResults,
                              buildingDamage = damageAssessment seismicResults,
                              seismicDuration = seis_duration seismicResults,
                              tsunamiGenerated = generated tsunamiResults,
                              tsunamiMaxHeight = tsu_maxHeight tsunamiResults,
                              tsunamiOceanImpact = oceanImpact tsunamiResults,
                              tsunamiPropagation = propagation tsunamiResults,
                              tsunamiCoastalEffects = coastalEffects tsunamiResults \<rparr> \<rparr>)
               else results1))"

text \<open>
  The input contract: positive diameter and velocity, an angle between 0 and 90
  degrees, a positive density when the composition is custom, and a latitude and
  longitude in range.
\<close>

definition validParameters :: "ImpactParameters \<Rightarrow> bool" where
  "validParameters p =
     (p_diameter p > 0 \<and> p_velocity p > 0 \<and> 0 \<le> p_angle p \<and> p_angle p \<le> 90
      \<and> (case p_composition p of
            Custom \<Rightarrow> (case p_density p of None \<Rightarrow> False | Some d \<Rightarrow> d > 0)
          | _ \<Rightarrow> True)
      \<and> -90 \<le> p_latitude p \<and> p_latitude p \<le> 90
      \<and> -180 \<le> p_longitude p \<and> p_longitude p \<le> 180)"

section \<open>The local values of \<open>calculateImpact\<close>\<close>

text \<open>
  The values that \<open>calculateImpact\<close> binds on its way (\<open>asteroidDensity\<close>,
  \<open>atmosphereResults\<close>, \<open>finalEnergy\<close>, \<open>craterResults\<close>), as functions of the
  parameters, to state what the result's blocks hold.
\<close>

definition asteroidDensity :: "ImpactParameters \<Rightarrow> real" where
  "asteroidDensity p = getAsteroidDensity (p_composition p) (p_density p)"

definition entry :: "ImpactParameters \<Rightarrow> AtmosphereResults" where
  "entry p = calculateAtmosphericEntry (p_diameter p) (p_velocity p) (p_angle p) (asteroidDensity p)
               (calculateMass (p_diameter p) (asteroidDensity p))"

definition finalEnergy :: "ImpactParameters \<Rightarrow> real" where
  "finalEnergy p = calculateKineticEnergy (atm_finalMass (entry p)) (atm_finalVelocity (entry p))"

definition craterResults :: "ImpactParameters \<Rightarrow> CraterResult" where
  "craterResults p = calculateCrater (atm_finalDiameter (entry p)) (atm_finalVelocity (entry p))
                       (p_angle p) (asteroidDensity p) (finalEnergy p)"

section \<open>Defined heights\<close>

text \<open>A number or \<open>Infinity\<close>, as opposed to NaN and \<open>-Infinity\<close>.\<close>

definition js_defined :: "jsnum \<Rightarrow> bool" where
  "js_defined h = (case h of Num x \<Rightarrow> True | PosInfinity \<Rightarrow> True | _ \<Rightarrow> False)"

section \<open>Scenarios\<close>

text \<open>A 10 m rock at 20 km/s, which bursts in the air, and a 60 m rock at 27 km/s, which lands.\<close>

definition scenarioA :: ImpactParameters where
  "scenarioA = \<lparr> p_diameter = 10, p_velocity = 20, p_angle = 45, p_composition = Rock,
       p_density = None, p_latitude = 0, p_longitude = 0 \<rparr>"

definition scenarioB :: ImpactParameters where
  "scenarioB = \<lparr> p_diameter = 60, p_velocity = 27, p_angle = 30, p_composition = Rock,
       p_density = None, p_latitude = 0, p_longitude = 0 \<rparr>"

text \<open>The 60 m rock again, arriving at an angle of 0 degrees.\<close>

definition scenarioGrazing :: ImpactParameters where
  "scenarioGrazing = \<lparr> p_diameter = 60, p_velocity = 27, p_angle = 0, p_composition = Rock,
       p_density = None, p_latitude = 0, p_longitude = 0 \<rparr>"

text \<open>The seismic stage at \<open>10^16\<close> J with a crater of 100 m.\<close>

definition scenarioQuake :: SeismicResult where
  "scenarioQuake =
     calculateSeismicEffects 10000000000000000 (Some \<lparr> latitude = 0, longitude = 0 \<rparr>) 100"

text \<open>The tsunami stage at \<open>10^20\<close> J with a crater of 1 km, on the equator in the Atlantic.\<close>

definition scenarioTsunami :: TsunamiResult where
  "scenarioTsunami =
     calculateTsunami 100000000000000000000 (Some \<lparr> latitude = 0, longitude = -30 \<rparr>) 1000"

text \<open>The same with a crater of 2 km, for which the water is shallow against the wavelength.\<close>

definition scenarioTsunamiShallow :: TsunamiResult where
  "scenarioTsunamiShallow =
     calculateTsunami 100000000000000000000 (Some \<lparr> latitude = 0, longitude = -30 \<rparr>) 2000"

text \<open>At the same place \<open>2.5 * 10^12\<close> J with a crater of 1 km, a wave of some 20 cm.\<close>

definition scenarioTsunamiSmall :: TsunamiResult where
  "scenarioTsunamiSmall =
     calculateTsunami 2500000000000 (Some \<lparr> latitude = 0, longitude = -30 \<rparr>) 1000"

text \<open>
  A table of two coastlines that have the keys \<open>latitude\<close> and \<open>longitude\<close>, which
  \<open>calculateDistance\<close> reads: both on the equator, east of the longitude -30 by the
  angles that make 1440 km and 720 km.
\<close>

definition coastlinesWithKeys :: "Coastline list" where
  "coastlinesWithKeys =
     [\<lparr> cl_name = ''Far'',
        cl_coordinates = [(''latitude'', 0), (''longitude'', -30 + (1440000 / EARTH_RADIUS) * 180 / pi)],
        cl_population = 1000, cl_topography = ''flat'' \<rparr>,
      \<lparr> cl_name = ''Near'',
        cl_coordinates = [(''latitude'', 0), (''longitude'', -30 + (720000 / EARTH_RADIUS) * 180 / pi)],
        cl_population = 1000, cl_topography = ''steep'' \<rparr>]"

text \<open>A rock of 100000 km diameter at 20 km/s and 90 degrees.\<close>

definition scenarioGiant :: ImpactParameters where
  "scenarioGiant = \<lparr> p_diameter = 100000000, p_velocity = 20, p_angle = 90, p_composition = Rock,
       p_density = None, p_latitude = 0, p_longitude = 0 \<rparr>"

section \<open>The two branches of the pipeline\<close>

lemma entry_survives_iff:
  "atm_survivesAtmosphere (entry p)
     = (p_diameter p \<ge> calculateSurvivalDiameter (p_velocity p) (asteroidDensity p))"
  by (simp add: entry_def calculateAtmosphericEntry_def Let_def)

lemma calculateSurvivalDiameter_sqrt:
  "0 < v \<Longrightarrow> calculateSurvivalDiameter v r = 50 * sqrt (r / 3000) / sqrt (v / 20)"
  by (simp add: calculateSurvivalDiameter_def Let_def powr_half_sqrt)

lemma calculateImpact_not_surviving:
  assumes "\<not> atm_survivesAtmosphere (entry p)"
  shows "survivesAtmosphere (calculateImpact p) = False"
    and "airburst (calculateImpact p) =
          Some \<lparr> airburstAltitude = atm_airburstAltitude (entry p),
                 airburstEnergy = atm_airburstEnergy (entry p) \<rparr>"
    and "phase1 (calculateImpact p) = None"
    and "phase2 (calculateImpact p) = None"
  using assms unfolding entry_def asteroidDensity_def
  by (simp_all add: calculateImpact_def Let_def)

lemma calculateImpact_surviving:
  assumes "atm_survivesAtmosphere (entry p)"
  shows "survivesAtmosphere (calculateImpact p) = True"
    and "airburst (calculateImpact p) = None"
  using assms unfolding entry_def asteroidDensity_def
  by (simp_all add: calculateImpact_def Let_def)

lemma survives_iff:
  "survivesAtmosphere (calculateImpact p) = atm_survivesAtmosphere (entry p)"
  using calculateImpact_not_surviving(1) [of p] calculateImpact_surviving(1) [of p] by blast

lemma result_final:
  "finalMass (calculateImpact p) = atm_finalMass (entry p)"
  "finalVelocity (calculateImpact p) = atm_finalVelocity (entry p)"
  "finalDiameter (calculateImpact p) = atm_finalDiameter (entry p)"
  "impactLocation (calculateImpact p) = \<lparr> latitude = p_latitude p, longitude = p_longitude p \<rparr>"
  by (cases "atm_survivesAtmosphere (entry p)";
      simp add: calculateImpact_def Let_def entry_def asteroidDensity_def)+

lemma phase1_surviving:
  assumes "atm_survivesAtmosphere (entry p)"
  shows "phase1 (calculateImpact p) =
     Some \<lparr> craterDiameter = crater_diameter (craterResults p),
            craterDepth = crater_depth (craterResults p),
            craterVolume = crater_volume (craterResults p),
            rimHeight = crater_rimHeight (craterResults p),
            ejectaRange = crater_ejectaRange (craterResults p),
            blastRadius1psi = radius1psi (calculateBlastWave (finalEnergy p) (p_angle p)),
            blastRadius5psi = radius5psi (calculateBlastWave (finalEnergy p) (p_angle p)),
            blastRadius10psi = radius10psi (calculateBlastWave (finalEnergy p) (p_angle p)),
            blastOverpressureRadii = overpressureRadii (calculateBlastWave (finalEnergy p) (p_angle p)),
            thermalRadius1deg = radius1deg (calculateThermalRadiation (finalEnergy p) (atm_finalDiameter (entry p))),
            thermalRadius2deg = radius2deg (calculateThermalRadiation (finalEnergy p) (atm_finalDiameter (entry p))),
            thermalRadius3deg = radius3deg (calculateThermalRadiation (finalEnergy p) (atm_finalDiameter (entry p))),
            thermalDuration = th_duration (calculateThermalRadiation (finalEnergy p) (atm_finalDiameter (entry p))),
            fireball = th_fireball (calculateThermalRadiation (finalEnergy p) (atm_finalDiameter (entry p))) \<rparr>"
  using assms unfolding craterResults_def finalEnergy_def entry_def asteroidDensity_def
  by (simp add: calculateImpact_def Let_def isPhase2Enabled_def)

text \<open>The seismic and tsunami stages as the pipeline calls them.\<close>

lemma phase2_surviving:
  assumes "atm_survivesAtmosphere (entry p)"
    and "loc = \<lparr> latitude = p_latitude p, longitude = p_longitude p \<rparr>"
    and "s = calculateSeismicEffects (finalEnergy p) (Some loc) (crater_diameter (craterResults p))"
    and "t = calculateTsunami (finalEnergy p) (Some loc) (crater_diameter (craterResults p))"
  shows "phase2 (calculateImpact p) =
     Some \<lparr> seismicMagnitude = seis_magnitude s,
            seismicSignificant = significant s,
            seismicRadius = effectRadius s,
            seismicZones = zones s,
            groundMotion = seis_groundMotion s,
            buildingDamage = damageAssessment s,
            seismicDuration = seis_duration s,
            tsunamiGenerated = generated t,
            tsunamiMaxHeight = tsu_maxHeight t,
            tsunamiOceanImpact = oceanImpact t,
            tsunamiPropagation = propagation t,
            tsunamiCoastalEffects = coastalEffects t \<rparr>"
  using assms(1) unfolding assms(2-4) craterResults_def finalEnergy_def entry_def asteroidDensity_def
  by (simp add: calculateImpact_def Let_def isPhase2Enabled_def)

lemma calculateSurvivalDiameter_le_50:
  assumes "0 \<le> r" "r \<le> 3000" "20 \<le> v"
  shows "calculateSurvivalDiameter v r \<le> 50"
proof -
  have a: "sqrt (r / 3000) \<le> 1" using assms by simp
  have a0: "0 \<le> sqrt (r / 3000)" using assms by simp
  have b: "1 \<le> (v / 20) powr 0.5" using assms by (simp add: ge_one_powr_ge_zero)
  have "sqrt (r / 3000) / (v / 20) powr 0.5 \<le> 1 / 1"
    using a a0 b by (intro frac_le) simp_all
  then show ?thesis by (simp add: calculateSurvivalDiameter_def Let_def)
qed

lemma scenarioB_survives: "atm_survivesAtmosphere (entry scenarioB)"
proof -
  have "calculateSurvivalDiameter 27 2700 \<le> 50"
    by (rule calculateSurvivalDiameter_le_50) simp_all
  then show ?thesis
    by (simp add: entry_survives_iff scenarioB_def asteroidDensity_def getAsteroidDensity_def)
qed

lemma scenarioB_valid: "validParameters scenarioB"
  by (simp add: validParameters_def scenarioB_def)

section \<open>What survives the atmosphere\<close>

lemma asteroidDensity_pos: "validParameters p \<Longrightarrow> 0 < asteroidDensity p"
  by (auto simp: validParameters_def asteroidDensity_def getAsteroidDensity_def
      split: composition.splits option.splits)

lemma calculateMass_pos: "0 < d \<Longrightarrow> 0 < r \<Longrightarrow> 0 < calculateMass d r"
  by (simp add: calculateMass_def Let_def)

lemma calculateMassLossRatio_bounds:
  assumes "0 < d" "0 < r"
  shows "0 \<le> calculateMassLossRatio d v r" "calculateMassLossRatio d v r \<le> 0.9"
  using assms by (simp_all add: calculateMassLossRatio_def Let_def)

lemma entry_surviving:
  assumes "atm_survivesAtmosphere (entry p)"
  shows "atm_finalMass (entry p) = calculateFinalMass (calculateMass (p_diameter p) (asteroidDensity p))
            (p_diameter p) (p_velocity p) (asteroidDensity p)"
    and "atm_finalVelocity (entry p) = calculateFinalVelocity (p_velocity p) (p_diameter p) (asteroidDensity p)"
    and "atm_finalDiameter (entry p) = (atm_finalMass (entry p) / asteroidDensity p * 6 / pi) powr (1/3)"
  using assms by (simp_all add: entry_def calculateAtmosphericEntry_def Let_def split: if_splits)

lemma calculateFinalMass_pos:
  assumes "0 < d" "0 < r" "0 < m"
  shows "0 < calculateFinalMass m d v r"
proof -
  have "calculateMassLossRatio d v r \<le> 0.9" using assms by (rule_tac calculateMassLossRatio_bounds)
  then have "0 < 1 - calculateMassLossRatio d v r" by simp
  then show ?thesis using assms by (simp add: calculateFinalMass_def Let_def)
qed

lemma calculateFinalVelocity_pos:
  assumes "0 < v"
  shows "0 < calculateFinalVelocity v d r"
proof -
  have "0 < max (1 - calculateMassLossRatio d v r * 0.3) 0.5" by simp
  then show ?thesis using assms by (simp add: calculateFinalVelocity_def Let_def del: less_max_iff_disj)
qed

lemma calculateKineticEnergy_pos: "0 < m \<Longrightarrow> 0 < v \<Longrightarrow> 0 < calculateKineticEnergy m v"
  by (simp add: calculateKineticEnergy_def Let_def)

lemma final_pos:
  assumes "validParameters p" "atm_survivesAtmosphere (entry p)"
  shows "0 < atm_finalMass (entry p)" "0 < atm_finalVelocity (entry p)" "0 < finalEnergy p"
proof -
  have d: "0 < p_diameter p" and v: "0 < p_velocity p"
    using assms(1) by (simp_all add: validParameters_def)
  have r: "0 < asteroidDensity p" using assms(1) by (rule asteroidDensity_pos)
  show m: "0 < atm_finalMass (entry p)"
    unfolding entry_surviving(1) [OF assms(2)]
    by (rule calculateFinalMass_pos [OF d r calculateMass_pos [OF d r]])
  show fv: "0 < atm_finalVelocity (entry p)"
    unfolding entry_surviving(2) [OF assms(2)] by (rule calculateFinalVelocity_pos [OF v])
  show "0 < finalEnergy p"
    unfolding finalEnergy_def by (rule calculateKineticEnergy_pos [OF m fv])
qed

section \<open>The atmospheric gate\<close>

text \<open>
  C1.  For valid parameters whose diameter is below
  \<open>50 * sqrt (density / 3000) / sqrt (velocity / 20)\<close>, the result of
  \<open>calculateImpact\<close> has \<open>survivesAtmosphere = false\<close> and the two airburst keys,
  and none of the crater, blast, thermal, seismic or tsunami keys.
\<close>

theorem airburst_short_circuit:
  assumes "validParameters p"
    and "p_diameter p < 50 * sqrt (asteroidDensity p / 3000) / sqrt (p_velocity p / 20)"
  shows "survivesAtmosphere (calculateImpact p) = False
       \<and> airburst (calculateImpact p) =
          Some \<lparr> airburstAltitude =
                   calculateAirburstAltitude (p_diameter p) (p_velocity p) (asteroidDensity p),
                 airburstEnergy =
                   calculateMass (p_diameter p) (asteroidDensity p) * (p_velocity p * 1000) ^ 2 * 0.5 \<rparr>
       \<and> phase1 (calculateImpact p) = None
       \<and> phase2 (calculateImpact p) = None"
proof -
  have v: "0 < p_velocity p" using assms(1) by (simp add: validParameters_def)
  have lt: "p_diameter p < calculateSurvivalDiameter (p_velocity p) (asteroidDensity p)"
    using assms(2) by (simp add: calculateSurvivalDiameter_sqrt [OF v])
  then have ns: "\<not> atm_survivesAtmosphere (entry p)"
    by (simp add: entry_survives_iff)
  have alt: "atm_airburstAltitude (entry p)
               = calculateAirburstAltitude (p_diameter p) (p_velocity p) (asteroidDensity p)"
    and en: "atm_airburstEnergy (entry p)
               = calculateMass (p_diameter p) (asteroidDensity p) * (p_velocity p * 1000) ^ 2 * 0.5"
    using lt by (simp_all add: entry_def calculateAtmosphericEntry_def Let_def)
  show ?thesis
    using calculateImpact_not_surviving [OF ns] by (simp add: alt en)
qed

lemma sqrt_9_10: "sqrt (9/10) > 1/5"
  by (rule real_less_rsqrt) (simp add: power2_eq_square)

theorem airburst_short_circuit_witness:
  "validParameters scenarioA
   \<and> p_diameter scenarioA
       < 50 * sqrt (asteroidDensity scenarioA / 3000) / sqrt (p_velocity scenarioA / 20)
   \<and> survivesAtmosphere (calculateImpact scenarioA) = False
   \<and> phase1 (calculateImpact scenarioA) = None
   \<and> phase2 (calculateImpact scenarioA) = None"
proof -
  have v: "validParameters scenarioA"
    by (simp add: validParameters_def scenarioA_def)
  have d: "p_diameter scenarioA
             < 50 * sqrt (asteroidDensity scenarioA / 3000) / sqrt (p_velocity scenarioA / 20)"
    using sqrt_9_10 by (simp add: scenarioA_def asteroidDensity_def getAsteroidDensity_def)
  from airburst_short_circuit [OF v d] v d show ?thesis by simp
qed

section \<open>The seismic and tsunami block\<close>

text \<open>
  C8.  \<open>isPhase2Enabled\<close> is the constant true, so every result with
  \<open>survivesAtmosphere = true\<close> has the block of seismic and tsunami keys, holding
  what the seismic and the tsunami stage return for the final energy, the impact
  location and the crater diameter.
\<close>

theorem phase2_always_present:
  assumes "survivesAtmosphere (calculateImpact p)"
  shows "isPhase2Enabled
       \<and> (\<exists>b. phase2 (calculateImpact p) = Some b
            \<and> (let loc = \<lparr> latitude = p_latitude p, longitude = p_longitude p \<rparr>;
                    s = calculateSeismicEffects (finalEnergy p) (Some loc)
                          (crater_diameter (craterResults p));
                    t = calculateTsunami (finalEnergy p) (Some loc)
                          (crater_diameter (craterResults p))
                in seismicMagnitude b = seis_magnitude s
                 \<and> seismicSignificant b = significant s
                 \<and> seismicRadius b = effectRadius s
                 \<and> seismicZones b = zones s
                 \<and> groundMotion b = seis_groundMotion s
                 \<and> buildingDamage b = damageAssessment s
                 \<and> seismicDuration b = seis_duration s
                 \<and> tsunamiGenerated b = generated t
                 \<and> tsunamiMaxHeight b = tsu_maxHeight t
                 \<and> tsunamiOceanImpact b = oceanImpact t
                 \<and> tsunamiPropagation b = propagation t
                 \<and> tsunamiCoastalEffects b = coastalEffects t))"
proof -
  have s: "atm_survivesAtmosphere (entry p)" using assms by (simp add: survives_iff)
  show ?thesis
    by (simp add: isPhase2Enabled_def phase2_surviving [OF s refl refl refl] Let_def)
qed

theorem phase2_always_present_witness:
  "survivesAtmosphere (calculateImpact scenarioB)
   \<and> isPhase2Enabled
   \<and> phase2 (calculateImpact scenarioB) \<noteq> None"
proof -
  have s: "survivesAtmosphere (calculateImpact scenarioB)"
    using scenarioB_survives by (simp add: survives_iff)
  from phase2_always_present [OF s] s show ?thesis by auto
qed

section \<open>Seismic magnitude\<close>

text \<open>
  C5.  For an energy \<open>E > 0\<close> and a valid location the magnitude is
  \<open>(log10 (0.01 * E) - 9.1) / 1.5\<close> clamped to the interval from 0 to 10, and when
  it is below 3.0 the result has \<open>significant = false\<close> and no zones.
\<close>

theorem magnitude_and_significance_floor:
  assumes "0 < E"
  shows "seis_magnitude (calculateSeismicEffects E (Some loc) cd)
           = max 0 (min ((log 10 (0.01 * E) - 9.1) / 1.5) 10)
       \<and> (max 0 (min ((log 10 (0.01 * E) - 9.1) / 1.5) 10) < 3.0 \<longrightarrow>
            significant (calculateSeismicEffects E (Some loc) cd) = False
          \<and> zones (calculateSeismicEffects E (Some loc) cd) = [])"
proof -
  have m: "calculateMagnitude E = max 0 (min ((log 10 (0.01 * E) - 9.1) / 1.5) 10)"
    by (simp add: calculateMagnitude_def Let_def mult.commute)
  show ?thesis
    unfolding m [symmetric]
    by (simp add: calculateSeismicEffects_def Let_def)
qed

theorem magnitude_and_significance_floor_witness:
  "(0::real) < 100
   \<and> seis_magnitude (calculateSeismicEffects 100 (Some \<lparr> latitude = 0, longitude = 0 \<rparr>) 50) = 0
   \<and> significant (calculateSeismicEffects 100 (Some \<lparr> latitude = 0, longitude = 0 \<rparr>) 50) = False
   \<and> zones (calculateSeismicEffects 100 (Some \<lparr> latitude = 0, longitude = 0 \<rparr>) 50) = []"
  using magnitude_and_significance_floor [of 100 "\<lparr> latitude = 0, longitude = 0 \<rparr>" 50]
  by simp

section \<open>Blast radii\<close>

lemma cube_root_powr: "0 \<le> x \<Longrightarrow> x powr (1/3) = root 3 x"
  by (cases "x = 0") (simp_all add: root_powr_inverse)

lemma sin_degrees_nonneg: "0 \<le> a \<Longrightarrow> a \<le> 90 \<Longrightarrow> 0 \<le> sin (a * pi / 180)"
proof -
  assume a: "0 \<le> a" "a \<le> 90"
  have "a * pi / 180 \<le> 90 * pi / 180" using a by (simp add: mult_right_mono)
  then have "a * pi / 180 \<le> pi" by simp
  moreover have "0 \<le> a * pi / 180" using a by simp
  ultimately show ?thesis by (simp add: sin_ge_zero)
qed

lemma calculateOverpressureRadius_root:
  "0 \<le> e \<Longrightarrow> 0 < P \<Longrightarrow> calculateOverpressureRadius e P = max (root 3 (e / (4 * pi * P))) 0"
  by (simp add: calculateOverpressureRadius_def Let_def cube_root_powr)

lemma calculateOverpressureRadius_antimono:
  assumes "0 \<le> e" "0 < P" "P \<le> Q"
  shows "calculateOverpressureRadius e Q \<le> calculateOverpressureRadius e P"
proof -
  have "e / (4 * pi * Q) \<le> e / (4 * pi * P)"
    using assms by (intro divide_left_mono) (simp_all add: mult_pos_pos)
  moreover have "0 \<le> e / (4 * pi * Q)" using assms by simp
  ultimately have "(e / (4 * pi * Q)) powr (1/3) \<le> (e / (4 * pi * P)) powr (1/3)"
    by (intro powr_mono2) simp_all
  then show ?thesis by (simp add: calculateOverpressureRadius_def Let_def)
qed

text \<open>
  C7.  For an energy \<open>E \<ge> 0\<close> and an angle between 0 and 90 degrees each
  overpressure radius is the cube root of \<open>E * sin (angle * pi / 180) / (4 * pi * P)\<close>,
  clamped to at least 0, at \<open>P\<close> = 6895, 34475 and 68950 Pa, and the radius for
  10 psi is at most the radius for 5 psi, which is at most the radius for 1 psi.
\<close>

theorem blast_radii:
  assumes "0 \<le> E" "0 \<le> a" "a \<le> 90"
  shows "radius1psi (calculateBlastWave E a) = max (root 3 (E * sin (a * pi / 180) / (4 * pi * 6895))) 0
       \<and> radius5psi (calculateBlastWave E a) = max (root 3 (E * sin (a * pi / 180) / (4 * pi * 34475))) 0
       \<and> radius10psi (calculateBlastWave E a) = max (root 3 (E * sin (a * pi / 180) / (4 * pi * 68950))) 0
       \<and> radius10psi (calculateBlastWave E a) \<le> radius5psi (calculateBlastWave E a)
       \<and> radius5psi (calculateBlastWave E a) \<le> radius1psi (calculateBlastWave E a)"
proof -
  have e: "0 \<le> calculateEffectiveEnergy E a"
    using assms sin_degrees_nonneg [of a] by (simp add: calculateEffectiveEnergy_def Let_def)
  have eq: "calculateEffectiveEnergy E a = E * sin (a * pi / 180)"
    by (simp add: calculateEffectiveEnergy_def Let_def)
  have r: "radius1psi (calculateBlastWave E a) = calculateOverpressureRadius (calculateEffectiveEnergy E a) 6895"
      "radius5psi (calculateBlastWave E a) = calculateOverpressureRadius (calculateEffectiveEnergy E a) 34475"
      "radius10psi (calculateBlastWave E a) = calculateOverpressureRadius (calculateEffectiveEnergy E a) 68950"
    by (simp_all add: calculateBlastWave_def Let_def LIGHT_DAMAGE_def MODERATE_DAMAGE_def HEAVY_DAMAGE_def)
  have o1: "calculateOverpressureRadius (calculateEffectiveEnergy E a) 68950
              \<le> calculateOverpressureRadius (calculateEffectiveEnergy E a) 34475"
    by (rule calculateOverpressureRadius_antimono [OF e]) simp_all
  have o2: "calculateOverpressureRadius (calculateEffectiveEnergy E a) 34475
              \<le> calculateOverpressureRadius (calculateEffectiveEnergy E a) 6895"
    by (rule calculateOverpressureRadius_antimono [OF e]) simp_all
  show ?thesis
    unfolding r using o1 o2 calculateOverpressureRadius_root [OF e] by (simp add: eq)
qed

theorem blast_radii_witness:
  "(0::real) \<le> 1000 \<and> (0::real) \<le> 45 \<and> (45::real) \<le> 90
   \<and> radius1psi (calculateBlastWave 1000 45) = max (root 3 (1000 * sin (45 * pi / 180) / (4 * pi * 6895))) 0
   \<and> radius10psi (calculateBlastWave 1000 45) \<le> radius5psi (calculateBlastWave 1000 45)
   \<and> radius5psi (calculateBlastWave 1000 45) \<le> radius1psi (calculateBlastWave 1000 45)"
proof -
  have h1: "(0::real) \<le> 1000" and h2: "(0::real) \<le> 45" and h3: "(45::real) \<le> 90"
    by simp_all
  from blast_radii [OF h1 h2 h3] h1 h2 h3 show ?thesis by blast
qed

section \<open>A grazing impact\<close>

lemma calculateEffectiveEnergy_0: "calculateEffectiveEnergy E 0 = 0"
  by (simp add: calculateEffectiveEnergy_def Let_def)

lemma calculateOverpressureRadius_0: "calculateOverpressureRadius 0 P = 0"
  by (simp add: calculateOverpressureRadius_def Let_def)

lemma calculateBlastWave_0:
  "radius1psi (calculateBlastWave E 0) = 0"
  "radius5psi (calculateBlastWave E 0) = 0"
  "radius10psi (calculateBlastWave E 0) = 0"
  "\<forall>x \<in> set (overpressureRadii (calculateBlastWave E 0)). snd x = 0"
  by (simp_all add: calculateBlastWave_def Let_def calculateEffectiveEnergy_0
      calculateOverpressureRadius_0 calculateMultipleRadii_def)

lemma calculateCrater_0:
  "crater_diameter (calculateCrater d v 0 r E) = 0"
  "crater_depth (calculateCrater d v 0 r E) = 0"
  by (simp_all add: calculateCrater_def Let_def calculateCraterDiameter_def calculateCraterDepth_def)

lemma fireball_radius_pos: "0 < E \<Longrightarrow> 0 < fb_radius (calculateFireball E)"
  by (simp add: calculateFireball_def)

lemma calculateBurnRadius_ge: "fb_radius fb \<le> calculateBurnRadius fb thr"
  by (simp add: calculateBurnRadius_def Let_def)

lemma thermal_radii_pos:
  assumes "0 < E"
  shows "0 < radius1deg (calculateThermalRadiation E d)"
        "0 < radius2deg (calculateThermalRadiation E d)"
        "0 < radius3deg (calculateThermalRadiation E d)"
        "0 < fb_radius (th_fireball (calculateThermalRadiation E d))"
  using fireball_radius_pos [OF assms]
    calculateBurnRadius_ge [of "calculateFireball E" FIRST_DEGREE_BURN]
    calculateBurnRadius_ge [of "calculateFireball E" SECOND_DEGREE_BURN]
    calculateBurnRadius_ge [of "calculateFireball E" THIRD_DEGREE_BURN]
  by (simp_all add: calculateThermalRadiation_def Let_def)

text \<open>
  C10.  For a surviving impactor with an impact angle of exactly 0 degrees the
  crater diameter, the crater depth and every blast overpressure radius are 0,
  while the fireball radius and the three burn radii are strictly positive.
\<close>

theorem grazing_impact:
  assumes "validParameters p" "p_angle p = 0" "survivesAtmosphere (calculateImpact p)"
  shows "\<exists>b. phase1 (calculateImpact p) = Some b
           \<and> craterDiameter b = 0 \<and> craterDepth b = 0
           \<and> blastRadius1psi b = 0 \<and> blastRadius5psi b = 0 \<and> blastRadius10psi b = 0
           \<and> (\<forall>x \<in> set (blastOverpressureRadii b). snd x = 0)
           \<and> 0 < fb_radius (fireball b)
           \<and> 0 < thermalRadius1deg b \<and> 0 < thermalRadius2deg b \<and> 0 < thermalRadius3deg b"
proof -
  have s: "atm_survivesAtmosphere (entry p)" using assms(3) by (simp add: survives_iff)
  have E: "0 < finalEnergy p" using assms(1) s by (rule final_pos)
  have c: "crater_diameter (craterResults p) = 0" "crater_depth (craterResults p) = 0"
    by (simp_all add: craterResults_def assms(2) calculateCrater_0)
  show ?thesis
    using c calculateBlastWave_0 [of "finalEnergy p"] thermal_radii_pos [OF E]
    by (simp add: phase1_surviving [OF s] assms(2))
qed

theorem grazing_impact_witness:
  "validParameters scenarioGrazing \<and> p_angle scenarioGrazing = 0
   \<and> survivesAtmosphere (calculateImpact scenarioGrazing)
   \<and> (\<exists>b. phase1 (calculateImpact scenarioGrazing) = Some b
           \<and> craterDiameter b = 0 \<and> blastRadius1psi b = 0 \<and> 0 < thermalRadius1deg b)"
proof -
  have v: "validParameters scenarioGrazing"
    by (simp add: validParameters_def scenarioGrazing_def)
  have a: "p_angle scenarioGrazing = 0" by (simp add: scenarioGrazing_def)
  have "calculateSurvivalDiameter 27 2700 \<le> 50"
    by (rule calculateSurvivalDiameter_le_50) simp_all
  then have s: "survivesAtmosphere (calculateImpact scenarioGrazing)"
    by (simp add: survives_iff entry_survives_iff scenarioGrazing_def asteroidDensity_def
        getAsteroidDensity_def)
  from grazing_impact [OF v a s] v a s show ?thesis by blast
qed

section \<open>Thermal burn radii\<close>

text \<open>The burn radius before the floor, as \<open>calculateBurnRadius\<close> computes it.\<close>

lemma calculateBurnRadius_unfold:
  "calculateBurnRadius fb thr =
     max (fb_radius fb * sqrt (totalRadiantEnergy fb / (4 * pi * (fb_radius fb)\<^sup>2) / (thr * 10000)))
         (fb_radius fb)"
  by (simp add: calculateBurnRadius_def Let_def)




lemma thermal_fields:
  "radius1deg (calculateThermalRadiation E d) = calculateBurnRadius (calculateFireball E) 25"
  "radius2deg (calculateThermalRadiation E d) = calculateBurnRadius (calculateFireball E) 37.5"
  "radius3deg (calculateThermalRadiation E d) = calculateBurnRadius (calculateFireball E) 62.5"
  "th_fireball (calculateThermalRadiation E d) = calculateFireball E"
  by (simp_all add: calculateThermalRadiation_def Let_def FIRST_DEGREE_BURN_def
      SECOND_DEGREE_BURN_def THIRD_DEGREE_BURN_def)








section \<open>Monotonicity in the diameter\<close>

subsection \<open>Mass, velocity and energy after entry grow with the diameter\<close>

lemma calculateMass_strict_mono:
  assumes "0 < d" "d < d'" "0 < r"
  shows "calculateMass d r < calculateMass d' r"
proof -
  have "d / 2 < d' / 2" "0 \<le> d / 2" using assms by simp_all
  then have "(d / 2) ^ 3 < (d' / 2) ^ 3" by (intro power_strict_mono) simp_all
  then show ?thesis using assms(3) by (simp add: calculateMass_def Let_def)
qed

lemma calculateMassLossRatio_antimono:
  assumes "0 < d" "d \<le> d'" "0 < r"
  shows "calculateMassLossRatio d' v r \<le> calculateMassLossRatio d v r"
proof -
  have "6 / d' \<le> 6 / d" using assms by (simp add: frac_le)
  then have "0.1 * (6 / d') * ((v / 20) ^ 2 * (3000 / r)) \<le> 0.1 * (6 / d) * ((v / 20) ^ 2 * (3000 / r))"
    using assms(3) by (intro mult_right_mono mult_left_mono) simp_all
  then show ?thesis
    by (simp add: calculateMassLossRatio_def Let_def mult.assoc min_le_iff_disj)
qed

lemma calculateFinalMass_strict_mono:
  assumes "0 < d" "d < d'" "0 < r"
  shows "calculateFinalMass (calculateMass d r) d v r < calculateFinalMass (calculateMass d' r) d' v r"
proof -
  have m: "calculateMass d r < calculateMass d' r" using assms by (rule calculateMass_strict_mono)
  have m0: "0 < calculateMass d r" using assms by (simp add: calculateMass_pos)
  have l: "calculateMassLossRatio d' v r \<le> calculateMassLossRatio d v r"
    using assms by (intro calculateMassLossRatio_antimono) simp_all
  have b: "calculateMassLossRatio d v r \<le> 0.9"
    using assms by (intro calculateMassLossRatio_bounds) simp_all
  have "calculateMass d r * (1 - calculateMassLossRatio d v r)
          < calculateMass d' r * (1 - calculateMassLossRatio d' v r)"
    using m m0 l b by (intro mult_less_le_imp_less) simp_all
  then show ?thesis by (simp add: calculateFinalMass_def Let_def)
qed

lemma calculateFinalVelocity_mono:
  assumes "0 < d" "d \<le> d'" "0 < r" "0 < v"
  shows "calculateFinalVelocity v d r \<le> calculateFinalVelocity v d' r"
proof -
  have l: "calculateMassLossRatio d' v r \<le> calculateMassLossRatio d v r"
    using assms by (intro calculateMassLossRatio_antimono) simp_all
  then have "max (1 - calculateMassLossRatio d v r * 0.3) 0.5
               \<le> max (1 - calculateMassLossRatio d' v r * 0.3) 0.5"
    by (intro max.mono) simp_all
  then show ?thesis using assms(4) by (simp add: calculateFinalVelocity_def Let_def)
qed

lemma calculateKineticEnergy_strict_mono:
  assumes "0 < m" "m < m'" "0 < v" "v \<le> v'"
  shows "calculateKineticEnergy m v < calculateKineticEnergy m' v'"
proof -
  have "(v * 1000) ^ 2 \<le> (v' * 1000) ^ 2" using assms by (intro power_mono) simp_all
  moreover have "0 < (v * 1000) ^ 2" using assms by simp
  ultimately have "m * (v * 1000) ^ 2 < m' * (v' * 1000) ^ 2"
    using assms by (intro mult_less_le_imp_less) simp_all
  then show ?thesis by (simp add: calculateKineticEnergy_def Let_def)
qed

text \<open>A larger body with the same velocity and density survives if the smaller one does.\<close>

lemma larger_survives:
  assumes "atm_survivesAtmosphere (entry p)" "p_diameter p \<le> d'"
  shows "atm_survivesAtmosphere (entry (p\<lparr>p_diameter := d'\<rparr>))"
  using assms by (simp add: entry_survives_iff asteroidDensity_def)

lemma larger_valid:
  assumes "validParameters p" "p_diameter p \<le> d'"
  shows "validParameters (p\<lparr>p_diameter := d'\<rparr>)"
  using assms by (auto simp: validParameters_def split: composition.splits)

lemma final_mono:
  assumes "validParameters p" "atm_survivesAtmosphere (entry p)" "p_diameter p < d'"
  shows "atm_finalMass (entry p) < atm_finalMass (entry (p\<lparr>p_diameter := d'\<rparr>))"
    and "atm_finalVelocity (entry p) \<le> atm_finalVelocity (entry (p\<lparr>p_diameter := d'\<rparr>))"
    and "finalEnergy p < finalEnergy (p\<lparr>p_diameter := d'\<rparr>)"
proof -
  have d: "0 < p_diameter p" and v: "0 < p_velocity p"
    using assms(1) by (simp_all add: validParameters_def)
  have r: "0 < asteroidDensity p" using assms(1) by (rule asteroidDensity_pos)
  have s': "atm_survivesAtmosphere (entry (p\<lparr>p_diameter := d'\<rparr>))"
    using assms(2,3) by (intro larger_survives) simp_all
  have ad: "asteroidDensity (p\<lparr>p_diameter := d'\<rparr>) = asteroidDensity p"
    by (simp add: asteroidDensity_def)
  show m: "atm_finalMass (entry p) < atm_finalMass (entry (p\<lparr>p_diameter := d'\<rparr>))"
    unfolding entry_surviving(1) [OF assms(2)] entry_surviving(1) [OF s'] ad
    using calculateFinalMass_strict_mono [OF d assms(3) r] by simp
  show fv: "atm_finalVelocity (entry p) \<le> atm_finalVelocity (entry (p\<lparr>p_diameter := d'\<rparr>))"
    unfolding entry_surviving(2) [OF assms(2)] entry_surviving(2) [OF s'] ad
    using calculateFinalVelocity_mono [OF d _ r v, of d'] assms(3) by simp
  show "finalEnergy p < finalEnergy (p\<lparr>p_diameter := d'\<rparr>)"
    unfolding finalEnergy_def
    by (rule calculateKineticEnergy_strict_mono [OF final_pos(1) [OF assms(1,2)] m
          final_pos(2) [OF assms(1,2)] fv])
qed

subsection \<open>The three radii grow with mass and energy\<close>

lemma cube_of_cube_root: "0 < (x::real) \<Longrightarrow> (x powr (1/3)) ^ 3 = x"
proof -
  assume x: "0 < x"
  have "(x powr (1/3)) ^ 3 = (x powr (1/3)) powr 3"
    using x by (simp add: powr_numeral)
  also have "\<dots> = x powr 1" by (simp add: powr_powr)
  finally show ?thesis using x by simp
qed

text \<open>The projectile mass that \<open>calculateCrater\<close> recomputes from the final diameter is the final mass.\<close>

lemma projectile_mass:
  assumes "0 < m" "0 < r"
  shows "(4/3) * pi * ((m / r * 6 / pi) powr (1/3) / 2) ^ 3 * r = m"
proof -
  have "0 < m / r * 6 / pi" using assms by simp
  then have "((m / r * 6 / pi) powr (1/3)) ^ 3 = m / r * 6 / pi" by (rule cube_of_cube_root)
  then have "((m / r * 6 / pi) powr (1/3) / 2) ^ 3 = m / r * 6 / pi / 8"
    by (simp add: power_divide)
  then show ?thesis using assms by (simp add: field_simps)
qed

text \<open>
  With the energy \<open>0.5 * m * (v * 1000)\<^sup>2\<close> the crater diameter is a constant
  times \<open>(v\<^sup>2 * sin angle) ^ (1/4) * m ^ (1/6)\<close>.
\<close>

lemma crater_diameter_closed:
  assumes "0 < m" "0 < r" "0 \<le> s"
  shows "calculateCraterDiameter (calculateKineticEnergy m v * s) v' m
           = 1.161 * ((0.5 * (v * 1000)\<^sup>2 * s / (2700 * 9.81)) powr 0.25 * 2700 powr (1/12))
             * m powr (1/6)"
proof -
  let ?c = "0.5 * (v * 1000)\<^sup>2 * s / (2700 * 9.81)"
  have c: "0 \<le> ?c" using assms by simp
  have 1: "(calculateKineticEnergy m v * s / (2700 * 9.81)) powr 0.25 = ?c powr 0.25 * m powr 0.25"
  proof -
    have "calculateKineticEnergy m v * s / (2700 * 9.81) = ?c * m"
      by (simp add: calculateKineticEnergy_def Let_def)
    then have "(calculateKineticEnergy m v * s / (2700 * 9.81)) powr 0.25 = (?c * m) powr 0.25"
      by (simp only:)
    also have "\<dots> = ?c powr 0.25 * m powr 0.25"
      using c assms(1) by (intro powr_mult)
    finally show ?thesis .
  qed
  have 2: "((m / 2700) powr (1/3)) powr (- 0.25) = m powr (- (1/12)) * 2700 powr (1/12)"
  proof -
    have "((m / 2700) powr (1/3)) powr (- 0.25) = (m / 2700) powr (- (1/12))"
      by (simp add: powr_powr)
    also have "\<dots> = m powr (- (1/12)) / 2700 powr (- (1/12))"
      using assms(1) by (simp add: powr_divide)
    also have "\<dots> = m powr (- (1/12)) * 2700 powr (1/12)"
      by (simp add: powr_minus field_simps)
    finally show ?thesis .
  qed
  have 3: "m powr 0.25 * m powr (- (1/12)) = m powr (1/6)"
    by (simp add: powr_add [symmetric])
  have "calculateCraterDiameter (calculateKineticEnergy m v * s) v' m
          = 1.161 * (?c powr 0.25 * m powr 0.25) * (m powr (- (1/12)) * 2700 powr (1/12))"
    unfolding calculateCraterDiameter_def Let_def EARTH_CRUST_DENSITY_def EARTH_GRAVITY_def
    by (simp only: 1 2)
  also have "\<dots> = 1.161 * (?c powr 0.25 * 2700 powr (1/12)) * (m powr 0.25 * m powr (- (1/12)))"
    by (simp only: mult_ac)
  finally show ?thesis by (simp only: 3)
qed

lemma crater_diameter_of_pipeline:
  assumes "validParameters p" "atm_survivesAtmosphere (entry p)"
  shows "crater_diameter (craterResults p)
           = 1.161 * ((0.5 * (atm_finalVelocity (entry p) * 1000)\<^sup>2 * sin (p_angle p * pi / 180)
                        / (2700 * 9.81)) powr 0.25 * 2700 powr (1/12))
             * atm_finalMass (entry p) powr (1/6)"
proof -
  have m: "0 < atm_finalMass (entry p)" using assms by (rule final_pos)
  have r: "0 < asteroidDensity p" using assms(1) by (rule asteroidDensity_pos)
  have s: "0 \<le> sin (p_angle p * pi / 180)"
    using assms(1) by (intro sin_degrees_nonneg) (simp_all add: validParameters_def)
  have "crater_diameter (craterResults p)
          = calculateCraterDiameter
              (calculateKineticEnergy (atm_finalMass (entry p)) (atm_finalVelocity (entry p))
                 * sin (p_angle p * pi / 180))
              (atm_finalVelocity (entry p)) (atm_finalMass (entry p))"
    unfolding craterResults_def calculateCrater_def Let_def finalEnergy_def
      entry_surviving(3) [OF assms(2)]
    by (simp only: CraterResult.select_convs projectile_mass [OF m r])
  then show ?thesis by (simp only: crater_diameter_closed [OF m r s])
qed

lemma crater_diameter_strict_mono:
  fixes m m' v v' s :: real
  assumes "0 < m" "m < m'" "0 < v" "v \<le> v'" "0 < s"
  shows "1.161 * ((0.5 * (v * 1000)\<^sup>2 * s / (2700 * 9.81)) powr 0.25 * 2700 powr (1/12)) * m powr (1/6)
       < 1.161 * ((0.5 * (v' * 1000)\<^sup>2 * s / (2700 * 9.81)) powr 0.25 * 2700 powr (1/12)) * m' powr (1/6)"
proof -
  define c where "c = 0.5 * (v * 1000)\<^sup>2 * s / (2700 * 9.81)"
  define c' where "c' = 0.5 * (v' * 1000)\<^sup>2 * s / (2700 * 9.81)"
  define k :: real where "k = 2700 powr (1/12)"
  have sq: "(v * 1000)\<^sup>2 \<le> (v' * 1000)\<^sup>2" using assms by (intro power_mono) simp_all
  have c0: "0 < c" using assms by (simp add: c_def)
  have "c \<le> c'"
    unfolding c_def c'_def using sq assms(5)
    by (intro divide_right_mono mult_right_mono mult_left_mono) simp_all
  then have a: "c powr 0.25 \<le> c' powr 0.25"
    using c0 by (intro powr_mono2) simp_all
  have a0: "0 < c powr 0.25" using c0 by simp
  have b: "m powr (1/6) < m' powr (1/6)" using assms by (intro powr_less_mono2) simp_all
  have b0: "0 \<le> m powr (1/6)" by simp
  have k: "0 < k" by (simp add: k_def)
  have "1.161 * (c powr 0.25 * k) \<le> 1.161 * (c' powr 0.25 * k)"
    using a k by (intro mult_left_mono mult_right_mono) simp_all
  moreover have "0 < 1.161 * (c powr 0.25 * k)"
    using a0 k by (intro mult_pos_pos) simp_all
  ultimately have "1.161 * (c powr 0.25 * k) * m powr (1/6) < 1.161 * (c' powr 0.25 * k) * m' powr (1/6)"
    using b b0 by (intro mult_le_less_imp_less)
  then show ?thesis unfolding c_def c'_def k_def .
qed

lemma max_strict_mono:
  fixes a b :: real
  shows "a < a' \<Longrightarrow> b < b' \<Longrightarrow> max a b < max a' b'"
  by auto

lemma overpressure_radius_strict_mono:
  assumes "0 \<le> e" "e < e'" "0 < P"
  shows "calculateOverpressureRadius e P < calculateOverpressureRadius e' P"
proof -
  define x where "x = (e / (4 * pi * P)) powr (1/3)"
  define y where "y = (e' / (4 * pi * P)) powr (1/3)"
  have "e / (4 * pi * P) < e' / (4 * pi * P)"
    using assms by (intro divide_strict_right_mono) (simp_all add: mult_pos_pos)
  moreover have "0 \<le> e / (4 * pi * P)" using assms by simp
  ultimately have "x < y"
    unfolding x_def y_def by (intro powr_less_mono2) simp_all
  moreover have "0 \<le> x" by (simp add: x_def)
  ultimately have "max x 0 < max y 0" by simp
  then show ?thesis
    unfolding calculateOverpressureRadius_def Let_def x_def y_def .
qed

lemma sin_degrees_pos: "0 < a \<Longrightarrow> a \<le> 90 \<Longrightarrow> 0 < sin (a * pi / 180)"
proof -
  assume a: "0 < a" "a \<le> 90"
  have "a * pi / 180 \<le> 90 * pi / 180" using a by (simp add: mult_right_mono)
  then have "a * pi / 180 < pi" by (simp add: field_simps)
  moreover have "0 < a * pi / 180" using a by simp
  ultimately show ?thesis by (simp add: sin_gt_zero)
qed

text \<open>Inside the fireball floor the burn radius is \<open>sqrt (0.35 * E / (4 * pi * threshold * 10000))\<close>.\<close>

lemma burn_radius_closed:
  assumes "0 < E" "0 < thr"
  shows "calculateBurnRadius (calculateFireball E) thr
           = max (sqrt (E * 0.35 / (4 * pi * (thr * 10000)))) (fb_radius (calculateFireball E))"
proof -
  let ?R = "fb_radius (calculateFireball E)"
  have R: "0 < ?R" using assms(1) by (rule fireball_radius_pos)
  define X where "X = E * 0.35 / (4 * pi * ?R\<^sup>2) / (thr * 10000)"
  have "sqrt (?R\<^sup>2 * X) = sqrt (?R\<^sup>2) * sqrt X" by (rule real_sqrt_mult)
  also have "sqrt (?R\<^sup>2) = ?R" using R by simp
  finally have "?R * sqrt X = sqrt (?R\<^sup>2 * X)" by simp
  then have "?R * sqrt (E * 0.35 / (4 * pi * ?R\<^sup>2) / (thr * 10000))
          = sqrt (?R\<^sup>2 * (E * 0.35 / (4 * pi * ?R\<^sup>2) / (thr * 10000)))"
    unfolding X_def .
  also have "?R\<^sup>2 * (E * 0.35 / (4 * pi * ?R\<^sup>2) / (thr * 10000))
          = E * 0.35 / (4 * pi * (thr * 10000))"
    using R by (simp add: field_simps)
  finally have "?R * sqrt (E * 0.35 / (4 * pi * ?R\<^sup>2) / (thr * 10000))
          = sqrt (E * 0.35 / (4 * pi * (thr * 10000)))" .
  moreover have "totalRadiantEnergy (calculateFireball E) = E * 0.35"
    by (simp add: calculateFireball_def)
  ultimately show ?thesis
    unfolding calculateBurnRadius_unfold by (simp only:)
qed

lemma fireball_radius_strict_mono:
  assumes "0 < E" "E < E'"
  shows "fb_radius (calculateFireball E) < fb_radius (calculateFireball E')"
proof -
  have "(E / 4184000000) powr 0.4 < (E' / 4184000000) powr 0.4"
    using assms by (intro powr_less_mono2) simp_all
  then show ?thesis by (simp add: calculateFireball_def)
qed

lemma burn_radius_strict_mono:
  assumes "0 < E" "E < E'" "0 < thr"
  shows "calculateBurnRadius (calculateFireball E) thr < calculateBurnRadius (calculateFireball E') thr"
proof -
  have E': "0 < E'" using assms by simp
  have "E * 0.35 / (4 * pi * (thr * 10000)) < E' * 0.35 / (4 * pi * (thr * 10000))"
    using assms by (intro divide_strict_right_mono mult_strict_right_mono) (simp_all add: mult_pos_pos)
  then have u: "sqrt (E * 0.35 / (4 * pi * (thr * 10000))) < sqrt (E' * 0.35 / (4 * pi * (thr * 10000)))"
    by simp
  note R = fireball_radius_strict_mono [OF assms(1,2)]
  show ?thesis
    unfolding burn_radius_closed [OF assms(1,3)] burn_radius_closed [OF E' assms(3)]
    by (rule max_strict_mono [OF u R])
qed

subsection \<open>The pipeline\<close>

text \<open>
  C4, as amended.  With velocity, angle and density fixed, a surviving valid
  impactor and a larger diameter: the larger body survives too, and its
  \<open>thermalRadius1deg\<close> is strictly larger; when the angle is above 0 degrees its
  \<open>craterDiameter\<close> and \<open>blastRadius1psi\<close> are strictly larger as well.
\<close>

theorem diameter_monotone:
  assumes "validParameters p" "survivesAtmosphere (calculateImpact p)" "p_diameter p < d'"
  shows "survivesAtmosphere (calculateImpact (p\<lparr>p_diameter := d'\<rparr>))
       \<and> (\<exists>b b'. phase1 (calculateImpact p) = Some b
              \<and> phase1 (calculateImpact (p\<lparr>p_diameter := d'\<rparr>)) = Some b'
              \<and> thermalRadius1deg b < thermalRadius1deg b'
              \<and> (0 < p_angle p \<longrightarrow>
                    craterDiameter b < craterDiameter b' \<and> blastRadius1psi b < blastRadius1psi b'))"
proof -
  let ?p' = "p\<lparr>p_diameter := d'\<rparr>"
  have s: "atm_survivesAtmosphere (entry p)" using assms(2) by (simp add: survives_iff)
  have s': "atm_survivesAtmosphere (entry ?p')"
    using s assms(3) by (intro larger_survives) simp_all
  have v': "validParameters ?p'" using assms(1,3) by (intro larger_valid) simp_all
  note m = final_mono [OF assms(1) s assms(3)]
  note pos = final_pos [OF assms(1) s]
  have th: "radius1deg (calculateThermalRadiation (finalEnergy p) (atm_finalDiameter (entry p)))
              < radius1deg (calculateThermalRadiation (finalEnergy ?p') (atm_finalDiameter (entry ?p')))"
    unfolding thermal_fields by (rule burn_radius_strict_mono [OF pos(3) m(3)]) simp
  have steep: "crater_diameter (craterResults p) < crater_diameter (craterResults ?p')
             \<and> radius1psi (calculateBlastWave (finalEnergy p) (p_angle p))
                 < radius1psi (calculateBlastWave (finalEnergy ?p') (p_angle ?p'))"
    if a: "0 < p_angle p"
  proof
    have a90: "p_angle p \<le> 90" using assms(1) by (simp add: validParameters_def)
    have sn: "0 < sin (p_angle p * pi / 180)" using a a90 by (rule sin_degrees_pos)
    show "crater_diameter (craterResults p) < crater_diameter (craterResults ?p')"
      unfolding crater_diameter_of_pipeline [OF assms(1) s] crater_diameter_of_pipeline [OF v' s']
      using crater_diameter_strict_mono [OF pos(1) m(1) pos(2) m(2) sn] by simp
    have e: "finalEnergy p * sin (p_angle p * pi / 180) < finalEnergy ?p' * sin (p_angle p * pi / 180)"
      using m(3) sn by simp
    have e0: "0 \<le> finalEnergy p * sin (p_angle p * pi / 180)"
      using pos(3) sn by simp
    have "calculateOverpressureRadius (finalEnergy p * sin (p_angle p * pi / 180)) LIGHT_DAMAGE
            < calculateOverpressureRadius (finalEnergy ?p' * sin (p_angle p * pi / 180)) LIGHT_DAMAGE"
      by (rule overpressure_radius_strict_mono [OF e0 e]) (simp add: LIGHT_DAMAGE_def)
    then show "radius1psi (calculateBlastWave (finalEnergy p) (p_angle p))
                 < radius1psi (calculateBlastWave (finalEnergy ?p') (p_angle ?p'))"
      by (simp add: calculateBlastWave_def calculateEffectiveEnergy_def Let_def)
  qed
  have "survivesAtmosphere (calculateImpact ?p')" using s' by (simp add: survives_iff)
  then show ?thesis
    using th steep by (simp add: phase1_surviving [OF s] phase1_surviving [OF s'])
qed

theorem diameter_monotone_witness:
  "validParameters scenarioB \<and> survivesAtmosphere (calculateImpact scenarioB)
   \<and> p_diameter scenarioB < 120 \<and> 0 < p_angle scenarioB
   \<and> (\<exists>b b'. phase1 (calculateImpact scenarioB) = Some b
          \<and> phase1 (calculateImpact (scenarioB\<lparr>p_diameter := 120\<rparr>)) = Some b'
          \<and> thermalRadius1deg b < thermalRadius1deg b'
          \<and> craterDiameter b < craterDiameter b' \<and> blastRadius1psi b < blastRadius1psi b')"
proof -
  have s: "survivesAtmosphere (calculateImpact scenarioB)"
    using scenarioB_survives by (simp add: survives_iff)
  have d: "p_diameter scenarioB < 120" and a: "0 < p_angle scenarioB"
    by (simp_all add: scenarioB_def)
  from diameter_monotone [OF scenarioB_valid s d] scenarioB_valid s d a show ?thesis by blast
qed

text \<open>
  C4, as stated, fails at an angle of 0 degrees: the 60 m and the 120 m body both
  survive, and both have crater diameter 0 and 1 psi blast radius 0.
\<close>

lemma scenarioGrazing_survives:
  "60 \<le> d \<Longrightarrow> atm_survivesAtmosphere (entry (scenarioGrazing\<lparr>p_diameter := d\<rparr>))"
proof -
  assume d: "60 \<le> d"
  have "calculateSurvivalDiameter 27 2700 \<le> 50"
    by (rule calculateSurvivalDiameter_le_50) simp_all
  then show ?thesis
    using d by (simp add: entry_survives_iff scenarioGrazing_def asteroidDensity_def
        getAsteroidDensity_def)
qed

lemma scenarioGrazing_phase1:
  assumes "60 \<le> d"
  shows "map_option craterDiameter (phase1 (calculateImpact (scenarioGrazing\<lparr>p_diameter := d\<rparr>))) = Some 0"
    and "map_option blastRadius1psi (phase1 (calculateImpact (scenarioGrazing\<lparr>p_diameter := d\<rparr>))) = Some 0"
proof -
  have a: "p_angle (scenarioGrazing\<lparr>p_diameter := d\<rparr>) = 0" by (simp add: scenarioGrazing_def)
  show "map_option craterDiameter (phase1 (calculateImpact (scenarioGrazing\<lparr>p_diameter := d\<rparr>))) = Some 0"
    by (simp add: phase1_surviving [OF scenarioGrazing_survives [OF assms]] craterResults_def a
        calculateCrater_0)
  show "map_option blastRadius1psi (phase1 (calculateImpact (scenarioGrazing\<lparr>p_diameter := d\<rparr>))) = Some 0"
    by (simp add: phase1_surviving [OF scenarioGrazing_survives [OF assms]] a calculateBlastWave_0)
qed

theorem diameter_monotone_counterexample:
  "validParameters (scenarioGrazing\<lparr>p_diameter := 60\<rparr>)
   \<and> validParameters (scenarioGrazing\<lparr>p_diameter := 120\<rparr>)
   \<and> survivesAtmosphere (calculateImpact (scenarioGrazing\<lparr>p_diameter := 60\<rparr>))
   \<and> survivesAtmosphere (calculateImpact (scenarioGrazing\<lparr>p_diameter := 120\<rparr>))
   \<and> map_option craterDiameter (phase1 (calculateImpact (scenarioGrazing\<lparr>p_diameter := 60\<rparr>))) = Some 0
   \<and> map_option craterDiameter (phase1 (calculateImpact (scenarioGrazing\<lparr>p_diameter := 120\<rparr>))) = Some 0
   \<and> map_option blastRadius1psi (phase1 (calculateImpact (scenarioGrazing\<lparr>p_diameter := 60\<rparr>))) = Some 0
   \<and> map_option blastRadius1psi (phase1 (calculateImpact (scenarioGrazing\<lparr>p_diameter := 120\<rparr>))) = Some 0"
proof -
  have v: "validParameters (scenarioGrazing\<lparr>p_diameter := 60\<rparr>)"
      "validParameters (scenarioGrazing\<lparr>p_diameter := 120\<rparr>)"
    by (simp_all add: validParameters_def scenarioGrazing_def)
  have s: "survivesAtmosphere (calculateImpact (scenarioGrazing\<lparr>p_diameter := 60\<rparr>))"
      "survivesAtmosphere (calculateImpact (scenarioGrazing\<lparr>p_diameter := 120\<rparr>))"
    by (simp_all add: survives_iff scenarioGrazing_survives)
  show ?thesis
    using v s scenarioGrazing_phase1 [of 60] scenarioGrazing_phase1 [of 120] by simp
qed

section \<open>Intensity zones\<close>

lemma calculateIntensityRadius_closed:
  "calculateIntensityRadius M i loc = 10 powr ((2 + 1.5 * M - real_of_int i) / 3.5) * 1000"
  by (simp add: calculateIntensityRadius_def getSiteAmplification_def Let_def)

lemma calculateIntensityRadius_antimono:
  assumes "i < j"
  shows "calculateIntensityRadius M j loc < calculateIntensityRadius M i loc"
proof -
  have "(2 + 1.5 * M - real_of_int j) / 3.5 < (2 + 1.5 * M - real_of_int i) / 3.5"
    using assms by (simp add: divide_strict_right_mono)
  then have "10 powr ((2 + 1.5 * M - real_of_int j) / 3.5) < 10 powr ((2 + 1.5 * M - real_of_int i) / 3.5)"
    by (intro powr_less_mono) simp_all
  then show ?thesis unfolding calculateIntensityRadius_closed by simp
qed

lemma intensityLevelsFrom_sorted:
  "sorted_wrt (\<lambda>a b. lvl_intensity a > lvl_intensity b) (intensityLevelsFrom base i cd)
   \<and> (\<forall>l \<in> set (intensityLevelsFrom base i cd). lvl_intensity l \<le> i)"
proof (induction base i cd rule: intensityLevelsFrom.induct)
  case (1 base i cd)
  show ?case
  proof (cases "i \<ge> 3")
    case True
    with 1 have IH: "sorted_wrt (\<lambda>a b. lvl_intensity a > lvl_intensity b) (intensityLevelsFrom base (i - 2) cd)"
      "\<forall>l \<in> set (intensityLevelsFrom base (i - 2) cd). lvl_intensity l \<le> i - 2"
      by simp_all
    show ?thesis
      apply (subst (1 2) intensityLevelsFrom.simps)
      using True IH by (auto simp: Let_def)
  next
    case False
    then show ?thesis by (subst (1 2) intensityLevelsFrom.simps) simp
  qed
qed

lemma collectZones_members:
  "z \<in> set (collectZones M loc levels idx) \<Longrightarrow>
     zone_intensity z \<in> lvl_intensity ` set levels
     \<and> zone_radius z = calculateIntensityRadius M (zone_intensity z) loc"
  by (induction levels arbitrary: idx) (auto simp: Let_def split: if_splits)

lemma collectZones_sorted:
  assumes "sorted_wrt (\<lambda>a b. lvl_intensity a > lvl_intensity b) levels"
  shows "sorted_wrt (\<lambda>a b. zone_intensity a > zone_intensity b) (collectZones M loc levels idx)"
  using assms
proof (induction levels arbitrary: idx)
  case Nil
  then show ?case by simp
next
  case (Cons l levels)
  have rest: "sorted_wrt (\<lambda>a b. zone_intensity a > zone_intensity b) (collectZones M loc levels (Suc idx))"
    using Cons by simp
  have below: "zone_intensity z < lvl_intensity l" if "z \<in> set (collectZones M loc levels (Suc idx))" for z
    using collectZones_members [OF that] Cons.prems by auto
  show ?case using rest below by (auto simp: Let_def)
qed

lemma collectZones_order:
  assumes "sorted_wrt (\<lambda>a b. lvl_intensity a > lvl_intensity b) levels"
  shows "sorted_wrt (\<lambda>a b. zone_intensity a > zone_intensity b \<and> zone_radius a < zone_radius b)
           (collectZones M loc levels idx)"
proof -
  have "sorted_wrt (\<lambda>a b. zone_intensity a > zone_intensity b) (collectZones M loc levels idx)"
    using assms by (rule collectZones_sorted)
  then show ?thesis
  proof (rule sorted_wrt_mono_rel [rotated])
    fix a b
    assume a: "a \<in> set (collectZones M loc levels idx)" and b: "b \<in> set (collectZones M loc levels idx)"
      and gt: "zone_intensity a > zone_intensity b"
    show "zone_intensity a > zone_intensity b \<and> zone_radius a < zone_radius b"
      using gt calculateIntensityRadius_antimono [OF gt, of M loc]
        collectZones_members [OF a] collectZones_members [OF b] by simp
  qed
qed

text \<open>Sorting a list whose keys strictly decrease reverses it.\<close>

lemma insort_key_last:
  fixes f :: "'a \<Rightarrow> real"
  assumes "\<forall>y \<in> set ys. f y < f x"
  shows "insort_key f x ys = ys @ [x]"
  using assms by (induction ys) auto

lemma sort_key_decreasing:
  fixes f :: "'a \<Rightarrow> real"
  assumes "sorted_wrt (\<lambda>a b. f a > f b) xs"
  shows "sort_key f xs = rev xs"
  using assms
proof (induction xs)
  case Nil
  then show ?case by simp
next
  case (Cons x xs)
  then have "sort_key f xs = rev xs" by simp
  moreover have "\<forall>y \<in> set (rev xs). f y < f x" using Cons.prems by auto
  ultimately show ?case by (simp add: insort_key_last)
qed

lemma calculateIntensityZones_rev:
  "calculateIntensityZones M loc cd =
     rev (collectZones M loc
            (intensityLevelsFrom (min 12 (max 3 \<lfloor>M * 1.5 + 2\<rfloor>)) (min 12 (max 3 \<lfloor>M * 1.5 + 2\<rfloor>)) cd) 0)"
proof -
  let ?levels = "intensityLevelsFrom (min 12 (max 3 \<lfloor>M * 1.5 + 2\<rfloor>)) (min 12 (max 3 \<lfloor>M * 1.5 + 2\<rfloor>)) cd"
  have "sorted_wrt (\<lambda>a b. zone_intensity a > zone_intensity b \<and> zone_radius a < zone_radius b)
          (collectZones M loc ?levels 0)"
    using intensityLevelsFrom_sorted by (intro collectZones_order) blast
  then have "sorted_wrt (\<lambda>a b. - zone_radius a > - zone_radius b) (collectZones M loc ?levels 0)"
    by (rule sorted_wrt_mono_rel [rotated]) simp
  then have "sort_key (\<lambda>z. - zone_radius z) (collectZones M loc ?levels 0) = rev (collectZones M loc ?levels 0)"
    by (rule sort_key_decreasing)
  then show ?thesis by (simp add: calculateIntensityZones_def Let_def)
qed

lemma calculateIntensityZones_order:
  "sorted_wrt (\<lambda>a b. zone_radius a > zone_radius b \<and> zone_intensity a < zone_intensity b)
     (calculateIntensityZones M loc cd)"
proof -
  let ?levels = "intensityLevelsFrom (min 12 (max 3 \<lfloor>M * 1.5 + 2\<rfloor>)) (min 12 (max 3 \<lfloor>M * 1.5 + 2\<rfloor>)) cd"
  have "sorted_wrt (\<lambda>a b. zone_intensity a > zone_intensity b \<and> zone_radius a < zone_radius b)
          (collectZones M loc ?levels 0)"
    using intensityLevelsFrom_sorted by (intro collectZones_order) blast
  then have "sorted_wrt (\<lambda>a b. zone_intensity b > zone_intensity a \<and> zone_radius b < zone_radius a)
          (rev (collectZones M loc ?levels 0))"
    by (simp add: sorted_wrt_rev)
  then show ?thesis
    unfolding calculateIntensityZones_rev by (rule sorted_wrt_mono_rel [rotated]) simp
qed

lemma calculateIntensityZones_members:
  "z \<in> set (calculateIntensityZones M loc cd) \<Longrightarrow>
     zone_radius z = calculateIntensityRadius M (zone_intensity z) loc"
  unfolding calculateIntensityZones_rev set_rev by (rule collectZones_members [THEN conjunct2])

text \<open>
  The example: \<open>10^16\<close> J has magnitude 49/15, about 3.27, and base intensity 6,
  so the levels are 6 and 4, and both zones pass the floor of 500 m.
\<close>

lemma magnitude_quake: "calculateMagnitude 10000000000000000 = 49/15"
proof -
  have "(100000000000000::real) = 10 ^ 14" by simp
  then have "log 10 (100000000000000::real) = 14" by (simp only: log_pow_cancel)
  then show ?thesis by (simp add: calculateMagnitude_def Let_def)
qed

lemma base_quake: "min 12 (max 3 \<lfloor>(49/15 :: real) * 1.5 + 2\<rfloor>) = 6"
proof -
  have "\<lfloor>(49/15 :: real) * 1.5 + 2\<rfloor> = 6" by (simp add: floor_eq_iff)
  then show ?thesis by simp
qed

lemma levels_quake:
  "intensityLevelsFrom 6 6 100 =
     [\<lparr> lvl_intensity = 6, lvl_description = getIntensityDescription 6,
        lvl_damageLevel = 6 / 12, lvl_baseRadius = 100 \<rparr>,
      \<lparr> lvl_intensity = 4, lvl_description = getIntensityDescription 4,
        lvl_damageLevel = 4 / 12, lvl_baseRadius = 200 \<rparr>]"
  by (simp add: intensityLevelsFrom.simps [of 6 6] intensityLevelsFrom.simps [of 6 4]
      intensityLevelsFrom.simps [of 6 2] Let_def)

lemma radius_above_floor:
  assumes "real_of_int i \<le> 2 + 1.5 * M"
  shows "1000 \<le> calculateIntensityRadius M i loc"
proof -
  have "0 \<le> (2 + 1.5 * M - real_of_int i) / 3.5" using assms by simp
  then have "1 \<le> 10 powr ((2 + 1.5 * M - real_of_int i) / 3.5)"
    by (intro ge_one_powr_ge_zero) simp_all
  then show ?thesis unfolding calculateIntensityRadius_closed by simp
qed

lemma zones_quake:
  "map zone_intensity (zones scenarioQuake) = [4, 6]"
  "map zone_radius (zones scenarioQuake)
     = [calculateIntensityRadius (49/15) 4 \<lparr> latitude = 0, longitude = 0 \<rparr>,
        calculateIntensityRadius (49/15) 6 \<lparr> latitude = 0, longitude = 0 \<rparr>]"
  "significant scenarioQuake"
proof -
  have r6: "1000 \<le> calculateIntensityRadius (49/15) 6 \<lparr> latitude = 0, longitude = 0 \<rparr>"
    by (rule radius_above_floor) simp
  have r4: "1000 \<le> calculateIntensityRadius (49/15) 4 \<lparr> latitude = 0, longitude = 0 \<rparr>"
    by (rule radius_above_floor) simp
  have z: "zones scenarioQuake
             = rev (collectZones (49/15) \<lparr> latitude = 0, longitude = 0 \<rparr> (intensityLevelsFrom 6 6 100) 0)"
    by (simp add: scenarioQuake_def calculateSeismicEffects_def magnitude_quake Let_def
        calculateIntensityZones_rev base_quake del: rev_rev_ident)
  show "map zone_intensity (zones scenarioQuake) = [4, 6]"
    unfolding z levels_quake using r6 r4 by (simp add: Let_def)
  show "map zone_radius (zones scenarioQuake)
     = [calculateIntensityRadius (49/15) 4 \<lparr> latitude = 0, longitude = 0 \<rparr>,
        calculateIntensityRadius (49/15) 6 \<lparr> latitude = 0, longitude = 0 \<rparr>]"
    unfolding z levels_quake using r6 r4 by (simp add: Let_def)
  show "significant scenarioQuake"
    by (simp add: scenarioQuake_def calculateSeismicEffects_def magnitude_quake Let_def)
qed

text \<open>
  C2, as stated, fails: in the example the zone of intensity 4 comes first and
  has a strictly larger radius than the zone of intensity 6.
\<close>

theorem zones_radius_counterexample:
  "map zone_intensity (zones scenarioQuake) = [4, 6]
   \<and> zone_radius (zones scenarioQuake ! 1) < zone_radius (zones scenarioQuake ! 0)"
proof -
  have "map zone_radius (zones scenarioQuake) ! 1 < map zone_radius (zones scenarioQuake) ! 0"
    unfolding zones_quake(2) using calculateIntensityRadius_antimono [of 4 6] by simp
  moreover have "length (zones scenarioQuake) = 2"
    using zones_quake(1) [THEN arg_cong, of length] by simp
  ultimately show ?thesis using zones_quake(1) by simp
qed

text \<open>
  C2, as amended.  The zones of a seismic result are ordered by strictly
  descending radius, and along that sequence the intensity strictly increases:
  of two zones, the one with the lower intensity has the strictly larger radius.
\<close>

theorem zones_ordering:
  "sorted_wrt (\<lambda>a b. zone_radius a > zone_radius b \<and> zone_intensity a < zone_intensity b)
     (zones (calculateSeismicEffects E loc cd))
   \<and> (\<forall>a \<in> set (zones (calculateSeismicEffects E loc cd)).
        \<forall>b \<in> set (zones (calculateSeismicEffects E loc cd)).
          zone_intensity a < zone_intensity b \<longrightarrow> zone_radius a > zone_radius b)"
proof (cases "\<exists>l. loc = Some l \<and> \<not> calculateMagnitude E < 3")
  case True
  then obtain l where l: "loc = Some l" "\<not> calculateMagnitude E < 3" by blast
  have z: "zones (calculateSeismicEffects E loc cd)
             = calculateIntensityZones (calculateMagnitude E) l cd"
    using l by (simp add: calculateSeismicEffects_def Let_def)
  have "zone_radius a > zone_radius b"
    if "a \<in> set (calculateIntensityZones (calculateMagnitude E) l cd)"
      "b \<in> set (calculateIntensityZones (calculateMagnitude E) l cd)"
      "zone_intensity a < zone_intensity b" for a b
    using calculateIntensityZones_members [OF that(1)] calculateIntensityZones_members [OF that(2)]
      calculateIntensityRadius_antimono [OF that(3)] by simp
  then show ?thesis unfolding z using calculateIntensityZones_order by blast
next
  case False
  then have "zones (calculateSeismicEffects E loc cd) = []"
    by (cases loc) (auto simp: calculateSeismicEffects_def Let_def)
  then show ?thesis by simp
qed

theorem zones_ordering_witness:
  "zones scenarioQuake ! 0 \<in> set (zones scenarioQuake)
   \<and> zones scenarioQuake ! 1 \<in> set (zones scenarioQuake)
   \<and> zone_intensity (zones scenarioQuake ! 0) < zone_intensity (zones scenarioQuake ! 1)
   \<and> zone_radius (zones scenarioQuake ! 0) > zone_radius (zones scenarioQuake ! 1)"
proof -
  have len: "length (zones scenarioQuake) = 2"
    using zones_quake(1) [THEN arg_cong, of length] by simp
  then have m: "zones scenarioQuake ! 0 \<in> set (zones scenarioQuake)"
      "zones scenarioQuake ! 1 \<in> set (zones scenarioQuake)"
    by simp_all
  have "map zone_intensity (zones scenarioQuake) ! 0 = 4" "map zone_intensity (zones scenarioQuake) ! 1 = 6"
    unfolding zones_quake(1) by simp_all
  then have i: "zone_intensity (zones scenarioQuake ! 0) < zone_intensity (zones scenarioQuake ! 1)"
    using len by simp
  from zones_ordering [of 10000000000000000 "Some \<lparr> latitude = 0, longitude = 0 \<rparr>" 100,
      folded scenarioQuake_def] m i
  show ?thesis by blast
qed

section \<open>Tsunami propagation\<close>

subsection \<open>The propagation loop\<close>

lemma propagateFrom_unfold:
  "propagateFrom iw step =
     (if step < 24 \<and> \<not> iw_speed iw * (real step * 3600) > 20000 * 1000
         \<and> \<not> js_less (calculateWaveHeightDecay (iw_height iw) (iw_speed iw * (real step * 3600))
                        (wavelength iw)) 0.01
      then \<lparr> wf_time = real step * 3600,
             wf_radius = iw_speed iw * (real step * 3600),
             wf_height = calculateWaveHeightDecay (iw_height iw) (iw_speed iw * (real step * 3600))
                           (wavelength iw),
             wf_speed = calculateWaveSpeedAtDistance iw (iw_speed iw * (real step * 3600)),
             wf_energy = calculateEnergyAtDistance (iw_energy iw) (iw_speed iw * (real step * 3600)) \<rparr>
           # propagateFrom iw (Suc step)
      else [])"
  by (subst propagateFrom.simps) (simp add: Let_def)

lemma propagateFrom_length: "length (propagateFrom iw step) \<le> 24 - step"
proof (induction "24 - step" arbitrary: step)
  case 0
  then show ?case by (subst propagateFrom_unfold) simp
next
  case (Suc n)
  have "length (propagateFrom iw (Suc step)) \<le> 24 - Suc step"
    using Suc.hyps(1) [of "Suc step"] Suc.hyps(2) by simp
  then show ?case using Suc.hyps(2) by (subst propagateFrom_unfold) auto
qed

lemma propagateFrom_nth:
  "k < length (propagateFrom iw step) \<Longrightarrow>
     wf_time (propagateFrom iw step ! k) = real (step + k) * 3600
     \<and> wf_radius (propagateFrom iw step ! k) = iw_speed iw * (real (step + k) * 3600)
     \<and> wf_height (propagateFrom iw step ! k)
         = calculateWaveHeightDecay (iw_height iw) (iw_speed iw * (real (step + k) * 3600))
             (wavelength iw)
     \<and> wf_radius (propagateFrom iw step ! k) \<le> 20000 * 1000
     \<and> \<not> js_less (wf_height (propagateFrom iw step ! k)) 0.01"
proof (induction "24 - step" arbitrary: step k)
  case 0
  then show ?case by (subst (asm) propagateFrom_unfold) simp
next
  case (Suc n)
  have IH: "j < length (propagateFrom iw (Suc step)) \<Longrightarrow>
     wf_time (propagateFrom iw (Suc step) ! j) = real (Suc step + j) * 3600
     \<and> wf_radius (propagateFrom iw (Suc step) ! j) = iw_speed iw * (real (Suc step + j) * 3600)
     \<and> wf_height (propagateFrom iw (Suc step) ! j)
         = calculateWaveHeightDecay (iw_height iw) (iw_speed iw * (real (Suc step + j) * 3600))
             (wavelength iw)
     \<and> wf_radius (propagateFrom iw (Suc step) ! j) \<le> 20000 * 1000
     \<and> \<not> js_less (wf_height (propagateFrom iw (Suc step) ! j)) 0.01" for j
    by (rule Suc.hyps(1)) (use Suc.hyps(2) in simp_all)
  let ?go = "step < 24 \<and> \<not> iw_speed iw * (real step * 3600) > 20000 * 1000
         \<and> \<not> js_less (calculateWaveHeightDecay (iw_height iw) (iw_speed iw * (real step * 3600))
                        (wavelength iw)) 0.01"
  have go: ?go
  proof (rule ccontr)
    assume "\<not> ?go"
    then have "propagateFrom iw step = []" by (subst propagateFrom_unfold) simp
    then show False using Suc.prems by simp
  qed
  show ?case
  proof (cases k)
    case 0
    then show ?thesis using go by (subst (1 2 3 4 5) propagateFrom_unfold) simp
  next
    case (Suc j)
    have "j < length (propagateFrom iw (Suc step))"
      using Suc.prems Suc go by (subst (asm) propagateFrom_unfold) simp
    from IH [OF this] show ?thesis
      using go Suc by (subst (1 2 3 4 5) propagateFrom_unfold) auto
  qed
qed

lemma propagateFrom_stops:
  "step + length (propagateFrom iw step) < 24 \<Longrightarrow>
     iw_speed iw * (real (step + length (propagateFrom iw step)) * 3600) > 20000 * 1000
     \<or> js_less (calculateWaveHeightDecay (iw_height iw)
                  (iw_speed iw * (real (step + length (propagateFrom iw step)) * 3600))
                  (wavelength iw)) 0.01"
proof (induction "24 - step" arbitrary: step)
  case 0
  then show ?case by simp
next
  case (Suc n)
  let ?go = "step < 24 \<and> \<not> iw_speed iw * (real step * 3600) > 20000 * 1000
         \<and> \<not> js_less (calculateWaveHeightDecay (iw_height iw) (iw_speed iw * (real step * 3600))
                        (wavelength iw)) 0.01"
  show ?case
  proof (cases ?go)
    case True
    then have len: "length (propagateFrom iw step) = Suc (length (propagateFrom iw (Suc step)))"
      by (subst propagateFrom_unfold) simp
    have "Suc step + length (propagateFrom iw (Suc step)) < 24"
      using Suc.prems len by simp
    moreover have "n = 24 - Suc step" using Suc.hyps(2) by simp
    ultimately have "iw_speed iw * (real (Suc step + length (propagateFrom iw (Suc step))) * 3600) > 20000 * 1000
     \<or> js_less (calculateWaveHeightDecay (iw_height iw)
                  (iw_speed iw * (real (Suc step + length (propagateFrom iw (Suc step))) * 3600))
                  (wavelength iw)) 0.01"
      by (rule Suc.hyps(1) [rotated])
    moreover have "step + length (propagateFrom iw step) = Suc step + length (propagateFrom iw (Suc step))"
      using len by simp
    ultimately show ?thesis by (simp only:)
  next
    case False
    then have e: "propagateFrom iw step = []" by (subst propagateFrom_unfold) simp
    have "step < 24" using Suc.hyps(2) by simp
    then show ?thesis using False unfolding e by simp
  qed
qed

lemma calculateWaveHeightDecay_zero: "calculateWaveHeightDecay h 0 wl = h"
  by (cases h) (simp_all add: calculateWaveHeightDecay_def)

lemma js_less_mono: "\<not> js_less h a \<Longrightarrow> b \<le> a \<Longrightarrow> \<not> js_less h b"
  by (cases h) simp_all

lemma propagateFrom_first:
  assumes "\<not> js_less (iw_height iw) 0.1"
  shows "propagateFrom iw 0 \<noteq> []"
proof -
  have "\<not> js_less (iw_height iw) 0.01" using assms by (rule js_less_mono) simp
  then show ?thesis
    by (subst propagateFrom_unfold) (simp add: calculateWaveHeightDecay_zero)
qed


text \<open>A height that is a number or \<open>Infinity\<close> stays so under the decay, whose two factors are positive.\<close>

lemma js_times_defined: "js_defined h \<Longrightarrow> 0 < c \<Longrightarrow> js_defined (js_times h c)"
  by (cases h) (simp_all add: js_defined_def)

lemma calculateWaveHeightDecay_defined:
  assumes "js_defined h"
  shows "js_defined (calculateWaveHeightDecay h r wl)"
proof -
  have "0 < 1 / sqrt (max (r / 1000) 1)" by simp
  moreover have "0 < exp (- r / (wl * 1000))" by simp
  ultimately show ?thesis
    unfolding calculateWaveHeightDecay_def Let_def
    using assms by (intro js_times_defined)
qed

lemma js_ge_if_not_less: "js_defined h \<Longrightarrow> \<not> js_less h r \<Longrightarrow> js_ge h r"
  by (cases h) (simp_all add: js_defined_def)

lemma calculateInitialWaveHeight_defined:
  assumes "0 < e" "0 \<le> vol"
  shows "js_defined (calculateInitialWaveHeight e vol depth)"
  using assms by (simp add: calculateInitialWaveHeight_def Let_def js_defined_def)

lemma calculateInitialWave_defined:
  assumes "0 < E" "0 \<le> cd" "0 < depth"
  shows "js_defined (iw_height (calculateInitialWave E depth cd))"
proof -
  have "0 < calculateEnergyTransferEfficiency depth cd"
    using assms by (simp add: calculateEnergyTransferEfficiency_def Let_def mult_pos_pos
        add_pos_nonneg)
  then have e: "0 < E * calculateEnergyTransferEfficiency depth cd"
    using assms(1) by simp
  have v: "0 \<le> calculateWaterDisplacement cd depth"
    using assms by (simp add: calculateWaterDisplacement_def Let_def)
  show ?thesis
    using calculateInitialWaveHeight_defined [OF e v]
    by (simp add: calculateInitialWave_def Let_def)
qed

lemma estimateWaterDepth_pos: "0 < estimateWaterDepth lat lng"
  by (simp add: estimateWaterDepth_def Let_def)

text \<open>
  The fronts of a wave that is not below 0.1 m: there is a first one, the front
  number \<open>k\<close> is the one of step \<open>k\<close>, and the list ends only at step 24 or at a
  step where one of the two \<open>break\<close>s is taken.
\<close>

lemma fronts_of_wave:
  assumes "\<not> js_less (iw_height iw) 0.1"
  shows "propagateFrom iw 0 \<noteq> []"
    and "length (propagateFrom iw 0) \<le> 24"
    and "k < length (propagateFrom iw 0) \<Longrightarrow>
           wf_time (propagateFrom iw 0 ! k) = real k * 3600
         \<and> wf_radius (propagateFrom iw 0 ! k) = iw_speed iw * (real k * 3600)
         \<and> wf_height (propagateFrom iw 0 ! k)
             = calculateWaveHeightDecay (iw_height iw) (iw_speed iw * (real k * 3600)) (wavelength iw)
         \<and> wf_radius (propagateFrom iw 0 ! k) \<le> 20000 * 1000
         \<and> \<not> js_less (wf_height (propagateFrom iw 0 ! k)) 0.01"
    and "length (propagateFrom iw 0) < 24 \<Longrightarrow>
           iw_speed iw * (real (length (propagateFrom iw 0)) * 3600) > 20000 * 1000
         \<or> js_less (calculateWaveHeightDecay (iw_height iw)
                      (iw_speed iw * (real (length (propagateFrom iw 0)) * 3600)) (wavelength iw)) 0.01"
proof -
  show "propagateFrom iw 0 \<noteq> []" using assms by (rule propagateFrom_first)
  show "length (propagateFrom iw 0) \<le> 24" using propagateFrom_length [of iw 0] by simp
  show "wf_time (propagateFrom iw 0 ! k) = real k * 3600
         \<and> wf_radius (propagateFrom iw 0 ! k) = iw_speed iw * (real k * 3600)
         \<and> wf_height (propagateFrom iw 0 ! k)
             = calculateWaveHeightDecay (iw_height iw) (iw_speed iw * (real k * 3600)) (wavelength iw)
         \<and> wf_radius (propagateFrom iw 0 ! k) \<le> 20000 * 1000
         \<and> \<not> js_less (wf_height (propagateFrom iw 0 ! k)) 0.01"
    if "k < length (propagateFrom iw 0)"
    using propagateFrom_nth [OF that] unfolding add_0 .
  show "iw_speed iw * (real (length (propagateFrom iw 0)) * 3600) > 20000 * 1000
         \<or> js_less (calculateWaveHeightDecay (iw_height iw)
                      (iw_speed iw * (real (length (propagateFrom iw 0)) * 3600)) (wavelength iw)) 0.01"
    if "length (propagateFrom iw 0) < 24"
    using propagateFrom_stops [of 0 iw] that unfolding add_0 by blast
qed

text \<open>From an energy above 0 and a crater diameter of at least 0 no height is NaN.\<close>

lemma fronts_height_ge:
  assumes "0 < E" "0 \<le> cd" "0 < depth"
    and "k < length (propagateFrom (calculateInitialWave E depth cd) 0)"
  shows "js_ge (wf_height (propagateFrom (calculateInitialWave E depth cd) 0 ! k)) 0.01"
proof -
  let ?iw = "calculateInitialWave E depth cd"
  note n = propagateFrom_nth [OF assms(4)]
  have "js_defined (iw_height ?iw)"
    using assms(1-3) by (rule calculateInitialWave_defined)
  then have "js_defined (wf_height (propagateFrom ?iw 0 ! k))"
    using n by (simp add: calculateWaveHeightDecay_defined)
  then show ?thesis using n js_ge_if_not_less by blast
qed

subsection \<open>The coastal effects\<close>

text \<open>Whatever the table of coastlines, the list comes out of the sort in ascending order.\<close>

lemma coastalEffectsFor_sorted: "sorted (map ce_arrivalTime (coastalEffectsFor cs fronts loc))"
  by (simp add: coastalEffectsFor_def)

text \<open>
  With the table as it is the list is in fact empty: no coastline has the keys
  \<open>latitude\<close> and \<open>longitude\<close>, so every distance is NaN and no wave front is found.
\<close>

lemma coastline_distance_NaN:
  "c \<in> set (getMajorCoastlines loc) \<Longrightarrow> calculateDistance loc' (cl_coordinates c) = None"
  by (auto simp: getMajorCoastlines_def calculateDistance_def)

lemma coastalEffectsOf_no_distance:
  assumes "\<forall>c \<in> set cs. calculateDistance loc (cl_coordinates c) = None"
  shows "coastalEffectsOf fronts loc cs = []"
  using assms by (induction cs) (simp_all add: Let_def findWaveAtDistance_def)

lemma calculateCoastalEffects_empty: "calculateCoastalEffects pr loc = []"
  unfolding calculateCoastalEffects_def coastalEffectsFor_def Let_def
  by (simp add: coastalEffectsOf_no_distance coastline_distance_NaN)

subsection \<open>The generated result\<close>

lemma tsunami_generated:
  assumes "generated (calculateTsunami E (Some loc) cd)"
  shows "inOcean (determineOceanImpact loc)"
    and "\<not> js_less (iw_height (calculateInitialWave E (waterDepth (determineOceanImpact loc)) cd)) 0.1"
    and "propagation (calculateTsunami E (Some loc) cd)
           = Some (modelWavePropagation
                     (calculateInitialWave E (waterDepth (determineOceanImpact loc)) cd) loc)"
    and "coastalEffects (calculateTsunami E (Some loc) cd)
           = calculateCoastalEffects
               (modelWavePropagation
                  (calculateInitialWave E (waterDepth (determineOceanImpact loc)) cd) loc) loc"
    and "initialWave (calculateTsunami E (Some loc) cd)
           = Some (calculateInitialWave E (waterDepth (determineOceanImpact loc)) cd)"
  using assms by (simp_all add: calculateTsunami_def Let_def split: if_splits)

lemma ocean_depth_pos: "inOcean (determineOceanImpact loc) \<Longrightarrow> 0 < waterDepth (determineOceanImpact loc)"
  by (simp add: determineOceanImpact_def Let_def estimateWaterDepth_pos split: if_splits)

lemma propagation_of_generated:
  assumes "generated (calculateTsunami E l cd)"
  shows "\<exists>loc iw pr.
      l = Some loc
    \<and> initialWave (calculateTsunami E l cd) = Some iw
    \<and> propagation (calculateTsunami E l cd) = Some pr
    \<and> prop_initialWave pr = iw
    \<and> waveFronts pr \<noteq> []
    \<and> length (waveFronts pr) \<le> 24
    \<and> (\<forall>k < length (waveFronts pr).
          wf_time (waveFronts pr ! k) = real k * 3600
        \<and> wf_radius (waveFronts pr ! k) = iw_speed iw * (real k * 3600)
        \<and> wf_height (waveFronts pr ! k)
            = calculateWaveHeightDecay (iw_height iw) (iw_speed iw * (real k * 3600)) (wavelength iw)
        \<and> wf_radius (waveFronts pr ! k) \<le> 20000 * 1000
        \<and> \<not> js_less (wf_height (waveFronts pr ! k)) 0.01
        \<and> (0 < E \<and> 0 \<le> cd \<longrightarrow> js_ge (wf_height (waveFronts pr ! k)) 0.01))
    \<and> (length (waveFronts pr) < 24 \<longrightarrow>
          iw_speed iw * (real (length (waveFronts pr)) * 3600) > 20000 * 1000
        \<or> js_less (calculateWaveHeightDecay (iw_height iw)
                     (iw_speed iw * (real (length (waveFronts pr)) * 3600)) (wavelength iw)) 0.01)
    \<and> coastalEffects (calculateTsunami E l cd)
         = coastalEffectsFor (getMajorCoastlines loc) (waveFronts pr) loc
    \<and> (\<forall>cs. sorted (map ce_arrivalTime (coastalEffectsFor cs (waveFronts pr) loc)))"
proof -
  obtain loc where l: "l = Some loc"
    using assms by (cases l) (simp_all add: calculateTsunami_def)
  let ?iw = "calculateInitialWave E (waterDepth (determineOceanImpact loc)) cd"
  let ?pr = "modelWavePropagation ?iw loc"
  note g = tsunami_generated [OF assms [unfolded l]]
  note f = fronts_of_wave [OF g(2)]
  have w: "waveFronts ?pr = propagateFrom ?iw 0" by (simp add: modelWavePropagation_def)
  have ge: "js_ge (wf_height (propagateFrom ?iw 0 ! k)) 0.01"
    if "k < length (propagateFrom ?iw 0)" "0 < E" "0 \<le> cd" for k
    using that(2,3) ocean_depth_pos [OF g(1)] that(1) by (rule fronts_height_ge)
  show ?thesis
  proof (rule exI [of _ loc], rule exI [of _ ?iw], rule exI [of _ ?pr], intro conjI)
    show "l = Some loc" by (rule l)
    show "initialWave (calculateTsunami E l cd) = Some ?iw" unfolding l by (rule g(5))
    show "propagation (calculateTsunami E l cd) = Some ?pr" unfolding l by (rule g(3))
    show "prop_initialWave ?pr = ?iw" by (simp add: modelWavePropagation_def)
    show "waveFronts ?pr \<noteq> []" unfolding w by (rule f(1))
    show "length (waveFronts ?pr) \<le> 24" unfolding w by (rule f(2))
    show "\<forall>k < length (waveFronts ?pr).
          wf_time (waveFronts ?pr ! k) = real k * 3600
        \<and> wf_radius (waveFronts ?pr ! k) = iw_speed ?iw * (real k * 3600)
        \<and> wf_height (waveFronts ?pr ! k)
            = calculateWaveHeightDecay (iw_height ?iw) (iw_speed ?iw * (real k * 3600)) (wavelength ?iw)
        \<and> wf_radius (waveFronts ?pr ! k) \<le> 20000 * 1000
        \<and> \<not> js_less (wf_height (waveFronts ?pr ! k)) 0.01
        \<and> (0 < E \<and> 0 \<le> cd \<longrightarrow> js_ge (wf_height (waveFronts ?pr ! k)) 0.01)"
      unfolding w using f(3) ge by blast
    show "length (waveFronts ?pr) < 24 \<longrightarrow>
          iw_speed ?iw * (real (length (waveFronts ?pr)) * 3600) > 20000 * 1000
        \<or> js_less (calculateWaveHeightDecay (iw_height ?iw)
                     (iw_speed ?iw * (real (length (waveFronts ?pr)) * 3600)) (wavelength ?iw)) 0.01"
      unfolding w using f(4) by blast
    show "coastalEffects (calculateTsunami E l cd)
         = coastalEffectsFor (getMajorCoastlines loc) (waveFronts ?pr) loc"
      unfolding l g(4) by (simp add: calculateCoastalEffects_def)
    show "\<forall>cs. sorted (map ce_arrivalTime (coastalEffectsFor cs (waveFronts ?pr) loc))"
      by (simp add: coastalEffectsFor_sorted)
  qed
qed


text \<open>
  C6.  Every tsunami result with \<open>generated = true\<close> has a location, an initial
  wave and a propagation.  The wave fronts are at least one and at most 24; the
  front number \<open>k\<close> (from 0) is the one of step \<open>k\<close>: its time is \<open>3600 * k\<close> seconds,
  its radius is the speed of the initial wave times that time and is at most
  20000 km, and its height is the decayed height at that radius, which is not
  below 0.01 m, and is at least 0.01 m when the energy is above 0 and the
  crater diameter at least 0.  The stepping is maximal: when the fronts are
  fewer than 24, then at the next step the radius exceeds 20000 km or the
  decayed height is below 0.01 m.  The coastal effects are what the loop and
  the sort give for the table of coastlines, and for every table that list is
  in ascending order of arrival time.
\<close>

theorem tsunami_propagation:
  assumes "generated (calculateTsunami E l cd)"
  shows "\<exists>loc iw pr.
      l = Some loc
    \<and> initialWave (calculateTsunami E l cd) = Some iw
    \<and> propagation (calculateTsunami E l cd) = Some pr
    \<and> prop_initialWave pr = iw
    \<and> waveFronts pr \<noteq> []
    \<and> length (waveFronts pr) \<le> 24
    \<and> (\<forall>k < length (waveFronts pr).
          wf_time (waveFronts pr ! k) = real k * 3600
        \<and> wf_radius (waveFronts pr ! k) = iw_speed iw * (real k * 3600)
        \<and> wf_height (waveFronts pr ! k)
            = calculateWaveHeightDecay (iw_height iw) (iw_speed iw * (real k * 3600)) (wavelength iw)
        \<and> wf_radius (waveFronts pr ! k) \<le> 20000 * 1000
        \<and> \<not> js_less (wf_height (waveFronts pr ! k)) 0.01
        \<and> (0 < E \<and> 0 \<le> cd \<longrightarrow> js_ge (wf_height (waveFronts pr ! k)) 0.01))
    \<and> (length (waveFronts pr) < 24 \<longrightarrow>
          iw_speed iw * (real (length (waveFronts pr)) * 3600) > 20000 * 1000
        \<or> js_less (calculateWaveHeightDecay (iw_height iw)
                     (iw_speed iw * (real (length (waveFronts pr)) * 3600)) (wavelength iw)) 0.01)
    \<and> coastalEffects (calculateTsunami E l cd)
         = coastalEffectsFor (getMajorCoastlines loc) (waveFronts pr) loc
    \<and> (\<forall>cs. sorted (map ce_arrivalTime (coastalEffectsFor cs (waveFronts pr) loc)))"
  using assms by (rule propagation_of_generated)

text \<open>
  The calls that \<open>calculateImpact\<close> makes have an energy above 0 and a crater
  diameter of at least 0: the final energy of a surviving valid impactor is
  above 0 and its crater diameter is at least 0.
\<close>

lemma crater_diameter_nonneg:
  assumes "validParameters p" "atm_survivesAtmosphere (entry p)"
  shows "0 \<le> crater_diameter (craterResults p)"
  unfolding crater_diameter_of_pipeline [OF assms]
  by (intro mult_nonneg_nonneg) simp_all

lemma tsunami_propagation_in_pipeline:
  assumes "validParameters p" "survivesAtmosphere (calculateImpact p)"
    and "phase2 (calculateImpact p) = Some b" "tsunamiGenerated b"
  shows "\<exists>pr. tsunamiPropagation b = Some pr
            \<and> waveFronts pr \<noteq> []
            \<and> length (waveFronts pr) \<le> 24
            \<and> (\<forall>k < length (waveFronts pr).
                  wf_time (waveFronts pr ! k) = real k * 3600
                \<and> js_ge (wf_height (waveFronts pr ! k)) 0.01
                \<and> wf_radius (waveFronts pr ! k) \<le> 20000 * 1000)
            \<and> sorted (map ce_arrivalTime (tsunamiCoastalEffects b))"
proof -
  have s: "atm_survivesAtmosphere (entry p)" using assms(2) by (simp add: survives_iff)
  let ?t = "calculateTsunami (finalEnergy p)
              (Some \<lparr> latitude = p_latitude p, longitude = p_longitude p \<rparr>)
              (crater_diameter (craterResults p))"
  have b: "tsunamiGenerated b = generated ?t" "tsunamiPropagation b = propagation ?t"
      "tsunamiCoastalEffects b = coastalEffects ?t"
    using assms(3) unfolding phase2_surviving [OF s refl refl refl] by auto
  have g: "generated ?t" using assms(4) b(1) by simp
  let ?loc = "\<lparr> latitude = p_latitude p, longitude = p_longitude p \<rparr>"
  let ?iw = "calculateInitialWave (finalEnergy p) (waterDepth (determineOceanImpact ?loc))
               (crater_diameter (craterResults p))"
  note t = tsunami_generated [OF g]
  note f = fronts_of_wave [OF t(2)]
  have ge: "js_ge (wf_height (propagateFrom ?iw 0 ! k)) 0.01"
    if "k < length (propagateFrom ?iw 0)" for k
    using final_pos(3) [OF assms(1) s] crater_diameter_nonneg [OF assms(1) s]
      ocean_depth_pos [OF t(1)] that
    by (rule fronts_height_ge)
  let ?pr = "modelWavePropagation ?iw ?loc"
  have w: "waveFronts ?pr = propagateFrom ?iw 0" by (simp add: modelWavePropagation_def)
  show ?thesis
  proof (rule exI [of _ ?pr], intro conjI)
    show "tsunamiPropagation b = Some ?pr" unfolding b(2) by (rule t(3))
    show "waveFronts ?pr \<noteq> []" unfolding w by (rule f(1))
    show "length (waveFronts ?pr) \<le> 24" unfolding w by (rule f(2))
    show "\<forall>k < length (waveFronts ?pr).
                  wf_time (waveFronts ?pr ! k) = real k * 3600
                \<and> js_ge (wf_height (waveFronts ?pr ! k)) 0.01
                \<and> wf_radius (waveFronts ?pr ! k) \<le> 20000 * 1000"
      unfolding w using f(3) ge by blast
    show "sorted (map ce_arrivalTime (tsunamiCoastalEffects b))"
      unfolding b(3) t(4) calculateCoastalEffects_def Let_def by (rule coastalEffectsFor_sorted)
  qed
qed

text \<open>
  Outside these, at an energy of 0 with a crater of diameter 0, the initial
  height is \<open>0 / 0\<close>: NaN is not below 0.1, the result has \<open>generated = true\<close>, and
  the height of its first front is NaN.
\<close>

lemma tsunami_of_nothing:
  "generated (calculateTsunami 0 (Some \<lparr> latitude = 0, longitude = -30 \<rparr>) 0)
   \<and> map_option (\<lambda>pr. wf_height (waveFronts pr ! 0))
        (propagation (calculateTsunami 0 (Some \<lparr> latitude = 0, longitude = -30 \<rparr>) 0)) = Some NaN"
proof -
  have o: "inOcean (determineOceanImpact \<lparr> latitude = 0, longitude = -30 \<rparr>)"
    by (simp add: determineOceanImpact_def isOceanCoordinate_def Let_def)
  have h: "iw_height (calculateInitialWave 0 d 0) = NaN" for d
    by (simp add: calculateInitialWave_def calculateInitialWaveHeight_def
        calculateWaterDisplacement_def Let_def)
  have f: "wf_height (propagateFrom (calculateInitialWave 0 d 0) 0 ! 0) = NaN" for d
    by (subst propagateFrom_unfold) (simp add: h calculateWaveHeightDecay_zero)
  show ?thesis
    using o by (simp add: calculateTsunami_def Let_def h f modelWavePropagation_def)
qed


subsection \<open>The examples\<close>

text \<open>On the equator in the Atlantic the depth estimate is 4000 m.\<close>

lemma ocean_of_example:
  "inOcean (determineOceanImpact \<lparr> latitude = 0, longitude = -30 \<rparr>)"
  "waterDepth (determineOceanImpact \<lparr> latitude = 0, longitude = -30 \<rparr>) = 4000"
  by (simp_all add: determineOceanImpact_def isOceanCoordinate_def estimateWaterDepth_def Let_def)

lemma calculateInitialWaveHeight_lower:
  fixes e V Vmax b depth :: real
  assumes "0 < V" "V \<le> Vmax" "0 \<le> e" "0 \<le> b" "b\<^sup>2 * (1000 * 9.81 * Vmax) \<le> 2 * e"
  shows "\<exists>x. calculateInitialWaveHeight e V depth = Num x \<and> b \<le> x"
proof -
  define c where "c = 1000 * 9.81 * V"
  have c: "0 < c" unfolding c_def using assms(1) by simp
  have area: "pi * (sqrt (V / pi))\<^sup>2 = V" using assms(1) by simp
  have "b\<^sup>2 * c \<le> b\<^sup>2 * (1000 * 9.81 * Vmax)"
    unfolding c_def using assms(2) by (intro mult_left_mono) simp_all
  then have "b\<^sup>2 * c \<le> 2 * e" using assms(5) by (rule order_trans)
  then have "b\<^sup>2 \<le> (2 * e) / c"
    using c by (simp add: pos_le_divide_eq)
  then have "sqrt (b\<^sup>2) \<le> sqrt (max ((2 * e) / c) 0)"
    by (intro real_sqrt_le_mono) simp
  then have "b \<le> sqrt (max ((2 * e) / c) 0)"
    using assms(4) by simp
  moreover have "calculateInitialWaveHeight e V depth = Num (sqrt (max ((2 * e) / c) 0))"
    unfolding calculateInitialWaveHeight_def Let_def WATER_DENSITY_def EARTH_GRAVITY_def area c_def
    using assms(1) by simp
  ultimately show ?thesis by blast
qed

text \<open>
  Up to the radius of 20000 km and with a wavelength of 80 km or more the
  decayed height is at least \<open>3 / 568\<close> of the height: the geometric factor is
  at least \<open>1 / 142\<close> and the dissipation factor at least \<open>3 / 4\<close>.
\<close>

lemma calculateWaveHeightDecay_lower:
  fixes x b r wl :: real
  assumes "b \<le> x" "0 \<le> b" "0 \<le> r" "r \<le> 20000000" "80000 \<le> wl"
  shows "\<exists>y. calculateWaveHeightDecay (Num x) r wl = Num y \<and> b * (3 / 568) \<le> y"
proof -
  define g where "g = 1 / sqrt (max (r / 1000) 1)"
  define d where "d = exp (- r / (wl * 1000))"
  have "max (r / 1000) 1 \<le> 142\<^sup>2" using assms(4) by simp
  then have "sqrt (max (r / 1000) 1) \<le> sqrt (142\<^sup>2)" by (rule real_sqrt_le_mono)
  then have s: "sqrt (max (r / 1000) 1) \<le> 142" by simp
  have s0: "0 < sqrt (max (r / 1000) 1)" by simp
  have g: "1 / 142 \<le> g" unfolding g_def using s s0 by (intro divide_left_mono) simp_all
  have "r / (wl * 1000) \<le> 20000000 / (80000 * 1000)"
    using assms by (intro frac_le) simp_all
  then have "- (1 / 4) \<le> - r / (wl * 1000)" by simp
  then have "1 + - (1 / 4) \<le> 1 + (- r / (wl * 1000))" by simp
  also have "\<dots> \<le> d" unfolding d_def by (rule exp_ge_add_one_self)
  finally have d: "3 / 4 \<le> d" by simp
  have x0: "0 \<le> x" using assms(1,2) by simp
  have xg: "b * (1 / 142) \<le> x * g" by (rule mult_mono [OF assms(1) g x0]) simp
  have xg0: "0 \<le> x * g" using x0 g by simp
  have "(b * (1 / 142)) * (3 / 4) \<le> (x * g) * d" using xg d xg0 by (rule mult_mono) simp
  then have "b * (3 / 568) \<le> x * g * d" by simp
  moreover have "calculateWaveHeightDecay (Num x) r wl = Num (x * g * d)"
    by (simp add: calculateWaveHeightDecay_def g_def d_def)
  ultimately show ?thesis by blast
qed

text \<open>
  \<open>10^20\<close> J and a crater of 2 km: the wavelength is 100 km, which makes the depth
  of 4000 m shallow, so the speed is \<open>sqrt (9.81 * 4000)\<close>, below 200 m/s, and
  the initial wave is higher than 100 m.  For 24 steps the radius stays below
  20000 km and the height above 0.01 m.
\<close>

lemma shallow_wave:
  "wavelength (calculateInitialWave 100000000000000000000 4000 2000) = 100000"
  "iw_speed (calculateInitialWave 100000000000000000000 4000 2000) = sqrt 39240"
  "\<exists>x. iw_height (calculateInitialWave 100000000000000000000 4000 2000) = Num x \<and> 100 \<le> x"
proof -
  show "wavelength (calculateInitialWave 100000000000000000000 4000 2000) = 100000"
    by (simp add: calculateInitialWave_def Let_def)
  show "iw_speed (calculateInitialWave 100000000000000000000 4000 2000) = sqrt 39240"
    by (simp add: calculateInitialWave_def calculateWaveSpeed_def EARTH_GRAVITY_def Let_def)
  define V where "V = calculateWaterDisplacement 2000 4000"
  have V: "V = (2/3) * pi * 200000000" by (simp add: V_def calculateWaterDisplacement_def Let_def)
  have Vpos: "0 < V" unfolding V by simp
  have Vle: "V \<le> (2/3) * 4 * 200000000" unfolding V using pi_less_4 by simp
  have eff: "calculateEnergyTransferEfficiency 4000 2000 = 0.004"
    by (simp add: calculateEnergyTransferEfficiency_def Let_def)
  have "\<exists>x. calculateInitialWaveHeight (100000000000000000000 * 0.004) V 4000 = Num x \<and> 100 \<le> x"
    using Vpos Vle by (rule calculateInitialWaveHeight_lower) simp_all
  then show "\<exists>x. iw_height (calculateInitialWave 100000000000000000000 4000 2000) = Num x \<and> 100 \<le> x"
    by (simp add: calculateInitialWave_def Let_def eff V_def)
qed

lemma scenarioTsunamiShallow_generated: "generated scenarioTsunamiShallow"
proof -
  obtain x where x: "iw_height (calculateInitialWave 100000000000000000000 4000 2000) = Num x" "100 \<le> x"
    using shallow_wave(3) by blast
  then have "\<not> js_less (iw_height (calculateInitialWave 100000000000000000000 4000 2000)) 0.1"
    by simp
  then show ?thesis
    by (simp add: scenarioTsunamiShallow_def calculateTsunami_def ocean_of_example Let_def)
qed

lemma shallow_steps:
  assumes "k < 24"
  shows "sqrt 39240 * (real k * 3600) \<le> 20000 * 1000"
    and "\<not> js_less (calculateWaveHeightDecay
                     (iw_height (calculateInitialWave 100000000000000000000 4000 2000))
                     (sqrt 39240 * (real k * 3600)) 100000) 0.01"
proof -
  have "sqrt 39240 \<le> sqrt (200\<^sup>2)" by (rule real_sqrt_le_mono) simp
  then have s: "sqrt 39240 \<le> 200" by simp
  have k: "real k * 3600 \<le> 23 * 3600" using assms by simp
  have "sqrt 39240 * (real k * 3600) \<le> 200 * (23 * 3600)"
    using s k by (intro mult_mono) simp_all
  then show r: "sqrt 39240 * (real k * 3600) \<le> 20000 * 1000" by simp
  have r0: "0 \<le> sqrt 39240 * (real k * 3600)" by simp
  obtain x where x: "iw_height (calculateInitialWave 100000000000000000000 4000 2000) = Num x" "100 \<le> x"
    using shallow_wave(3) by blast
  obtain y where "calculateWaveHeightDecay (Num x) (sqrt 39240 * (real k * 3600)) 100000 = Num y"
      "0.01 \<le> y"
    using calculateWaveHeightDecay_lower [OF x(2) _ r0, of 100000] r by auto
  then show "\<not> js_less (calculateWaveHeightDecay
                     (iw_height (calculateInitialWave 100000000000000000000 4000 2000))
                     (sqrt 39240 * (real k * 3600)) 100000) 0.01"
    unfolding x(1) by simp
qed

text \<open>
  \<open>10^20\<close> J and a crater of 1 km: the wavelength is 80 km and the water of
  4000 m is deep for it, so the speed is \<open>sqrt (9.81 * 80000 / (2 * pi))\<close>, between
  313 and 443 m/s, and the initial wave is higher than 2 m.  A front of step 18
  would be beyond 20000 km; the stepping ends before, and it ends on the radius.
\<close>

lemma deep_wave:
  "wavelength (calculateInitialWave E 4000 1000) = 80000"
  "313 \<le> iw_speed (calculateInitialWave E 4000 1000)"
  "iw_speed (calculateInitialWave E 4000 1000) \<le> 443"
proof -
  show "wavelength (calculateInitialWave E 4000 1000) = 80000"
    by (simp add: calculateInitialWave_def Let_def)
  have s: "iw_speed (calculateInitialWave E 4000 1000) = sqrt (9.81 * 80000 / (2 * pi))"
    by (simp add: calculateInitialWave_def calculateWaveSpeed_def EARTH_GRAVITY_def Let_def)
  have "(313::real)\<^sup>2 \<le> 9.81 * 80000 / (2 * 4)" by (simp add: power2_eq_square)
  also have "\<dots> \<le> 9.81 * 80000 / (2 * pi)"
    using pi_less_4 pi_gt_zero by (intro divide_left_mono mult_pos_pos) simp_all
  finally have "sqrt ((313::real)\<^sup>2) \<le> sqrt (9.81 * 80000 / (2 * pi))"
    by (rule real_sqrt_le_mono)
  then show "313 \<le> iw_speed (calculateInitialWave E 4000 1000)" unfolding s by simp
  have "9.81 * 80000 / (2 * pi) \<le> 9.81 * 80000 / (2 * 2)"
    using pi_ge_two by (intro divide_left_mono mult_pos_pos) simp_all
  also have "\<dots> \<le> (443::real)\<^sup>2" by (simp add: power2_eq_square)
  finally have "sqrt (9.81 * 80000 / (2 * pi)) \<le> sqrt ((443::real)\<^sup>2)"
    by (rule real_sqrt_le_mono)
  then show "iw_speed (calculateInitialWave E 4000 1000) \<le> 443" unfolding s by simp
qed

lemma deep_height:
  "\<exists>x. iw_height (calculateInitialWave 100000000000000000000 4000 1000) = Num x \<and> 2 \<le> x"
proof -
  define V where "V = calculateWaterDisplacement 1000 4000"
  have V: "V = (2/3) * pi * 25000000" by (simp add: V_def calculateWaterDisplacement_def Let_def)
  have Vpos: "0 < V" unfolding V by simp
  have Vle: "V \<le> (2/3) * 4 * 25000000" unfolding V using pi_less_4 by simp
  have eff: "calculateEnergyTransferEfficiency 4000 1000 = 0.004"
    by (simp add: calculateEnergyTransferEfficiency_def Let_def)
  have "\<exists>x. calculateInitialWaveHeight (100000000000000000000 * 0.004) V 4000 = Num x \<and> 2 \<le> x"
    using Vpos Vle by (rule calculateInitialWaveHeight_lower) simp_all
  then show ?thesis
    by (simp add: calculateInitialWave_def Let_def eff V_def)
qed

lemma scenarioTsunami_generated: "generated scenarioTsunami"
proof -
  obtain x where x: "iw_height (calculateInitialWave 100000000000000000000 4000 1000) = Num x" "2 \<le> x"
    using deep_height by blast
  then have "\<not> js_less (iw_height (calculateInitialWave 100000000000000000000 4000 1000)) 0.1"
    by simp
  then show ?thesis
    by (simp add: scenarioTsunami_def calculateTsunami_def ocean_of_example Let_def)
qed

lemma scenarioTsunami_stops_on_radius:
  "\<exists>pr. propagation scenarioTsunami = Some pr
        \<and> waveFronts pr \<noteq> []
        \<and> length (waveFronts pr) \<le> 18
        \<and> 20000 * 1000
            < iw_speed (prop_initialWave pr) * (real (length (waveFronts pr)) * 3600)"
proof -
  let ?iw = "calculateInitialWave 100000000000000000000 4000 1000"
  define fs where "fs = propagateFrom ?iw 0"
  define s where "s = iw_speed ?iw"
  have s: "313 \<le> s" "s \<le> 443" unfolding s_def by (rule deep_wave)+
  obtain x where x: "iw_height ?iw = Num x" "2 \<le> x" using deep_height by blast
  have h: "\<not> js_less (iw_height ?iw) 0.1" using x by simp
  note f = fronts_of_wave [OF h, folded fs_def s_def, unfolded deep_wave(1)]
  have l18: "length fs \<le> 18"
  proof (rule ccontr)
    assume "\<not> length fs \<le> 18"
    then have "18 < length fs" by simp
    from f(3) [OF this] have "s * (real 18 * 3600) \<le> 20000 * 1000" by simp
    moreover have "313 * (real 18 * 3600) \<le> s * (real 18 * 3600)"
      using s(1) by (intro mult_right_mono) simp_all
    ultimately show False by simp
  qed
  then have "length fs < 24" by simp
  from f(4) [OF this] have
    stop: "20000 * 1000 < s * (real (length fs) * 3600)
           \<or> js_less (calculateWaveHeightDecay (iw_height ?iw) (s * (real (length fs) * 3600)) 80000) 0.01" .
  have r: "20000 * 1000 < s * (real (length fs) * 3600)"
  proof (rule ccontr)
    assume "\<not> 20000 * 1000 < s * (real (length fs) * 3600)"
    then have r: "s * (real (length fs) * 3600) \<le> 20000000" by simp
    have r0: "0 \<le> s * (real (length fs) * 3600)" using s(1) by simp
    obtain y where "calculateWaveHeightDecay (Num x) (s * (real (length fs) * 3600)) 80000 = Num y"
        "0.01 \<le> y"
      using calculateWaveHeightDecay_lower [OF x(2) _ r0 r, of 80000] by auto
    then have "\<not> js_less (calculateWaveHeightDecay (iw_height ?iw) (s * (real (length fs) * 3600)) 80000) 0.01"
      unfolding x(1) by simp
    with stop r show False by simp
  qed
  have p: "propagation scenarioTsunami = Some (modelWavePropagation ?iw \<lparr> latitude = 0, longitude = -30 \<rparr>)"
    using tsunami_generated(3) [OF scenarioTsunami_generated [unfolded scenarioTsunami_def]]
    by (simp add: scenarioTsunami_def ocean_of_example)
  show ?thesis
    unfolding p using f(1) l18 r
    by (simp add: modelWavePropagation_def fs_def s_def)
qed

text \<open>
  \<open>2.5 * 10^12\<close> J and a crater of 1 km: the initial wave is between 0.1 m and
  0.25 m.  After one hour it is more than 1089 km away, where its height is
  below 0.01 m: the stepping ends on the height, and there is one front.
\<close>

lemma calculateInitialWaveHeight_upper:
  fixes e V Vmin t depth :: real
  assumes "0 < Vmin" "Vmin \<le> V" "0 \<le> e" "0 \<le> t" "2 * e \<le> t\<^sup>2 * (1000 * 9.81 * Vmin)"
  shows "\<exists>x. calculateInitialWaveHeight e V depth = Num x \<and> x \<le> t"
proof -
  define c where "c = 1000 * 9.81 * V"
  have V: "0 < V" using assms(1,2) by simp
  have c: "0 < c" unfolding c_def using V by simp
  have area: "pi * (sqrt (V / pi))\<^sup>2 = V" using V by simp
  have "t\<^sup>2 * (1000 * 9.81 * Vmin) \<le> t\<^sup>2 * c"
    unfolding c_def using assms(2) by (intro mult_left_mono) simp_all
  with assms(5) have "2 * e \<le> t\<^sup>2 * c" by (rule order_trans)
  then have "(2 * e) / c \<le> t\<^sup>2"
    using c by (simp add: pos_divide_le_eq)
  then have "max ((2 * e) / c) 0 \<le> t\<^sup>2" by simp
  then have "sqrt (max ((2 * e) / c) 0) \<le> sqrt (t\<^sup>2)"
    by (rule real_sqrt_le_mono)
  then have "sqrt (max ((2 * e) / c) 0) \<le> t"
    using assms(4) by simp
  moreover have "calculateInitialWaveHeight e V depth = Num (sqrt (max ((2 * e) / c) 0))"
    unfolding calculateInitialWaveHeight_def Let_def WATER_DENSITY_def EARTH_GRAVITY_def area c_def
    using V by simp
  ultimately show ?thesis by blast
qed

lemma calculateWaveHeightDecay_upper:
  fixes x r wl :: real
  assumes "0 \<le> x" "x \<le> 1 / 4" "1089000 \<le> r" "0 < wl"
  shows "\<exists>y. calculateWaveHeightDecay (Num x) r wl = Num y \<and> y < 0.01"
proof -
  define g where "g = 1 / sqrt (max (r / 1000) 1)"
  define d where "d = exp (- r / (wl * 1000))"
  have "33\<^sup>2 \<le> max (r / 1000) 1" using assms(3) by simp
  then have "sqrt (33\<^sup>2) \<le> sqrt (max (r / 1000) 1)" by (rule real_sqrt_le_mono)
  then have s: "33 \<le> sqrt (max (r / 1000) 1)" by simp
  have g: "g \<le> 1 / 33" unfolding g_def using s by (intro divide_left_mono) simp_all
  have g0: "0 \<le> g" unfolding g_def by simp
  have "- r / (wl * 1000) \<le> 0" using assms(3,4) by simp
  then have d: "d \<le> 1" unfolding d_def by simp
  have d0: "0 \<le> d" unfolding d_def by simp
  have xg: "x * g \<le> (1 / 4) * (1 / 33)" by (rule mult_mono [OF assms(2) g]) (use g0 in simp_all)
  have xg0: "0 \<le> x * g" using assms(1) g0 by simp
  have "(x * g) * d \<le> ((1 / 4) * (1 / 33)) * 1" by (rule mult_mono [OF xg d]) (use d0 in simp_all)
  then have "x * g * d < 0.01" by simp
  moreover have "calculateWaveHeightDecay (Num x) r wl = Num (x * g * d)"
    by (simp add: calculateWaveHeightDecay_def g_def d_def)
  ultimately show ?thesis by blast
qed

lemma small_height:
  "\<exists>x. iw_height (calculateInitialWave 2500000000000 4000 1000) = Num x \<and> 0.1 \<le> x \<and> x \<le> 1 / 4"
proof -
  define V where "V = calculateWaterDisplacement 1000 4000"
  have V: "V = (2/3) * pi * 25000000" by (simp add: V_def calculateWaterDisplacement_def Let_def)
  have Vpos: "0 < V" unfolding V by simp
  have Vle: "V \<le> (2/3) * 4 * 25000000" unfolding V using pi_less_4 by simp
  have Vge: "(2/3) * 2 * 25000000 \<le> V" unfolding V using pi_ge_two by simp
  have eff: "calculateEnergyTransferEfficiency 4000 1000 = 0.004"
    by (simp add: calculateEnergyTransferEfficiency_def Let_def)
  obtain x where x: "calculateInitialWaveHeight (2500000000000 * 0.004) V 4000 = Num x" "0.1 \<le> x"
    using calculateInitialWaveHeight_lower [OF Vpos Vle, of "2500000000000 * 0.004" "0.1" 4000]
    by (auto simp: power2_eq_square)
  obtain x' where x': "calculateInitialWaveHeight (2500000000000 * 0.004) V 4000 = Num x'" "x' \<le> 1 / 4"
    using calculateInitialWaveHeight_upper [OF _ Vge, of "2500000000000 * 0.004" "1 / 4" 4000]
    by (auto simp: power2_eq_square)
  have "x' = x" using x(1) x'(1) by simp
  then show ?thesis
    using x x' by (simp add: calculateInitialWave_def Let_def eff V_def)
qed

lemma scenarioTsunamiSmall_generated: "generated scenarioTsunamiSmall"
proof -
  obtain x where x: "iw_height (calculateInitialWave 2500000000000 4000 1000) = Num x" "0.1 \<le> x"
    using small_height by blast
  then have "\<not> js_less (iw_height (calculateInitialWave 2500000000000 4000 1000)) 0.1"
    by simp
  then show ?thesis
    by (simp add: scenarioTsunamiSmall_def calculateTsunami_def ocean_of_example Let_def)
qed

lemma scenarioTsunamiSmall_stops_on_height:
  "\<exists>pr. propagation scenarioTsunamiSmall = Some pr
        \<and> length (waveFronts pr) = 1
        \<and> iw_speed (prop_initialWave pr) * (real 1 * 3600) \<le> 20000 * 1000
        \<and> js_less (calculateWaveHeightDecay (iw_height (prop_initialWave pr))
                     (iw_speed (prop_initialWave pr) * (real 1 * 3600))
                     (wavelength (prop_initialWave pr))) 0.01"
proof -
  let ?iw = "calculateInitialWave 2500000000000 4000 1000"
  define fs where "fs = propagateFrom ?iw 0"
  define s where "s = iw_speed ?iw"
  have s: "313 \<le> s" "s \<le> 443" unfolding s_def by (rule deep_wave)+
  obtain x where x: "iw_height ?iw = Num x" "0.1 \<le> x" "x \<le> 1 / 4" using small_height by blast
  have h: "\<not> js_less (iw_height ?iw) 0.1" using x by simp
  note f = fronts_of_wave [OF h, folded fs_def s_def, unfolded deep_wave(1)]
  have r1: "1089000 \<le> s * (real 1 * 3600)" using s(1) by simp
  have r2: "s * (real 1 * 3600) \<le> 20000 * 1000" using s(2) by simp
  have x0: "0 \<le> x" using x(2) by simp
  obtain y where "calculateWaveHeightDecay (Num x) (s * (real 1 * 3600)) 80000 = Num y" "y < 0.01"
    using calculateWaveHeightDecay_upper [OF x0 x(3) r1, of 80000] by auto
  then have low: "js_less (calculateWaveHeightDecay (iw_height ?iw) (s * (real 1 * 3600)) 80000) 0.01"
    unfolding x(1) by simp
  have "\<not> 1 < length fs"
  proof
    assume "1 < length fs"
    from f(3) [OF this] low show False by auto
  qed
  then have l1: "length fs = 1" using f(1) by (cases fs) simp_all
  have p: "propagation scenarioTsunamiSmall
             = Some (modelWavePropagation ?iw \<lparr> latitude = 0, longitude = -30 \<rparr>)"
    using tsunami_generated(3) [OF scenarioTsunamiSmall_generated [unfolded scenarioTsunamiSmall_def]]
    by (simp add: scenarioTsunamiSmall_def ocean_of_example)
  show ?thesis
    unfolding p using l1 r2 low
    by (simp add: modelWavePropagation_def fs_def s_def deep_wave(1))
qed

text \<open>
  So the tsunami of the crater of 2 km has all 24 fronts, the last one after 23
  hours, and the one of \<open>2.5 * 10^12\<close> J ends before step 24, at a step where one
  of the two conditions holds.
\<close>

theorem tsunami_propagation_witness:
  "generated scenarioTsunamiShallow
   \<and> (0::real) < 100000000000000000000 \<and> (0::real) \<le> 2000
   \<and> (\<exists>pr. propagation scenarioTsunamiShallow = Some pr
          \<and> length (waveFronts pr) = 24
          \<and> wf_time (waveFronts pr ! 23) = 82800
          \<and> wf_radius (waveFronts pr ! 23) = sqrt 39240 * 82800
          \<and> wf_radius (waveFronts pr ! 23) \<le> 20000 * 1000
          \<and> js_ge (wf_height (waveFronts pr ! 23)) 0.01)
   \<and> sorted (map ce_arrivalTime (coastalEffects scenarioTsunamiShallow))
   \<and> generated scenarioTsunamiSmall
   \<and> (\<exists>pr. propagation scenarioTsunamiSmall = Some pr
          \<and> length (waveFronts pr) < 24
          \<and> (20000 * 1000
                < iw_speed (prop_initialWave pr) * (real (length (waveFronts pr)) * 3600)
              \<or> js_less (calculateWaveHeightDecay (iw_height (prop_initialWave pr))
                           (iw_speed (prop_initialWave pr) * (real (length (waveFronts pr)) * 3600))
                           (wavelength (prop_initialWave pr))) 0.01))"
proof -
  let ?E = "100000000000000000000 :: real"
  let ?l = "Some \<lparr> latitude = 0, longitude = -30 \<rparr>"
  let ?iw = "calculateInitialWave ?E 4000 2000"
  have g: "generated (calculateTsunami ?E ?l 2000)"
    using scenarioTsunamiShallow_generated by (simp add: scenarioTsunamiShallow_def)
  have i: "initialWave (calculateTsunami ?E ?l 2000) = Some ?iw"
    using tsunami_generated(5) [OF g] by (simp add: ocean_of_example)
  from tsunami_propagation [OF g] obtain loc iw pr where
      iw: "initialWave (calculateTsunami ?E ?l 2000) = Some iw"
    and pr: "propagation (calculateTsunami ?E ?l 2000) = Some pr"
    and len: "length (waveFronts pr) \<le> 24"
    and fronts: "\<forall>k < length (waveFronts pr).
          wf_time (waveFronts pr ! k) = real k * 3600
        \<and> wf_radius (waveFronts pr ! k) = iw_speed iw * (real k * 3600)
        \<and> wf_height (waveFronts pr ! k)
            = calculateWaveHeightDecay (iw_height iw) (iw_speed iw * (real k * 3600)) (wavelength iw)
        \<and> wf_radius (waveFronts pr ! k) \<le> 20000 * 1000
        \<and> \<not> js_less (wf_height (waveFronts pr ! k)) 0.01
        \<and> (0 < ?E \<and> (0::real) \<le> 2000 \<longrightarrow> js_ge (wf_height (waveFronts pr ! k)) 0.01)"
    and stop: "length (waveFronts pr) < 24 \<longrightarrow>
          iw_speed iw * (real (length (waveFronts pr)) * 3600) > 20000 * 1000
        \<or> js_less (calculateWaveHeightDecay (iw_height iw)
                     (iw_speed iw * (real (length (waveFronts pr)) * 3600)) (wavelength iw)) 0.01"
    and coast: "coastalEffects (calculateTsunami ?E ?l 2000)
         = coastalEffectsFor (getMajorCoastlines loc) (waveFronts pr) loc"
    and srt: "\<forall>cs. sorted (map ce_arrivalTime (coastalEffectsFor cs (waveFronts pr) loc))"
    by (elim exE conjE) blast
  have iw': "iw = ?iw" using iw i by simp
  have "\<not> length (waveFronts pr) < 24"
  proof
    assume n: "length (waveFronts pr) < 24"
    from shallow_steps [OF n] stop n show False
      unfolding iw' shallow_wave(1,2) by simp
  qed
  then have l24: "length (waveFronts pr) = 24" using len by simp
  then have "23 < length (waveFronts pr)" by simp
  note f = fronts [rule_format, OF this]
  have f23: "wf_time (waveFronts pr ! 23) = 82800"
      "wf_radius (waveFronts pr ! 23) = iw_speed iw * 82800"
      "wf_radius (waveFronts pr ! 23) \<le> 20000 * 1000"
      "js_ge (wf_height (waveFronts pr ! 23)) 0.01"
    using f by auto
  have "sorted (map ce_arrivalTime (coastalEffects (calculateTsunami ?E ?l 2000)))"
    unfolding coast using srt by blast
  then have shallow: "generated scenarioTsunamiShallow
   \<and> (0::real) < 100000000000000000000 \<and> (0::real) \<le> 2000
   \<and> (\<exists>pr. propagation scenarioTsunamiShallow = Some pr
          \<and> length (waveFronts pr) = 24
          \<and> wf_time (waveFronts pr ! 23) = 82800
          \<and> wf_radius (waveFronts pr ! 23) = sqrt 39240 * 82800
          \<and> wf_radius (waveFronts pr ! 23) \<le> 20000 * 1000
          \<and> js_ge (wf_height (waveFronts pr ! 23)) 0.01)
   \<and> sorted (map ce_arrivalTime (coastalEffects scenarioTsunamiShallow))"
    using g pr l24 f23 unfolding iw' shallow_wave(2) scenarioTsunamiShallow_def by simp
  let ?t = "calculateTsunami 2500000000000 ?l 1000"
  have gS: "generated ?t"
    using scenarioTsunamiSmall_generated by (simp add: scenarioTsunamiSmall_def)
  from tsunami_propagation [OF gS] obtain locS iwS prS where
      prS: "propagation ?t = Some prS"
    and piS: "prop_initialWave prS = iwS"
    and stopS: "length (waveFronts prS) < 24 \<longrightarrow>
          iw_speed iwS * (real (length (waveFronts prS)) * 3600) > 20000 * 1000
        \<or> js_less (calculateWaveHeightDecay (iw_height iwS)
                     (iw_speed iwS * (real (length (waveFronts prS)) * 3600)) (wavelength iwS)) 0.01"
    by (elim exE conjE) blast
  obtain pr' where "propagation scenarioTsunamiSmall = Some pr'" "length (waveFronts pr') = 1"
    using scenarioTsunamiSmall_stops_on_height by blast
  then have "length (waveFronts prS) = 1" using prS by (simp add: scenarioTsunamiSmall_def)
  then have lS: "length (waveFronts prS) < 24" by simp
  have small: "\<exists>pr. propagation scenarioTsunamiSmall = Some pr
          \<and> length (waveFronts pr) < 24
          \<and> (20000 * 1000
                < iw_speed (prop_initialWave pr) * (real (length (waveFronts pr)) * 3600)
              \<or> js_less (calculateWaveHeightDecay (iw_height (prop_initialWave pr))
                           (iw_speed (prop_initialWave pr) * (real (length (waveFronts pr)) * 3600))
                           (wavelength (prop_initialWave pr))) 0.01)"
    unfolding scenarioTsunamiSmall_def
    using prS lS stopS [rule_format, OF lS] unfolding piS [symmetric] by blast
  show ?thesis using shallow scenarioTsunamiSmall_generated small by blast
qed

subsection \<open>The sort, on a table with the keys\<close>

text \<open>
  The table of \<open>getMajorCoastlines\<close> gives no coastal effect, so the sort has
  nothing to do there.  It does on \<open>coastlinesWithKeys\<close>, whose coastlines have the
  keys that \<open>calculateDistance\<close> reads.  On the equator the haversine distance is
  the radius of the Earth times the difference of the longitudes, as an angle.
\<close>

lemma distance_on_equator:
  assumes "0 \<le> d" "d < EARTH_RADIUS"
  shows "calculateDistance \<lparr> latitude = 0, longitude = lng \<rparr>
           [(''latitude'', 0), (''longitude'', lng + (d / EARTH_RADIUS) * 180 / pi)] = Some d"
proof -
  define t where "t = d / EARTH_RADIUS / 2"
  have R: "0 < EARTH_RADIUS" by (simp add: EARTH_RADIUS_def)
  have t0: "0 \<le> t" unfolding t_def using assms(1) R by simp
  have "d / EARTH_RADIUS < 1" using assms(2) R by simp
  then have "t < 1 / 2" unfolding t_def by simp
  also have "\<dots> < pi / 2" using pi_ge_two by simp
  finally have t1: "t < pi / 2" .
  have c: "0 < cos t" using t0 t1 by (intro cos_gt_zero_pi) simp_all
  have s: "0 \<le> sin t" using t0 t1 by (intro sin_ge_zero) simp_all
  have sq1: "sqrt (sin t * sin t) = sin t" using s by simp
  have "1 - sin t * sin t = cos t * cos t"
    using sin_cos_squared_add [of t] by (simp add: power2_eq_square)
  then have sq2: "sqrt (1 - sin t * sin t) = cos t" using c by simp
  have "arctan (sin t / cos t) = t"
    using arctan_tan [of t] t0 t1 by (simp add: tan_def)
  then have at: "Math_atan2 (sin t) (cos t) = t" using c by (simp add: Math_atan2_def)
  have dl: "d / EARTH_RADIUS * 180 / pi * pi / 180 / 2 = t"
    by (simp add: t_def)
  have d: "EARTH_RADIUS * (2 * t) = d" unfolding t_def using R by simp
  show ?thesis
    unfolding calculateDistance_def Let_def
    by (simp add: dl abs_of_nonneg [OF s] sq2 at d
          del: divide_divide_eq_left times_divide_eq_left times_divide_eq_right)
qed


text \<open>
  The 24 fronts of the example with the crater of 2 km; none is below 0.1 m,
  the height that a coastal effect needs.
\<close>

lemma shallow_fronts:
  "length (propagateFrom (calculateInitialWave 100000000000000000000 4000 2000) 0) = 24"
  "k < 24 \<Longrightarrow>
     wf_time (propagateFrom (calculateInitialWave 100000000000000000000 4000 2000) 0 ! k)
       = real k * 3600
   \<and> wf_radius (propagateFrom (calculateInitialWave 100000000000000000000 4000 2000) 0 ! k)
       = sqrt 39240 * (real k * 3600)
   \<and> \<not> js_less (wf_height (propagateFrom (calculateInitialWave 100000000000000000000 4000 2000) 0 ! k))
          0.1"
proof -
  let ?iw = "calculateInitialWave 100000000000000000000 4000 2000"
  define fs where "fs = propagateFrom ?iw 0"
  obtain x where x: "iw_height ?iw = Num x" "100 \<le> x" using shallow_wave(3) by blast
  have h: "\<not> js_less (iw_height ?iw) 0.1" using x by simp
  note f = fronts_of_wave [OF h, folded fs_def, unfolded shallow_wave(1,2)]
  have "\<not> length fs < 24"
  proof
    assume n: "length fs < 24"
    from shallow_steps [OF n] f(4) [OF n] show False by simp
  qed
  then show l: "length fs = 24" using f(2) by simp
  show "wf_time (fs ! k) = real k * 3600
      \<and> wf_radius (fs ! k) = sqrt 39240 * (real k * 3600)
      \<and> \<not> js_less (wf_height (fs ! k)) 0.1" if "k < 24"
  proof -
    have k: "k < length fs" using that l by simp
    note n = f(3) [OF k]
    have r0: "0 \<le> sqrt 39240 * (real k * 3600)" by simp
    have r: "sqrt 39240 * (real k * 3600) \<le> 20000000" using shallow_steps(1) [OF that] by simp
    obtain y where "calculateWaveHeightDecay (Num x) (sqrt 39240 * (real k * 3600)) 100000 = Num y"
        "100 * (3 / 568) \<le> y"
      using calculateWaveHeightDecay_lower [OF x(2) _ r0 r, of 100000] by auto
    then have "\<not> js_less (wf_height (fs ! k)) 0.1" using n unfolding x(1) by simp
    then show ?thesis using n by blast
  qed
qed

lemma shallow_arrivals:
  "findWaveAtDistance (propagateFrom (calculateInitialWave 100000000000000000000 4000 2000) 0)
     (Some 720000)
     = Some (propagateFrom (calculateInitialWave 100000000000000000000 4000 2000) 0 ! 1)"
  "findWaveAtDistance (propagateFrom (calculateInitialWave 100000000000000000000 4000 2000) 0)
     (Some 1440000)
     = Some (propagateFrom (calculateInitialWave 100000000000000000000 4000 2000) 0 ! 2)"
proof -
  define fs where "fs = propagateFrom (calculateInitialWave 100000000000000000000 4000 2000) 0"
  define s where "s = sqrt 39240"
  have "sqrt (198\<^sup>2) \<le> sqrt 39240" by (rule real_sqrt_le_mono) simp
  then have s1: "198 \<le> s" unfolding s_def by simp
  have "sqrt 39240 \<le> sqrt (199\<^sup>2)" by (rule real_sqrt_le_mono) simp
  then have s2: "s \<le> 199" unfolding s_def by simp
  note f = shallow_fronts [folded fs_def s_def]
  have r0: "wf_radius (fs ! 0) = 0" using f(2) [of 0] by simp
  have r1: "wf_radius (fs ! 1) = s * 3600" using f(2) [of 1] by simp
  have r2: "wf_radius (fs ! 2) = s * 7200" using f(2) [of 2] by simp
  have "find (\<lambda>front. \<bar>wf_radius front - 720000\<bar> < wf_radius front * 0.1) fs = Some (fs ! 1)"
    unfolding find_Some_iff
  proof (intro exI [of _ 1] conjI allI impI)
    show "1 < length fs" using f(1) by simp
    show "\<bar>wf_radius (fs ! 1) - 720000\<bar> < wf_radius (fs ! 1) * 0.1"
      unfolding r1 using s1 s2 by (simp add: abs_if)
    show "fs ! 1 = fs ! 1" by simp
    show "\<not> \<bar>wf_radius (fs ! j) - 720000\<bar> < wf_radius (fs ! j) * 0.1" if "j < 1" for j
      using that r0 by simp
  qed
  then show "findWaveAtDistance fs (Some 720000) = Some (fs ! 1)"
    by (simp add: findWaveAtDistance_def)
  have "find (\<lambda>front. \<bar>wf_radius front - 1440000\<bar> < wf_radius front * 0.1) fs = Some (fs ! 2)"
    unfolding find_Some_iff
  proof (intro exI [of _ 2] conjI allI impI)
    show "2 < length fs" using f(1) by simp
    show "\<bar>wf_radius (fs ! 2) - 1440000\<bar> < wf_radius (fs ! 2) * 0.1"
      unfolding r2 using s1 s2 by (simp add: abs_if)
    show "fs ! 2 = fs ! 2" by simp
    show "\<not> \<bar>wf_radius (fs ! j) - 1440000\<bar> < wf_radius (fs ! j) * 0.1" if "j < 2" for j
    proof -
      have "j = 0 \<or> j = 1" using that by auto
      then show ?thesis using r0 r1 s1 s2 by (auto simp: abs_if)
    qed
  qed
  then show "findWaveAtDistance fs (Some 1440000) = Some (fs ! 2)"
    by (simp add: findWaveAtDistance_def)
qed

text \<open>
  The loop finds the far coastline first, in the front of two hours, and the
  near one after it, in the front of one hour; the sort puts the near one first.
\<close>

lemma coastal_order_example:
  "map ce_arrivalTime
     (coastalEffectsOf (propagateFrom (calculateInitialWave 100000000000000000000 4000 2000) 0)
        \<lparr> latitude = 0, longitude = -30 \<rparr> coastlinesWithKeys) = [7200, 3600]"
  "map ce_arrivalTime
     (coastalEffectsFor coastlinesWithKeys
        (propagateFrom (calculateInitialWave 100000000000000000000 4000 2000) 0)
        \<lparr> latitude = 0, longitude = -30 \<rparr>) = [3600, 7200]"
proof -
  define fs where "fs = propagateFrom (calculateInitialWave 100000000000000000000 4000 2000) 0"
  define far where "far = coastlinesWithKeys ! 0"
  define near where "near = coastlinesWithKeys ! 1"
  have cs: "coastlinesWithKeys = [far, near]"
    by (simp add: far_def near_def coastlinesWithKeys_def)
  have R: "(1440000::real) < EARTH_RADIUS" "(720000::real) < EARTH_RADIUS"
    by (simp_all add: EARTH_RADIUS_def)
  have dF: "calculateDistance \<lparr> latitude = 0, longitude = -30 \<rparr> (cl_coordinates far) = Some 1440000"
    unfolding far_def coastlinesWithKeys_def using distance_on_equator [OF _ R(1), of "-30"] by simp
  have dN: "calculateDistance \<lparr> latitude = 0, longitude = -30 \<rparr> (cl_coordinates near) = Some 720000"
    unfolding near_def coastlinesWithKeys_def using distance_on_equator [OF _ R(2), of "-30"] by simp
  note a = shallow_arrivals [folded fs_def]
  note f = shallow_fronts(2) [folded fs_def]
  have t: "wf_time (fs ! 1) = 3600" "wf_time (fs ! 2) = 7200"
    using f [of 1] f [of 2] by simp_all
  have h: "\<not> js_less (wf_height (fs ! 1)) 0.1" "\<not> js_less (wf_height (fs ! 2)) 0.1"
    using f [of 1] f [of 2] by simp_all
  have t': "wf_time (fs ! Suc 0) = 3600" using t(1) by simp
  have h': "\<not> js_less (wf_height (fs ! Suc 0)) 0.1" using h(1) by simp
  show "map ce_arrivalTime (coastalEffectsOf fs \<lparr> latitude = 0, longitude = -30 \<rparr> coastlinesWithKeys)
          = [7200, 3600]"
    unfolding cs by (simp add: Let_def dF dN a t h t' h')
  show "map ce_arrivalTime (coastalEffectsFor coastlinesWithKeys fs \<lparr> latitude = 0, longitude = -30 \<rparr>)
          = [3600, 7200]"
    unfolding cs coastalEffectsFor_def by (simp add: Let_def dF dN a t h t' h')
qed

section \<open>The zones of a significant earthquake\<close>

subsection \<open>Where the zone list is not empty\<close>

lemma fold_max_ge: "(x::real) \<le> fold max xs x"
proof (induction xs arbitrary: x)
  case Nil
  then show ?case by simp
next
  case (Cons y ys)
  have "x \<le> max y x" by simp
  also have "\<dots> \<le> fold max ys (max y x)" by (rule Cons.IH)
  finally show ?case by simp
qed

lemma collectZones_above_floor:
  "z \<in> set (collectZones M loc levels idx) \<Longrightarrow> 500 < zone_radius z"
  by (induction levels arbitrary: idx) (auto simp: Let_def split: if_splits)

lemma effectRadius_of_zones:
  assumes "significant (calculateSeismicEffects E loc cd)"
    and "zones (calculateSeismicEffects E loc cd) \<noteq> []"
  shows "\<exists>x. effectRadius (calculateSeismicEffects E loc cd) = Num x \<and> 500 < x"
proof -
  obtain l where l: "loc = Some l" "\<not> calculateMagnitude E < 3"
    using assms(1) by (cases loc) (auto simp: calculateSeismicEffects_def Let_def split: if_splits)
  let ?zs = "calculateIntensityZones (calculateMagnitude E) l cd"
  have z: "zones (calculateSeismicEffects E loc cd) = ?zs"
    and e: "effectRadius (calculateSeismicEffects E loc cd) = Math_max_spread (map zone_radius ?zs)"
    using l by (simp_all add: calculateSeismicEffects_def Let_def)
  from assms(2) z obtain y ys where ys: "?zs = y # ys" by (cases ?zs) auto
  have "y \<in> set ?zs" by (simp add: ys)
  then have "500 < zone_radius y"
    unfolding calculateIntensityZones_rev set_rev by (rule collectZones_above_floor)
  also have "zone_radius y \<le> fold max (map zone_radius ys) (zone_radius y)" by (rule fold_max_ge)
  finally show ?thesis unfolding e ys by simp
qed

lemma zones_nonempty_small_crater:
  assumes "3 \<le> calculateMagnitude E" "cd < 1000"
  shows "zones (calculateSeismicEffects E (Some loc) cd) \<noteq> []"
proof -
  define M where "M = calculateMagnitude E"
  define base where "base = min 12 (max 3 \<lfloor>M * 1.5 + 2\<rfloor>)"
  have M: "3 \<le> M" using assms(1) by (simp add: M_def)
  have b3: "3 \<le> base" by (simp add: base_def)
  have "real_of_int \<lfloor>M * 1.5 + 2\<rfloor> \<le> M * 1.5 + 2" by (rule of_int_floor_le)
  then have bM: "real_of_int base \<le> 2 + 1.5 * M"
    using M by (simp add: base_def min_def max_def)
  have r: "1000 \<le> calculateIntensityRadius M base loc" using bM by (rule radius_above_floor)
  have lv: "intensityLevelsFrom base base cd =
      \<lparr> lvl_intensity = base, lvl_description = getIntensityDescription base,
        lvl_damageLevel = real_of_int base / 12, lvl_baseRadius = cd \<rparr>
      # intensityLevelsFrom base (base - 2) cd"
    using b3 by (subst intensityLevelsFrom.simps) (simp add: Let_def)
  have "collectZones M loc (intensityLevelsFrom base base cd) 0 \<noteq> []"
    unfolding lv using r assms(2) by (simp add: Let_def)
  then have "calculateIntensityZones M loc cd \<noteq> []"
    unfolding calculateIntensityZones_rev base_def by simp
  then show ?thesis
    using M by (simp add: calculateSeismicEffects_def Let_def M_def)
qed

lemma collectZones_nonempty_iff:
  "collectZones M loc levels idx \<noteq> [] \<longleftrightarrow>
     (\<exists>l \<in> set levels. max (lvl_baseRadius l) 500 < calculateIntensityRadius M (lvl_intensity l) loc)"
  by (induction levels arbitrary: idx) (auto simp: Let_def)

lemma effectRadius_is_Max:
  assumes "significant (calculateSeismicEffects E loc cd)"
    and "zones (calculateSeismicEffects E loc cd) \<noteq> []"
  shows "effectRadius (calculateSeismicEffects E loc cd)
           = Num (Max (zone_radius ` set (zones (calculateSeismicEffects E loc cd))))"
proof -
  obtain l where l: "loc = Some l" "\<not> calculateMagnitude E < 3"
    using assms(1) by (cases loc) (auto simp: calculateSeismicEffects_def Let_def split: if_splits)
  let ?zs = "calculateIntensityZones (calculateMagnitude E) l cd"
  have z: "zones (calculateSeismicEffects E loc cd) = ?zs"
    and e: "effectRadius (calculateSeismicEffects E loc cd) = Math_max_spread (map zone_radius ?zs)"
    using l by (simp_all add: calculateSeismicEffects_def Let_def)
  from assms(2) z obtain y ys where ys: "?zs = y # ys" by (cases ?zs) auto
  have "Max (set (zone_radius y # map zone_radius ys)) = fold max (map zone_radius ys) (zone_radius y)"
    by (rule Max.set_eq_fold)
  then show ?thesis unfolding e z ys by simp
qed

text \<open>
  C9, as amended.  When the magnitude is at least 3.0 and the location valid, the
  result is significant; its zone list is non-empty exactly when the attenuation
  radius of at least one intensity level exceeds that level's floor
  \<open>max (baseRadius, 500)\<close>, which is so whenever the crater diameter is below
  1000 m; and when the list is non-empty, the effect radius is the maximum of the
  zone radii and is above 500 m.
\<close>

theorem zones_when_significant:
  assumes "3 \<le> calculateMagnitude E"
  shows "significant (calculateSeismicEffects E (Some loc) cd)
       \<and> (zones (calculateSeismicEffects E (Some loc) cd) \<noteq> [] \<longleftrightarrow>
            (\<exists>l \<in> set (intensityLevelsFrom (min 12 (max 3 \<lfloor>calculateMagnitude E * 1.5 + 2\<rfloor>))
                            (min 12 (max 3 \<lfloor>calculateMagnitude E * 1.5 + 2\<rfloor>)) cd).
               max (lvl_baseRadius l) 500
                 < calculateIntensityRadius (calculateMagnitude E) (lvl_intensity l) loc))
       \<and> (cd < 1000 \<longrightarrow> zones (calculateSeismicEffects E (Some loc) cd) \<noteq> [])
       \<and> (zones (calculateSeismicEffects E (Some loc) cd) \<noteq> [] \<longrightarrow>
            (\<exists>x. effectRadius (calculateSeismicEffects E (Some loc) cd) = Num x
                 \<and> x = Max (zone_radius ` set (zones (calculateSeismicEffects E (Some loc) cd)))
                 \<and> 500 < x))"
proof -
  have s: "significant (calculateSeismicEffects E (Some loc) cd)"
    using assms by (simp add: calculateSeismicEffects_def Let_def)
  have z: "zones (calculateSeismicEffects E (Some loc) cd)
             = calculateIntensityZones (calculateMagnitude E) loc cd"
    using assms by (simp add: calculateSeismicEffects_def Let_def)
  have iff: "zones (calculateSeismicEffects E (Some loc) cd) \<noteq> [] \<longleftrightarrow>
            (\<exists>l \<in> set (intensityLevelsFrom (min 12 (max 3 \<lfloor>calculateMagnitude E * 1.5 + 2\<rfloor>))
                            (min 12 (max 3 \<lfloor>calculateMagnitude E * 1.5 + 2\<rfloor>)) cd).
               max (lvl_baseRadius l) 500
                 < calculateIntensityRadius (calculateMagnitude E) (lvl_intensity l) loc)"
    unfolding z calculateIntensityZones_rev by (simp add: collectZones_nonempty_iff)
  have small: "zones (calculateSeismicEffects E (Some loc) cd) \<noteq> []" if "cd < 1000"
    using assms that by (rule zones_nonempty_small_crater)
  have eff: "\<exists>x. effectRadius (calculateSeismicEffects E (Some loc) cd) = Num x
                 \<and> x = Max (zone_radius ` set (zones (calculateSeismicEffects E (Some loc) cd)))
                 \<and> 500 < x"
    if ne: "zones (calculateSeismicEffects E (Some loc) cd) \<noteq> []"
    using effectRadius_of_zones [OF s ne] effectRadius_is_Max [OF s ne] by auto
  show ?thesis using s iff small eff by blast
qed

theorem zones_when_significant_witness:
  "3 \<le> calculateMagnitude 10000000000000000
   \<and> (100::real) < 1000
   \<and> significant scenarioQuake
   \<and> zones scenarioQuake \<noteq> []
   \<and> (\<exists>x. effectRadius scenarioQuake = Num x \<and> 500 < x)"
proof -
  have m: "3 \<le> calculateMagnitude 10000000000000000" by (simp add: magnitude_quake)
  have c: "(100::real) < 1000" by simp
  from zones_when_significant [OF m, of "\<lparr> latitude = 0, longitude = 0 \<rparr>" 100,
      folded scenarioQuake_def] m c
  show ?thesis by blast
qed

subsection \<open>A magnitude of 10 and a crater wider than every attenuation radius\<close>

lemma powr_rational_le:
  fixes a b :: real
  assumes "0 < a" "0 < b" "0 < q" "a ^ p \<le> b ^ q"
  shows "a powr (real p / real q) \<le> b"
proof -
  have "a powr (real p / real q) = (a powr real p) powr (1 / real q)"
    by (simp add: powr_powr)
  also have "\<dots> = (a ^ p) powr (1 / real q)" using assms(1) by (simp add: powr_realpow)
  also have "\<dots> \<le> (b ^ q) powr (1 / real q)"
    using assms by (intro powr_mono2) simp_all
  also have "\<dots> = (b powr real q) powr (1 / real q)" using assms(2) by (simp add: powr_realpow)
  also have "\<dots> = b" using assms(2,3) by (simp add: powr_powr)
  finally show ?thesis .
qed

lemma radius_at_magnitude_10:
  "calculateIntensityRadius 10 12 loc \<le> 100000"
  "calculateIntensityRadius 10 10 loc \<le> 100000"
  "calculateIntensityRadius 10 8 loc \<le> 1000000"
  "calculateIntensityRadius 10 6 loc \<le> 2000000"
  "calculateIntensityRadius 10 4 loc \<le> 8000000"
proof -
  have a: "(10::real) powr (real 10 / real 7) \<le> 100"
    by (rule powr_rational_le) simp_all
  have b: "(10::real) powr (real 14 / real 7) \<le> 100"
    by (rule powr_rational_le) simp_all
  have c: "(10::real) powr (real 18 / real 7) \<le> 1000"
    by (rule powr_rational_le) simp_all
  have d: "(10::real) powr (real 22 / real 7) \<le> 2000"
    by (rule powr_rational_le) simp_all
  have e: "(10::real) powr (real 26 / real 7) \<le> 8000"
    by (rule powr_rational_le) simp_all
  show "calculateIntensityRadius 10 12 loc \<le> 100000"
    using a by (simp add: calculateIntensityRadius_closed)
  show "calculateIntensityRadius 10 10 loc \<le> 100000"
    using b by (simp add: calculateIntensityRadius_closed)
  show "calculateIntensityRadius 10 8 loc \<le> 1000000"
    using c by (simp add: calculateIntensityRadius_closed)
  show "calculateIntensityRadius 10 6 loc \<le> 2000000"
    using d by (simp add: calculateIntensityRadius_closed)
  show "calculateIntensityRadius 10 4 loc \<le> 8000000"
    using e by (simp add: calculateIntensityRadius_closed)
qed

lemma levels_at_base_12:
  "map (\<lambda>l. (lvl_intensity l, lvl_baseRadius l)) (intensityLevelsFrom 12 12 cd)
     = [(12, cd), (10, cd * 2), (8, cd * 4), (6, cd * 8), (4, cd * 16)]"
proof -
  have p: "(2::real) powr 2 = 4" "(2::real) powr 3 = 8" "(2::real) powr 4 = 16"
    by (simp_all add: powr_numeral)
  show ?thesis
    by (simp add: intensityLevelsFrom.simps [of 12 12] intensityLevelsFrom.simps [of 12 10]
        intensityLevelsFrom.simps [of 12 8] intensityLevelsFrom.simps [of 12 6]
        intensityLevelsFrom.simps [of 12 4] intensityLevelsFrom.simps [of 12 2] Let_def p)
qed

lemma collectZones_none:
  assumes "\<forall>l \<in> set levels. calculateIntensityRadius M (lvl_intensity l) loc \<le> lvl_baseRadius l"
  shows "collectZones M loc levels idx = []"
  using assms by (induction levels arbitrary: idx) (auto simp: Let_def)

lemma no_zones_at_magnitude_10:
  assumes "595000 \<le> cd"
  shows "calculateIntensityZones 10 loc cd = []"
proof -
  have base: "min 12 (max 3 \<lfloor>(10::real) * 1.5 + 2\<rfloor>) = 12" by simp
  have "calculateIntensityRadius 10 (fst x) loc \<le> snd x"
    if "x \<in> set [(12, cd), (10, cd * 2), (8, cd * 4), (6, cd * 8), (4, cd * 16)]" for x
    using that assms radius_at_magnitude_10 [of loc] by auto
  then have "\<forall>x \<in> set (map (\<lambda>l. (lvl_intensity l, lvl_baseRadius l)) (intensityLevelsFrom 12 12 cd)).
               calculateIntensityRadius 10 (fst x) loc \<le> snd x"
    unfolding levels_at_base_12 by blast
  then have "\<forall>l \<in> set (intensityLevelsFrom 12 12 cd).
               calculateIntensityRadius 10 (lvl_intensity l) loc \<le> lvl_baseRadius l"
    by simp
  then have "collectZones 10 loc (intensityLevelsFrom 12 12 cd) 0 = []"
    by (rule collectZones_none)
  then show ?thesis unfolding calculateIntensityZones_rev base by simp
qed

lemma seismic_without_zones:
  assumes "calculateMagnitude E = 10" "595000 \<le> cd"
  shows "seis_magnitude (calculateSeismicEffects E (Some loc) cd) = 10"
    and "significant (calculateSeismicEffects E (Some loc) cd)"
    and "zones (calculateSeismicEffects E (Some loc) cd) = []"
    and "effectRadius (calculateSeismicEffects E (Some loc) cd) = NegInfinity"
  using assms by (simp_all add: calculateSeismicEffects_def Let_def no_zones_at_magnitude_10)

lemma magnitude_clamped:
  assumes "10 ^ 27 \<le> E"
  shows "calculateMagnitude E = 10"
proof -
  have "(10::real) ^ 25 \<le> E * 0.01" using assms by simp
  then have "log 10 (10 ^ 25) \<le> log 10 (E * 0.01)"
    by (intro log_mono) simp_all
  then have "25 \<le> log 10 (E * 0.01)" by (simp only: log_pow_cancel)
  then have "10 \<le> (log 10 (E * 0.01) - 9.1) / 1.5" by simp
  then show ?thesis by (simp add: calculateMagnitude_def Let_def)
qed

subsection \<open>A rock of 100000 km at 20 km/s, straight down\<close>

lemma powr_root_ge:
  fixes a b :: real
  assumes "0 < b" "0 < q" "b ^ q \<le> a"
  shows "b \<le> a powr (1 / real q)"
proof -
  have "b = (b powr real q) powr (1 / real q)" using assms(1,2) by (simp add: powr_powr)
  also have "\<dots> = (b ^ q) powr (1 / real q)" using assms(1) by (simp add: powr_realpow)
  also have "\<dots> \<le> a powr (1 / real q)" using assms by (intro powr_mono2) simp_all
  finally show ?thesis .
qed

lemma scenarioGiant_valid: "validParameters scenarioGiant"
  by (simp add: validParameters_def scenarioGiant_def)

lemma scenarioGiant_survives: "atm_survivesAtmosphere (entry scenarioGiant)"
proof -
  have "calculateSurvivalDiameter 20 2700 \<le> 50"
    by (rule calculateSurvivalDiameter_le_50) simp_all
  then show ?thesis
    by (simp add: entry_survives_iff scenarioGiant_def asteroidDensity_def getAsteroidDensity_def)
qed

lemma scenarioGiant_final:
  "atm_finalMass (entry scenarioGiant) = pi * 450000000000000000000000000 * (149999999 / 150000000)"
  "atm_finalVelocity (entry scenarioGiant) = 20 * (499999999 / 500000000)"
proof -
  have d: "asteroidDensity scenarioGiant = 2700"
    by (simp add: asteroidDensity_def scenarioGiant_def getAsteroidDensity_def)
  have l: "calculateMassLossRatio 100000000 20 2700 = 1 / 150000000"
    by (simp add: calculateMassLossRatio_def Let_def)
  show "atm_finalMass (entry scenarioGiant) = pi * 450000000000000000000000000 * (149999999 / 150000000)"
    unfolding entry_surviving(1) [OF scenarioGiant_survives] d
    by (simp add: scenarioGiant_def calculateFinalMass_def calculateMass_def l Let_def)
  show "atm_finalVelocity (entry scenarioGiant) = 20 * (499999999 / 500000000)"
    unfolding entry_surviving(2) [OF scenarioGiant_survives] d
    by (simp add: scenarioGiant_def calculateFinalVelocity_def l Let_def)
qed

lemma scenarioGiant_mass_bound: "30000 ^ 6 \<le> atm_finalMass (entry scenarioGiant)"
proof -
  have "(30000::real) ^ 6 \<le> 2 * 450000000000000000000000000 * (149999999 / 150000000)" by simp
  also have "\<dots> \<le> pi * 450000000000000000000000000 * (149999999 / 150000000)"
    using pi_ge_two by (intro mult_right_mono) simp_all
  finally show ?thesis unfolding scenarioGiant_final .
qed

lemma scenarioGiant_energy: "10 ^ 27 \<le> finalEnergy scenarioGiant"
proof -
  have "(10::real) ^ 27 \<le> 0.5 * 30000 ^ 6 * (20 * (499999999 / 500000000) * 1000)\<^sup>2"
    by (simp add: power2_eq_square)
  also have "\<dots> \<le> 0.5 * atm_finalMass (entry scenarioGiant) * (20 * (499999999 / 500000000) * 1000)\<^sup>2"
    using scenarioGiant_mass_bound by (intro mult_right_mono mult_left_mono) simp_all
  finally show ?thesis
    by (simp add: finalEnergy_def calculateKineticEnergy_def Let_def scenarioGiant_final(2))
qed

lemma scenarioGiant_crater: "595000 \<le> crater_diameter (craterResults scenarioGiant)"
proof -
  define c :: real where
    "c = 0.5 * (atm_finalVelocity (entry scenarioGiant) * 1000)\<^sup>2
           * sin (p_angle scenarioGiant * pi / 180) / (2700 * 9.81)"
  define k :: real where "k = 2700 powr (1/12)"
  define m :: real where "m = atm_finalMass (entry scenarioGiant) powr (1/6)"
  have sn: "sin (p_angle scenarioGiant * pi / 180) = 1"
    by (simp add: scenarioGiant_def)
  have "(9::real) ^ 4 \<le> c"
    unfolding c_def sn scenarioGiant_final(2) by (simp add: power2_eq_square)
  then have "9 \<le> c powr (1 / real 4)" by (intro powr_root_ge) simp_all
  then have c9: "9 \<le> c powr 0.25" by simp
  have "(1.9::real) \<le> 2700 powr (1 / real 12)"
    by (intro powr_root_ge) (simp_all add: power_divide)
  then have k19: "1.9 \<le> k" by (simp add: k_def)
  have "30000 \<le> atm_finalMass (entry scenarioGiant) powr (1 / real 6)"
    using scenarioGiant_mass_bound by (intro powr_root_ge) simp_all
  then have m3: "30000 \<le> m" by (simp add: m_def)
  define x :: real where "x = 1.161 * (c powr 0.25 * k)"
  have "9 * 1.9 \<le> c powr 0.25 * k" using c9 k19 by (rule mult_mono) simp_all
  then have x: "1.161 * (9 * 1.9) \<le> x" unfolding x_def by (rule mult_left_mono) simp
  then have x0: "0 \<le> x" by simp
  have "1.161 * (9 * 1.9) * 30000 \<le> x * m" by (rule mult_mono [OF x m3 x0]) simp
  moreover have "crater_diameter (craterResults scenarioGiant) = x * m"
    unfolding x_def c_def k_def m_def
    by (rule crater_diameter_of_pipeline [OF scenarioGiant_valid scenarioGiant_survives])
  ultimately show ?thesis by simp
qed

text \<open>
  C9, as stated, fails on this input: the impactor survives, the magnitude is 10
  and the result is significant, yet every level's attenuation radius is below
  its crater-scaled floor, so there are no zones and the effect radius is
  \<open>Math.max()\<close> of no arguments, \<open>-Infinity\<close>.
\<close>

theorem significant_without_zones:
  "validParameters scenarioGiant
   \<and> survivesAtmosphere (calculateImpact scenarioGiant)
   \<and> map_option seismicMagnitude (phase2 (calculateImpact scenarioGiant)) = Some 10
   \<and> map_option seismicSignificant (phase2 (calculateImpact scenarioGiant)) = Some True
   \<and> map_option seismicZones (phase2 (calculateImpact scenarioGiant)) = Some []
   \<and> map_option seismicRadius (phase2 (calculateImpact scenarioGiant)) = Some NegInfinity"
proof -
  note s = seismic_without_zones [OF magnitude_clamped [OF scenarioGiant_energy] scenarioGiant_crater]
  show ?thesis
    using scenarioGiant_valid scenarioGiant_survives
    by (simp add: survives_iff phase2_surviving [OF scenarioGiant_survives refl refl refl] s)
qed

end
